(* ===== verification/Prelude.thy ===== *)
theory Prelude
  imports Main "HOL-Library.Multiset"
begin

text \<open>
  Shared vocabulary of the Hackbright project-tracker development
  (\<^verbatim>\<open>src/hackbright.py\<close>): the exceptions a run can raise, the text a run writes
  to standard output, the sequencing of Python statements that may raise, the collection
  \<open>py_simps\<close> of evaluation rules that \<^theory_text>\<open>Py_Runtime\<close> fills, and the list
  and map lemmas the component proofs share.
  \<^item> \<open>py_error\<close> names the exceptions the script can end with; every raise of the
    source is an \<open>Inl\<close> of this type.
  \<^item> \<open>stdout\<close> is standard output as the list of the strings written to it, one
    element per \<^verbatim>\<open>print\<close> or prompt.
  \<^item> \<open>py_seq\<close> runs the next statement only if the previous one did not raise, and
    \<open>py_out\<close> prints before the next; an exception keeps what was printed before it.
\<close>

named_theorems py_simps "evaluation rules of Python indexing, slicing and unpacking"

section \<open>Exceptions\<close>

text \<open>
  The exceptions the script can raise and does not catch. \<open>ValueError e g\<close> is the
  tuple-unpacking failure of \<^verbatim>\<open>a, b, c = args\<close> (\<open>e\<close> values expected,
  \<open>g\<close> given); \<open>IntegrityError tbl\<close> is a constraint violation reported by the
  store for table \<open>tbl\<close>; \<open>TypeError\<close> is the subscript of the \<^verbatim>\<open>None\<close> that
  \<^verbatim>\<open>fetchone()\<close> returns on an empty result; \<open>EOFError\<close> is \<^verbatim>\<open>input()\<close>
  at the end of standard input; \<open>RuntimeError\<close> and \<open>AssertionError\<close> are
  Flask-SQLAlchemy's refusals to give out \<^verbatim>\<open>db.session\<close> when no application
  is bound to \<^verbatim>\<open>db\<close> or the extension was never initialised on it;
  \<open>StatementError\<close> is SQLAlchemy's refusal to send a statement with a bind
  parameter the dictionary gives no value for, and \<open>ProgrammingError\<close> is the
  server's rejection of a statement (a syntax error, an unknown table or column);
  \<open>ResourceClosedError\<close> is \<^verbatim>\<open>fetchone()\<close> on the cursor of a statement
  that returns no rows.
\<close>

datatype py_error =
    IndexError
  | ValueError nat nat
  | TypeError
  | EOFError
  | IntegrityError string
  | RuntimeError
  | AssertionError
  | StatementError
  | ProgrammingError
  | ResourceClosedError

type_synonym 'a py_result = "py_error + 'a"

text \<open>A statement that may raise, followed by one that uses its value.\<close>

definition py_bind :: "'a py_result \<Rightarrow> ('a \<Rightarrow> 'b py_result) \<Rightarrow> 'b py_result" where
  "py_bind r f = (case r of Inl e \<Rightarrow> Inl e | Inr x \<Rightarrow> f x)"

section \<open>Standard output\<close>

type_synonym stdout = "string list"

definition nl :: string where
  "nl = [CHR 0x0A]"

text \<open>\<^verbatim>\<open>print(s)\<close> writes \<open>s\<close> followed by a newline.\<close>

definition py_print :: "string \<Rightarrow> string" where
  "py_print s = s @ nl"

section \<open>Statements that print and may raise\<close>

text \<open>A sequence of statements writes output and then either raises or returns:
  \<open>Inl (out, e)\<close> is the exception \<open>e\<close> raised after \<open>out\<close> was written, so
  what was printed before an exception is kept. \<open>py_seq r f\<close> runs a statement
  \<open>r\<close> that prints nothing and may raise, then continues with \<open>f\<close>;
  \<open>py_out out r\<close> prints \<open>out\<close> and then runs \<open>r\<close>.\<close>

type_synonym 'a py_run = "(stdout \<times> py_error) + (stdout \<times> 'a)"

definition py_seq :: "'a py_result \<Rightarrow> ('a \<Rightarrow> 'b py_run) \<Rightarrow> 'b py_run" where
  "py_seq r f = (case r of Inl e \<Rightarrow> Inl ([], e) | Inr x \<Rightarrow> f x)"

definition py_out :: "stdout \<Rightarrow> 'a py_run \<Rightarrow> 'a py_run" where
  "py_out out r = (case r of Inl (o1, e) \<Rightarrow> Inl (out @ o1, e) | Inr (o1, x) \<Rightarrow> Inr (out @ o1, x))"

section \<open>Lemmas on sequencing\<close>

lemma py_bind_simps [simp]:
  "py_bind (Inl e) f = Inl e"
  "py_bind (Inr x) f = f x"
  by (simp_all add: py_bind_def)

lemma py_seq_Inl [simp]: "py_seq (Inl e) f = Inl ([], e)"
  by (simp add: py_seq_def)

lemma py_seq_Inr [simp]: "py_seq (Inr x) f = f x"
  by (simp add: py_seq_def)

lemma py_seq_eq_Inr [simp]:
  "(py_seq r f = Inr y) = (\<exists>x. r = Inr x \<and> f x = Inr y)"
  by (cases r) auto

lemma py_seq_eq_Inl:
  "(py_seq r f = Inl p) = ((\<exists>e. r = Inl e \<and> p = ([], e)) \<or> (\<exists>x. r = Inr x \<and> f x = Inl p))"
  by (cases r) auto

lemma py_out_simps [simp]:
  "py_out out (Inl (o1, e)) = Inl (out @ o1, e)"
  "py_out out (Inr (o1, x)) = Inr (out @ o1, x)"
  by (simp_all add: py_out_def)

lemma py_out_eq_Inr [simp]:
  "(py_out out r = Inr (o2, x)) = (\<exists>o1. r = Inr (o1, x) \<and> o2 = out @ o1)"
  by (cases r) (auto simp: py_out_def)

lemma py_out_eq_Inl [simp]:
  "(py_out out r = Inl (o2, e)) = (\<exists>o1. r = Inl (o1, e) \<and> o2 = out @ o1)"
  by (cases r) (auto simp: py_out_def)

section \<open>Lemmas on output\<close>

lemma py_print_inj [simp]: "(py_print a = py_print b) = (a = b)"
  by (simp add: py_print_def)

lemma py_print_not_Nil [simp]: "py_print s \<noteq> []"
  by (simp add: py_print_def nl_def)

lemma last_py_print [simp]: "last (py_print s) = CHR 0x0A"
  by (simp add: py_print_def nl_def)

section \<open>Generic list facts\<close>

lemma filter_empty_iff_not_ex: "(filter P xs = []) = (\<forall>x\<in>set xs. \<not> P x)"
  by (induction xs) auto

lemma filter_append_single_hit:
  "filter P xs = [] \<Longrightarrow> P y \<Longrightarrow> filter P (xs @ [y]) = [y]"
  by simp

lemma filter_append_single_miss:
  "\<not> P y \<Longrightarrow> filter P (xs @ [y]) = filter P xs"
  by simp

lemma distinct_map_filter_le1:
  "distinct (map f xs) \<Longrightarrow> length (filter (\<lambda>r. f r = k) xs) \<le> 1"
proof (induction xs)
  case Nil
  then show ?case by simp
next
  case (Cons x xs)
  then have "f x = k \<Longrightarrow> filter (\<lambda>r. f r = k) xs = []"
    by (auto simp: filter_empty_iff_not_ex image_iff)
  with Cons show ?case by auto
qed


lemma filter_key_single:
  "distinct (map f xs) \<Longrightarrow> x \<in> set xs \<Longrightarrow> filter (\<lambda>r. f r = f x) xs = [x]"
proof (induction xs)
  case Nil
  then show ?case by simp
next
  case (Cons y ys)
  show ?case
  proof (cases "y = x")
    case True
    with Cons.prems have "\<forall>r\<in>set ys. f r \<noteq> f x" by (force simp: image_iff)
    with True show ?thesis by (simp add: filter_empty_iff_not_ex)
  next
    case False
    with Cons.prems have "x \<in> set ys" "f y \<noteq> f x" by (auto simp: image_iff)
    with Cons show ?thesis by simp
  qed
qed

lemma map_of_snoc_fresh:
  "k \<notin> fst ` set xs \<Longrightarrow> map_of (xs @ [(k, v)]) = (map_of xs)(k \<mapsto> v)"
  by (induction xs) (auto simp: fun_upd_twist)

end
