(* ===== verification/Py_Runtime.thy ===== *)
theory Py_Runtime
  imports Prelude
begin

text \<open>
  The Python semantics the command loop of \<^verbatim>\<open>handle_input\<close> relies on when it takes
  a token list apart: indexing (\<^verbatim>\<open>args[0]\<close>, \<^verbatim>\<open>args[-1]\<close>, \<^verbatim>\<open>tokens[0]\<close>),
  slicing (\<^verbatim>\<open>tokens[1:]\<close>, \<^verbatim>\<open>args[1:-1]\<close>) and tuple unpacking
  (\<^verbatim>\<open>github, title = args\<close>). Each is total here: an index out of range is
  \<open>Inl IndexError\<close> and an unpacking of the wrong length is \<open>Inl ValueError\<close>,
  where HOL's own \<open>nth\<close> would return an unspecified element.
\<close>

section \<open>Indexing, slicing, unpacking\<close>

text \<open>\<^verbatim>\<open>xs[i]\<close>: a negative index counts from the end.\<close>

definition py_nth :: "'a list \<Rightarrow> int \<Rightarrow> 'a py_result" where
  "py_nth xs i =
     (let k = (if i < 0 then int (length xs) + i else i)
      in if 0 \<le> k \<and> k < int (length xs) then Inr (xs ! nat k) else Inl IndexError)"

text \<open>\<^verbatim>\<open>xs[i:j]\<close> with step 1: both bounds are clamped into the list, a negative
  bound counts from the end, a missing stop is the end; no slice raises.\<close>

definition py_clamp :: "int \<Rightarrow> int \<Rightarrow> nat" where
  "py_clamp n i = nat (if i < 0 then max 0 (n + i) else min i n)"

definition py_slice :: "'a list \<Rightarrow> int \<Rightarrow> int option \<Rightarrow> 'a list" where
  "py_slice xs i j =
     (let n = int (length xs);
          a = py_clamp n i;
          b = (case j of None \<Rightarrow> length xs | Some j' \<Rightarrow> py_clamp n j')
      in take (b - a) (drop a xs))"

definition unpack2 :: "'a list \<Rightarrow> ('a \<times> 'a) py_result" where
  "unpack2 xs = (case xs of [a, b] \<Rightarrow> Inr (a, b) | _ \<Rightarrow> Inl (ValueError 2 (length xs)))"

definition unpack3 :: "'a list \<Rightarrow> ('a \<times> 'a \<times> 'a) py_result" where
  "unpack3 xs = (case xs of [a, b, c] \<Rightarrow> Inr (a, b, c) | _ \<Rightarrow> Inl (ValueError 3 (length xs)))"

section \<open>Lemmas\<close>

lemma py_nth_0 [py_simps]:
  "py_nth xs 0 = (case xs of [] \<Rightarrow> Inl IndexError | x # _ \<Rightarrow> Inr x)"
  by (cases xs) (simp_all add: py_nth_def)

lemma py_nth_last [py_simps]:
  "py_nth xs (-1) = (if xs = [] then Inl IndexError else Inr (last xs))"
  by (cases xs rule: rev_cases) (simp_all add: py_nth_def nth_append)

lemma py_nth_1 [py_simps]:
  "py_nth xs 1 = (if 1 < length xs then Inr (xs ! 1) else Inl IndexError)"
  by (simp add: py_nth_def)

lemma py_nth_numeral [py_simps]:
  "py_nth xs (numeral n) = (if numeral n < length xs then Inr (xs ! numeral n) else Inl IndexError)"
  by (simp add: py_nth_def)

lemma py_slice_from_1 [py_simps]: "py_slice xs 1 None = tl xs"
  by (cases xs) (simp_all add: py_slice_def py_clamp_def drop_Suc)

lemma py_slice_inner [py_simps]: "py_slice xs 1 (Some (-1)) = butlast (tl xs)"
proof (cases xs)
  case Nil
  then show ?thesis by (simp add: py_slice_def)
next
  case (Cons x ys)
  have "nat (max 0 (int (length ys))) = length ys" by simp
  then show ?thesis
    using Cons by (simp add: py_slice_def py_clamp_def butlast_conv_take)
qed

lemma unpack2_ok [py_simps]: "unpack2 [a, b] = Inr (a, b)"
  by (simp add: unpack2_def)

lemma unpack3_ok [py_simps]: "unpack3 [a, b, c] = Inr (a, b, c)"
  by (simp add: unpack3_def)

lemma unpack2_eq_Inr: "(unpack2 xs = Inr p) = (xs = [fst p, snd p])"
  by (cases p) (auto simp: unpack2_def split: list.splits)

lemma unpack3_eq_Inr:
  "(unpack3 xs = Inr p) = (xs = [fst p, fst (snd p), snd (snd p)])"
  by (cases p) (auto simp: unpack3_def split: list.splits)

lemma unpack2_wrong: "length xs \<noteq> 2 \<Longrightarrow> unpack2 xs = Inl (ValueError 2 (length xs))"
  by (auto simp: unpack2_def split: list.splits)

lemma unpack3_wrong: "length xs \<noteq> 3 \<Longrightarrow> unpack3 xs = Inl (ValueError 3 (length xs))"
  by (auto simp: unpack3_def split: list.splits)

lemma unpack2_eq_Inl: "(unpack2 xs = Inl e) = (length xs \<noteq> 2 \<and> e = ValueError 2 (length xs))"
  by (auto simp: unpack2_def split: list.splits)

lemma unpack3_eq_Inl: "(unpack3 xs = Inl e) = (length xs \<noteq> 3 \<and> e = ValueError 3 (length xs))"
  by (auto simp: unpack3_def split: list.splits)

end
