(* ===== verification/Tokenizer.thy ===== *)
theory Tokenizer
  imports Py_Runtime
begin

text \<open>
  The tokenizer of the command loop: \<^verbatim>\<open>tokens = input_string.split()\<close>
  (\<^verbatim>\<open>src/hackbright.py\<close>, \<^verbatim>\<open>handle_input\<close>) and the re-joining of the
  description words \<^verbatim>\<open>" ".join(description)\<close> of the \<^verbatim>\<open>new_project\<close> command.
  \<^verbatim>\<open>str.split()\<close> without a separator skips runs of white space and returns the
  maximal runs of other characters, as CPython's \<^verbatim>\<open>split_whitespace\<close> loop does:
  skip white space, take the word, repeat. A character here is a code point below
  256 (Isabelle's \<open>char\<close> is a byte); the white space among them is what
  \<^verbatim>\<open>str.isspace\<close> accepts: 9 to 13, 28 to 32, 133 and 160.

  Lemmas: every token is non-empty and has no white space
  (\<open>str_split_tokens\<close>), splitting a space-joined list of such tokens gives the list
  back (\<open>str_split_join\<close>), and the
  loop computes the same tokens as the reference one-pass scan \<open>split_ref\<close>.
\<close>

definition is_py_space :: "char \<Rightarrow> bool" where
  "is_py_space c =
     (let n = (of_char c :: nat)
      in (9 \<le> n \<and> n \<le> 13) \<or> (28 \<le> n \<and> n \<le> 32) \<or> n = 133 \<or> n = 160)"

abbreviation is_word_char :: "char \<Rightarrow> bool" where
  "is_word_char c \<equiv> \<not> is_py_space c"

function str_split :: "string \<Rightarrow> string list" where
  "str_split s =
     (let r = dropWhile is_py_space s
      in if r = [] then []
         else takeWhile is_word_char r # str_split (dropWhile is_word_char r))"
  by pat_completeness auto
termination
proof (relation "measure length")
  fix s r
  assume r: "r = dropWhile is_py_space s" and ne: "r \<noteq> []"
  then obtain c cs where c: "r = c # cs" and sp: "\<not> is_py_space c"
    by (metis dropWhile_eq_Cons_conv neq_Nil_conv)
  have "length (dropWhile is_word_char r) = length (dropWhile is_word_char cs)"
    using c sp by simp
  also have "\<dots> < length r"
    using c by (simp add: le_imp_less_Suc length_dropWhile_le)
  also have "\<dots> \<le> length s"
    using r by (simp add: length_dropWhile_le)
  finally show "(dropWhile is_word_char r, s) \<in> measure length" by simp
qed simp

declare str_split.simps [simp del]

text \<open>\<^verbatim>\<open>sep.join(xs)\<close>.\<close>

fun str_join :: "string \<Rightarrow> string list \<Rightarrow> string" where
  "str_join sep [] = []"
| "str_join sep [x] = x"
| "str_join sep (x # y # zs) = x @ sep @ str_join sep (y # zs)"

definition word :: "string \<Rightarrow> bool" where
  "word w = (w \<noteq> [] \<and> (\<forall>c\<in>set w. is_word_char c))"

text \<open>A reference for \<^verbatim>\<open>str.split()\<close>, as the spec describes it: scan the line
  once, left to right, keeping the current word (reversed); white space ends a
  non-empty word, any other character extends it.\<close>

fun split_acc :: "string \<Rightarrow> string \<Rightarrow> string list" where
  "split_acc [] w = (if w = [] then [] else [rev w])"
| "split_acc (c # cs) w =
     (if is_py_space c then (if w = [] then split_acc cs [] else rev w # split_acc cs [])
      else split_acc cs (c # w))"

definition split_ref :: "string \<Rightarrow> string list" where
  "split_ref s = split_acc s []"

lemma space_char [simp]: "is_py_space (CHR '' '')"
  by (simp add: is_py_space_def)

lemma str_split_Nil [simp]: "str_split [] = []"
  by (simp add: str_split.simps)

lemma str_split_space_Cons [simp]: "is_py_space c \<Longrightarrow> str_split (c # s) = str_split s"
  by (simp add: str_split.simps [of "c # s"] str_split.simps [of s])

lemma str_split_step:
  assumes "dropWhile is_py_space s = r" and "r \<noteq> []"
  shows "str_split s = takeWhile is_word_char r # str_split (dropWhile is_word_char r)"
  using assms by (subst str_split.simps) (simp add: Let_def)

lemma str_split_word_append:
  assumes "word w" and "rest = [] \<or> is_py_space (hd rest)"
  shows "str_split (w @ rest) = w # str_split rest"
proof -
  from assms(1) obtain c cs where w: "w = c # cs" and c: "is_word_char c"
    by (cases w) (auto simp: word_def)
  have nsp: "\<forall>x\<in>set w. is_word_char x" using assms(1) by (simp add: word_def)
  have tw: "takeWhile is_word_char (w @ rest) = w"
    using nsp assms(2) by (cases rest) (auto simp: takeWhile_append2)
  have dw: "dropWhile is_word_char (w @ rest) = rest"
    using nsp assms(2) by (cases rest) (auto simp: dropWhile_append2)
  have "dropWhile is_py_space (w @ rest) = w @ rest"
    using w c by simp
  from str_split_step [OF this] w have "str_split (w @ rest) =
      takeWhile is_word_char (w @ rest) # str_split (dropWhile is_word_char (w @ rest))"
    by simp
  with tw dw show ?thesis by simp
qed

lemma str_split_tokens_aux: "t \<in> set (str_split s) \<Longrightarrow> word t"
proof (induction s rule: str_split.induct)
  case (1 s)
  let ?r = "dropWhile is_py_space s"
  show ?case
  proof (cases "?r = []")
    case True
    with "1.prems" show ?thesis by (simp add: str_split.simps [of s])
  next
    case False
    then obtain c cs where rc: "?r = c # cs" by (cases ?r) auto
    then have "is_word_char c"
      by (metis dropWhile_eq_Cons_conv)
    then have hd_word: "word (takeWhile is_word_char ?r)"
      using rc by (auto simp: word_def dest: set_takeWhileD)
    from "1.prems" str_split_step [OF refl False]
    have "t = takeWhile is_word_char ?r \<or> t \<in> set (str_split (dropWhile is_word_char ?r))"
      by simp
    then show ?thesis
      using hd_word "1.IH" [OF refl False] by blast
  qed
qed

lemma str_split_join:
  "\<forall>t\<in>set ts. word t \<Longrightarrow> str_split (str_join '' '' ts) = ts"
proof (induction ts rule: induct_list012)
  case 1
  then show ?case by simp
next
  case (2 x)
  then show ?case using str_split_word_append [of x "[]"] by simp
next
  case (3 x y zs)
  then have "str_split (str_join '' '' (y # zs)) = y # zs" by simp
  moreover have "str_split (x @ '' '' @ str_join '' '' (y # zs)) =
      x # str_split ('' '' @ str_join '' '' (y # zs))"
    using "3.prems" by (intro str_split_word_append) simp_all
  ultimately show ?case by simp
qed

lemma filter_dropWhile_skip:
  "filter (\<lambda>c. \<not> P c) (dropWhile P xs) = filter (\<lambda>c. \<not> P c) xs"
  by (induction xs) auto

lemma filter_takeWhile_id: "filter P (takeWhile P xs) = takeWhile P xs"
  by (induction xs) auto

lemma concat_str_split: "concat (str_split s) = filter is_word_char s"
proof (induction s rule: str_split.induct)
  case (1 s)
  let ?r = "dropWhile is_py_space s"
  have skip: "filter is_word_char ?r = filter is_word_char s"
    by (rule filter_dropWhile_skip)
  show ?case
  proof (cases "?r = []")
    case True
    with skip show ?thesis by (simp add: str_split.simps [of s])
  next
    case False
    have "filter is_word_char ?r =
        takeWhile is_word_char ?r @ filter is_word_char (dropWhile is_word_char ?r)"
      by (metis filter_append filter_takeWhile_id takeWhile_dropWhile_id)
    with skip str_split_step [OF refl False] "1.IH" [OF refl False] show ?thesis
      by simp
  qed
qed

section \<open>Properties of the tokenizer\<close>

text \<open>C18. \<^verbatim>\<open>str.split()\<close> loses nothing but white space: every token is non-empty
  and free of white space, and the tokens concatenated are the input with its white
  space removed.\<close>

theorem str_split_tokens:
  "(\<forall>t\<in>set (str_split s). word t) \<and> concat (str_split s) = filter is_word_char s"
  using str_split_tokens_aux concat_str_split by blast

theorem str_split_tokens_witness:
  "word ''give_grade'' \<and> word ''ada'' \<and> ''give_gradeada'' = filter is_word_char '' give_grade  ada''"
proof -
  have "str_split '' give_grade  ada'' = [''give_grade'', ''ada'']"
    by (simp add: str_split.simps is_py_space_def)
  with str_split_tokens [of "'' give_grade  ada''"] show ?thesis by simp
qed

lemma split_acc_str_split:
  "\<forall>c\<in>set w. is_word_char c \<Longrightarrow> split_acc s w = str_split (rev w @ s)"
proof (induction s arbitrary: w)
  case Nil
  then show ?case
    using str_split_word_append [of "rev w" "[]"] by (simp add: word_def)
next
  case (Cons c cs)
  show ?case
  proof (cases "is_py_space c")
    case True
    then show ?thesis
      using Cons.IH [of "[]"] Cons.prems str_split_word_append [of "rev w" "c # cs"]
      by (simp add: word_def)
  next
    case False
    with Cons.IH [of "c # w"] Cons.prems show ?thesis by simp
  qed
qed

text \<open>C31. \<^verbatim>\<open>str.split()\<close> as the loop computes it (skip white space, take a
  word, repeat) is the reference one-pass scan: both give the same tokens on every
  line.\<close>

theorem str_split_ref: "str_split s = split_ref s"
  using split_acc_str_split [of "[]" s] by (simp add: split_ref_def)

end
