(* ===== verification/Database.thy ===== *)
theory Database
  imports Prelude
begin

text \<open>
  The relational store behind \<^verbatim>\<open>db.session\<close> of \<^verbatim>\<open>src/hackbright.py\<close>: the three
  tables \<^verbatim>\<open>students\<close>, \<^verbatim>\<open>projects\<close> and \<^verbatim>\<open>grades\<close>, the session that
  \<^verbatim>\<open>db.session.execute\<close> and \<^verbatim>\<open>db.session.commit\<close> act on, and the
  parameterised SQL statements the script issues.
  \<^item> A table is the list of its rows in storage order; an \<^verbatim>\<open>INSERT\<close> appends.
  \<^item> The session holds the committed tables and the writes issued since the last
    commit; a query sees both (a transaction reads its own writes), \<^verbatim>\<open>commit\<close>
    makes them durable, closing or dropping the connection discards them.
  \<^item> The schema is not part of the repository: whether \<^verbatim>\<open>students.github\<close> and
    \<^verbatim>\<open>projects.title\<close> are unique keys and whether grades must reference an
    existing student and project is a parameter (\<open>schema\<close>), and so is whether
    the constraints are checked when a statement executes (PostgreSQL's default) or
    deferred to the commit (\<^verbatim>\<open>DEFERRABLE INITIALLY DEFERRED\<close>); a violated
    constraint is \<open>IntegrityError\<close>, raised by \<^verbatim>\<open>execute\<close> or by
    \<^verbatim>\<open>commit\<close> accordingly.
  \<^item> \<^verbatim>\<open>fetchone()\<close> returns one row of the result in an order the store chooses
    (no query has \<^verbatim>\<open>ORDER BY\<close>). The choice is a parameter (\<open>fetch_order\<close>);
    \<open>fetch_ok\<close> says it is a lawful one: \<^verbatim>\<open>None\<close> exactly on an empty result,
    otherwise a row of the result. \<open>heap_order\<close>, the first row in storage order,
    is one lawful choice and the one the concrete examples run with.
  The abstraction \<open>abs_tables\<close> reads the tables as the spec's data model: students
  and projects as maps from their identifiers, grades as a multiset of triples.
\<close>

section \<open>Rows and tables\<close>

record student_row =
  first_name :: string
  last_name :: string
  github :: string

record project_row =
  title :: string
  description :: string
  max_grade :: string

record grade_row =
  student_github :: string
  project_title :: string
  grade :: string

record tables =
  students :: "student_row list"
  projects :: "project_row list"
  grades :: "grade_row list"

datatype db_write =
    Insert_student student_row
  | Insert_project project_row
  | Insert_grade grade_row

record schema =
  github_unique :: bool
  title_unique :: bool
  grade_refs_checked :: bool
  constraints_deferred :: bool

record session =
  committed :: tables
  pending :: "db_write list"

section \<open>Statements\<close>

text \<open>The \<^verbatim>\<open>QUERY\<close> strings of the script, one definition each.\<close>

definition select_student :: "tables \<Rightarrow> string \<Rightarrow> student_row list" where
  "select_student t gh = filter (\<lambda>r. github r = gh) (students t)"

definition insert_student :: "string \<Rightarrow> string \<Rightarrow> string \<Rightarrow> db_write" where
  "insert_student fn ln gh = Insert_student \<lparr>first_name = fn, last_name = ln, github = gh\<rparr>"

definition select_project :: "tables \<Rightarrow> string \<Rightarrow> project_row list" where
  "select_project t ti = filter (\<lambda>r. title r = ti) (projects t)"

definition select_grade :: "tables \<Rightarrow> string \<Rightarrow> string \<Rightarrow> string list" where
  "select_grade t gh ti =
     map grade (filter (\<lambda>r. student_github r = gh \<and> project_title r = ti) (grades t))"

definition insert_grade :: "string \<Rightarrow> string \<Rightarrow> string \<Rightarrow> db_write" where
  "insert_grade gh ti g = Insert_grade \<lparr>student_github = gh, project_title = ti, grade = g\<rparr>"

definition insert_project :: "string \<Rightarrow> string \<Rightarrow> string \<Rightarrow> db_write" where
  "insert_project ti d mg = Insert_project \<lparr>title = ti, description = d, max_grade = mg\<rparr>"

section \<open>The session\<close>

primrec apply_write :: "db_write \<Rightarrow> tables \<Rightarrow> tables" where
  "apply_write (Insert_student r) t = t\<lparr>students := students t @ [r]\<rparr>"
| "apply_write (Insert_project r) t = t\<lparr>projects := projects t @ [r]\<rparr>"
| "apply_write (Insert_grade r) t = t\<lparr>grades := grades t @ [r]\<rparr>"

definition session_view :: "session \<Rightarrow> tables" where
  "session_view s = fold apply_write (pending s) (committed s)"

text \<open>The constraint an insert violates, named by its table, if any.\<close>

primrec violation :: "schema \<Rightarrow> tables \<Rightarrow> db_write \<Rightarrow> string option" where
  "violation sch t (Insert_student r) =
     (if github_unique sch \<and> github r \<in> set (map github (students t))
      then Some ''students'' else None)"
| "violation sch t (Insert_project r) =
     (if title_unique sch \<and> title r \<in> set (map title (projects t))
      then Some ''projects'' else None)"
| "violation sch t (Insert_grade r) =
     (if grade_refs_checked sch \<and>
         (student_github r \<notin> set (map github (students t)) \<or>
          project_title r \<notin> set (map title (projects t)))
      then Some ''grades'' else None)"

definition empty_tables :: tables where
  "empty_tables = \<lparr>students = [], projects = [], grades = []\<rparr>"

text \<open>The first constraint a sequence of writes violates, applied in order.\<close>

primrec first_violation :: "schema \<Rightarrow> tables \<Rightarrow> db_write list \<Rightarrow> string option" where
  "first_violation sch t [] = None"
| "first_violation sch t (w # ws) =
     (case violation sch t w of
        Some tbl \<Rightarrow> Some tbl
      | None \<Rightarrow> first_violation sch (apply_write w t) ws)"

definition db_execute :: "schema \<Rightarrow> db_write \<Rightarrow> session \<Rightarrow> session py_result" where
  "db_execute sch w s =
     (if constraints_deferred sch then Inr (s\<lparr>pending := pending s @ [w]\<rparr>)
      else case violation sch (session_view s) w of
             Some tbl \<Rightarrow> Inl (IntegrityError tbl)
           | None \<Rightarrow> Inr (s\<lparr>pending := pending s @ [w]\<rparr>))"

text \<open>The tables after a successful commit.\<close>

definition commit_tables :: "session \<Rightarrow> session" where
  "commit_tables s = \<lparr>committed = session_view s, pending = []\<rparr>"

definition db_commit :: "schema \<Rightarrow> session \<Rightarrow> session py_result" where
  "db_commit sch s =
     (if constraints_deferred sch
      then (case first_violation sch (committed s) (pending s) of
              Some tbl \<Rightarrow> Inl (IntegrityError tbl)
            | None \<Rightarrow> Inr (commit_tables s))
      else Inr (commit_tables s))"

definition db_close :: "session \<Rightarrow> session" where
  "db_close s = s\<lparr>pending := []\<rparr>"

section \<open>Fetch order\<close>

record fetch_order =
  fetch_student :: "student_row list \<Rightarrow> student_row option"
  fetch_project :: "project_row list \<Rightarrow> project_row option"
  fetch_grade :: "string list \<Rightarrow> string option"

definition fetch_ok :: "('r list \<Rightarrow> 'r option) \<Rightarrow> bool" where
  "fetch_ok f =
     (\<forall>rows. (f rows = None \<longleftrightarrow> rows = []) \<and> (\<forall>r. f rows = Some r \<longrightarrow> r \<in> set rows))"

definition fetch_order_ok :: "fetch_order \<Rightarrow> bool" where
  "fetch_order_ok fo =
     (fetch_ok (fetch_student fo) \<and> fetch_ok (fetch_project fo) \<and> fetch_ok (fetch_grade fo))"

definition fetch_first :: "'r list \<Rightarrow> 'r option" where
  "fetch_first rows = (case rows of [] \<Rightarrow> None | r # _ \<Rightarrow> Some r)"

definition heap_order :: fetch_order where
  "heap_order = \<lparr>fetch_student = fetch_first, fetch_project = fetch_first, fetch_grade = fetch_first\<rparr>"

section \<open>Invariant and abstraction\<close>

definition keys_ok :: "schema \<Rightarrow> tables \<Rightarrow> bool" where
  "keys_ok sch t =
     ((github_unique sch \<longrightarrow> distinct (map github (students t))) \<and>
      (title_unique sch \<longrightarrow> distinct (map title (projects t))) \<and>
      (grade_refs_checked sch \<longrightarrow>
         (\<forall>r\<in>set (grades t). student_github r \<in> set (map github (students t)) \<and>
                              project_title r \<in> set (map title (projects t)))))"

record abs_db =
  abs_students :: "string \<rightharpoonup> string \<times> string"
  abs_projects :: "string \<rightharpoonup> string \<times> string"
  abs_grades :: "(string \<times> string \<times> string) multiset"

definition abs_tables :: "tables \<Rightarrow> abs_db" where
  "abs_tables t =
     \<lparr>abs_students = map_of (map (\<lambda>r. (github r, (first_name r, last_name r))) (students t)),
      abs_projects = map_of (map (\<lambda>r. (title r, (description r, max_grade r))) (projects t)),
      abs_grades = mset (map (\<lambda>r. (student_github r, project_title r, grade r)) (grades t))\<rparr>"

text \<open>The spec's contract of an insert on the abstract data model: a student or project
  whose identifier is taken is refused, a grade referring to no student or project is
  refused where the store checks references, anything else is added.\<close>

primrec abs_write :: "schema \<Rightarrow> db_write \<Rightarrow> abs_db \<Rightarrow> abs_db option" where
  "abs_write sch (Insert_student r) A =
     (if abs_students A (github r) \<noteq> None then None
      else Some (A\<lparr>abs_students := (abs_students A)(github r \<mapsto> (first_name r, last_name r))\<rparr>))"
| "abs_write sch (Insert_project r) A =
     (if abs_projects A (title r) \<noteq> None then None
      else Some (A\<lparr>abs_projects := (abs_projects A)(title r \<mapsto> (description r, max_grade r))\<rparr>))"
| "abs_write sch (Insert_grade r) A =
     (if grade_refs_checked sch \<and>
         (abs_students A (student_github r) = None \<or> abs_projects A (project_title r) = None)
      then None
      else Some (A\<lparr>abs_grades := add_mset (student_github r, project_title r, grade r) (abs_grades A)\<rparr>))"

section \<open>Session lemmas\<close>

text \<open>One insert on a session with nothing pending, as each write operation of the
  script issues it: with immediate constraints \<^verbatim>\<open>execute\<close> raises and
  \<^verbatim>\<open>commit\<close> cannot; with deferred ones \<^verbatim>\<open>execute\<close> cannot and
  \<^verbatim>\<open>commit\<close> raises, on the same violation.\<close>

lemma db_execute_single:
  assumes "pending s = []"
  shows "db_execute sch w s =
           (if constraints_deferred sch then Inr (s\<lparr>pending := [w]\<rparr>)
            else case violation sch (committed s) w of
                   Some tbl \<Rightarrow> Inl (IntegrityError tbl)
                 | None \<Rightarrow> Inr (s\<lparr>pending := [w]\<rparr>))"
  using assms by (simp add: db_execute_def session_view_def split: option.split)

lemma db_commit_single:
  assumes "pending s = []"
  shows "db_commit sch (s\<lparr>pending := [w]\<rparr>) =
           (if constraints_deferred sch \<and> violation sch (committed s) w \<noteq> None
            then Inl (IntegrityError (the (violation sch (committed s) w)))
            else Inr (commit_tables (s\<lparr>pending := [w]\<rparr>)))"
  using assms by (auto simp: db_commit_def split: option.split)

lemma first_violation_snoc:
  "first_violation sch t (ws @ [w]) =
     (case first_violation sch t ws of
        Some tbl \<Rightarrow> Some tbl
      | None \<Rightarrow> violation sch (fold apply_write ws t) w)"
  by (induction ws arbitrary: t) (simp_all split: option.split)

text \<open>A successful insert and commit, in either mode: the write is appended to the
  pending ones, and the commit succeeds only if it violates nothing.\<close>

lemma db_execute_Inr:
  "(db_execute sch w s = Inr s1) =
     (s1 = s\<lparr>pending := pending s @ [w]\<rparr> \<and>
      (constraints_deferred sch \<or> violation sch (session_view s) w = None))"
  by (auto simp: db_execute_def split: option.splits)

lemma db_commit_Inr:
  "db_commit sch s = Inr s' \<Longrightarrow> s' = commit_tables s"
  by (auto simp: db_commit_def split: if_splits option.splits)

lemma db_commit_snoc_Inr:
  assumes "db_commit sch (s\<lparr>pending := pending s @ [w]\<rparr>) = Inr s'"
    and "constraints_deferred sch"
  shows "violation sch (session_view s) w = None"
  using assms by (auto simp: db_commit_def first_violation_snoc session_view_def split: option.splits)

lemma db_errors:
  "db_execute sch w s = Inl e \<Longrightarrow> \<exists>tbl. e = IntegrityError tbl"
  "db_commit sch s = Inl e \<Longrightarrow> \<exists>tbl. e = IntegrityError tbl"
  by (auto simp: db_execute_def db_commit_def split: if_splits option.splits)

lemma session_view_commit [simp]: "session_view (commit_tables s) = session_view s"
  by (simp add: commit_tables_def session_view_def)

lemma pending_commit [simp]: "pending (commit_tables s) = []"
  by (simp add: commit_tables_def)

lemma committed_commit [simp]: "committed (commit_tables s) = session_view s"
  by (simp add: commit_tables_def)

lemma session_view_clean [simp]: "pending s = [] \<Longrightarrow> session_view s = committed s"
  by (simp add: session_view_def)

lemma session_view_close [simp]: "session_view (db_close s) = committed s"
  by (simp add: db_close_def session_view_def)

lemma apply_write_other_tables [simp]:
  "students (apply_write (Insert_project r) t) = students t"
  "students (apply_write (Insert_grade g) t) = students t"
  "projects (apply_write (Insert_student q) t) = projects t"
  "projects (apply_write (Insert_grade g) t) = projects t"
  "grades (apply_write (Insert_student q) t) = grades t"
  "grades (apply_write (Insert_project r) t) = grades t"
  by simp_all

section \<open>Fetch laws\<close>

lemma fetch_ok_Nil [simp]: "fetch_ok f \<Longrightarrow> f [] = None"
  by (simp add: fetch_ok_def)

lemma fetch_ok_Some_mem: "fetch_ok f \<Longrightarrow> f rows = Some r \<Longrightarrow> r \<in> set rows"
  by (simp add: fetch_ok_def)

lemma fetch_ok_nonempty: "fetch_ok f \<Longrightarrow> rows \<noteq> [] \<Longrightarrow> \<exists>r. f rows = Some r \<and> r \<in> set rows"
  unfolding fetch_ok_def by (metis not_None_eq)

text \<open>Where every row of the result is the same row, the store's choice does not matter.\<close>

lemma fetch_ok_all_same:
  assumes "fetch_ok f" and "rows \<noteq> []" and "\<forall>x\<in>set rows. x = r"
  shows "f rows = Some r"
  using fetch_ok_nonempty [OF assms(1,2)] assms(3) by auto

lemma fetch_ok_first [simp]: "fetch_ok fetch_first"
  by (auto simp: fetch_ok_def fetch_first_def split: list.splits)

lemma fetch_order_ok_heap [simp]: "fetch_order_ok heap_order"
  by (simp add: fetch_order_ok_def heap_order_def)

lemma fetch_first_simps [simp]:
  "fetch_first [] = None" "fetch_first (r # rs) = Some r"
  by (simp_all add: fetch_first_def)

lemma heap_order_simps [simp]:
  "fetch_student heap_order = fetch_first"
  "fetch_project heap_order = fetch_first"
  "fetch_grade heap_order = fetch_first"
  by (simp_all add: heap_order_def)

lemma fetch_order_okD:
  "fetch_order_ok fo \<Longrightarrow> fetch_ok (fetch_student fo)"
  "fetch_order_ok fo \<Longrightarrow> fetch_ok (fetch_project fo)"
  "fetch_order_ok fo \<Longrightarrow> fetch_ok (fetch_grade fo)"
  by (simp_all add: fetch_order_ok_def)

section \<open>The key invariant\<close>

lemma keys_ok_apply_write:
  assumes "keys_ok sch t" and "violation sch t w = None"
  shows "keys_ok sch (apply_write w t)"
  using assms by (cases w) (auto simp: keys_ok_def split: if_splits)


section \<open>Refinement of the spec's data model\<close>

lemma abs_students_None:
  "(abs_students (abs_tables t) k = None) = (k \<notin> set (map github (students t)))"
  by (auto simp: abs_tables_def map_of_eq_None_iff image_iff)

lemma abs_projects_None:
  "(abs_projects (abs_tables t) k = None) = (k \<notin> set (map title (projects t)))"
  by (auto simp: abs_tables_def map_of_eq_None_iff image_iff)

lemma abs_tables_apply_write:
  assumes "violation sch t w = None" and "github_unique sch" and "title_unique sch"
  shows "abs_write sch w (abs_tables t) = Some (abs_tables (apply_write w t))"
proof (cases w)
  case (Insert_student r)
  let ?xs = "map (\<lambda>r. (github r, (first_name r, last_name r))) (students t)"
  from Insert_student assms have "github r \<notin> github ` set (students t)"
    by (auto split: if_splits)
  then have fresh: "github r \<notin> fst ` set ?xs"
    by (simp add: image_image)
  then have "map_of ?xs (github r) = None"
    by (simp add: map_of_eq_None_iff)
  with map_of_snoc_fresh [OF fresh] Insert_student show ?thesis
    by (simp add: abs_tables_def del: map_of_append)
next
  case (Insert_project r)
  let ?xs = "map (\<lambda>r. (title r, (description r, max_grade r))) (projects t)"
  from Insert_project assms have "title r \<notin> title ` set (projects t)"
    by (auto split: if_splits)
  then have fresh: "title r \<notin> fst ` set ?xs"
    by (simp add: image_image)
  then have "map_of ?xs (title r) = None"
    by (simp add: map_of_eq_None_iff)
  with map_of_snoc_fresh [OF fresh] Insert_project show ?thesis
    by (simp add: abs_tables_def del: map_of_append)
next
  case (Insert_grade r)
  let ?A = "abs_tables t"
  from Insert_grade assms have cond: "\<not> (grade_refs_checked sch \<and>
      (abs_students ?A (student_github r) = None \<or> abs_projects ?A (project_title r) = None))"
    by (auto simp: abs_students_None abs_projects_None split: if_splits)
  have "?A\<lparr>abs_grades := add_mset (student_github r, project_title r, grade r) (abs_grades ?A)\<rparr> =
      abs_tables (apply_write (Insert_grade r) t)"
    by (simp add: abs_tables_def)
  with cond Insert_grade show ?thesis by simp
qed

lemma abs_tables_violation:
  assumes "violation sch t w = Some tbl" and "github_unique sch" and "title_unique sch"
  shows "abs_write sch w (abs_tables t) = None"
  using assms
  by (cases w) (auto simp: abs_students_None abs_projects_None split: if_splits)

text \<open>An insert and its commit through a session with nothing pending refine the
  abstract insert: they fail exactly when the abstract one refuses, and otherwise move
  the abstract state as the abstract one does, whether the constraints are checked at
  \<^verbatim>\<open>execute\<close> or at \<^verbatim>\<open>commit\<close>.\<close>

lemma insert_commit_refines:
  assumes "github_unique sch" and "title_unique sch" and "pending s = []"
  shows "(case (case db_execute sch w s of Inl e \<Rightarrow> Inl e | Inr s1 \<Rightarrow> db_commit sch s1) of
            Inl _ \<Rightarrow> abs_write sch w (abs_tables (committed s)) = None
          | Inr s' \<Rightarrow> abs_write sch w (abs_tables (committed s)) = Some (abs_tables (committed s')))"
proof (cases "violation sch (committed s) w")
  case None
  then show ?thesis
    using abs_tables_apply_write [OF None assms(1,2)] assms(3)
    by (simp add: db_execute_single db_commit_single session_view_def)
next
  case (Some tbl)
  then show ?thesis
    using abs_tables_violation [OF Some assms(1,2)] assms(3)
    by (simp add: db_execute_single db_commit_single)
qed

text \<open>With unique identifiers, a lookup returns the abstract map's entry whatever row
  order the store chooses.\<close>

lemma fetch_student_abs:
  assumes "fetch_ok f" and "github_unique sch" and "keys_ok sch t"
  shows "map_option (\<lambda>r. (first_name r, last_name r, github r)) (f (select_student t gh)) =
         map_option (\<lambda>(fn, ln). (fn, ln, gh)) (abs_students (abs_tables t) gh)"
proof (cases "gh \<in> set (map github (students t))")
  case True
  then obtain r where r: "r \<in> set (students t)" "github r = gh" by auto
  have dist: "distinct (map github (students t))" using assms by (simp add: keys_ok_def)
  then have "select_student t gh = [r]"
    using filter_key_single [OF dist r(1)] r(2) by (simp add: select_student_def)
  moreover have "abs_students (abs_tables t) gh = Some (first_name r, last_name r)"
    using dist r by (simp add: abs_tables_def comp_def map_of_eq_Some_iff image_iff) force
  ultimately show ?thesis
    using assms(1) r(2) fetch_ok_all_same [of f "[r]" r] by simp
next
  case False
  then have "select_student t gh = []"
    by (auto simp: select_student_def filter_empty_iff_not_ex)
  moreover have "abs_students (abs_tables t) gh = None"
    using False by (simp add: abs_students_None)
  ultimately show ?thesis using assms(1) by simp
qed

lemma fetch_project_abs:
  assumes "fetch_ok f" and "title_unique sch" and "keys_ok sch t"
  shows "map_option (\<lambda>r. (description r, max_grade r)) (f (select_project t ti)) =
         abs_projects (abs_tables t) ti"
proof (cases "ti \<in> set (map title (projects t))")
  case True
  then obtain r where r: "r \<in> set (projects t)" "title r = ti" by auto
  have dist: "distinct (map title (projects t))" using assms by (simp add: keys_ok_def)
  then have "select_project t ti = [r]"
    using filter_key_single [OF dist r(1)] r(2) by (simp add: select_project_def)
  moreover have "abs_projects (abs_tables t) ti = Some (description r, max_grade r)"
    using dist r by (simp add: abs_tables_def comp_def map_of_eq_Some_iff image_iff) force
  ultimately show ?thesis
    using assms(1) fetch_ok_all_same [of f "[r]" r] by simp
next
  case False
  then have "select_project t ti = []"
    by (auto simp: select_project_def filter_empty_iff_not_ex)
  moreover have "abs_projects (abs_tables t) ti = None"
    using False by (simp add: abs_projects_None)
  ultimately show ?thesis using assms(1) by simp
qed

lemma select_grade_abs:
  "(g \<in> set (select_grade t gh ti)) = ((gh, ti, g) \<in># abs_grades (abs_tables t))"
  by (auto simp: select_grade_def abs_tables_def image_iff)

lemma fetch_grade_abs:
  assumes "fetch_ok f"
  shows "(f (select_grade t gh ti) = None) = (\<forall>g. (gh, ti, g) \<notin># abs_grades (abs_tables t))"
    and "f (select_grade t gh ti) = Some g \<Longrightarrow> (gh, ti, g) \<in># abs_grades (abs_tables t)"
proof -
  have "(f (select_grade t gh ti) = None) = (select_grade t gh ti = [])"
    using assms by (simp add: fetch_ok_def)
  also have "\<dots> = (\<forall>g. g \<notin> set (select_grade t gh ti))"
    by (auto simp: ex_in_conv [symmetric])
  finally show "(f (select_grade t gh ti) = None) = (\<forall>g. (gh, ti, g) \<notin># abs_grades (abs_tables t))"
    by (simp add: select_grade_abs)
next
  assume "f (select_grade t gh ti) = Some g"
  with assms have "g \<in> set (select_grade t gh ti)" by (rule fetch_ok_Some_mem)
  then show "(gh, ti, g) \<in># abs_grades (abs_tables t)" by (simp add: select_grade_abs)
qed

end
