(* ===== verification/Operations.thy ===== *)
theory Operations
  imports Database
begin

text \<open>
  The six data-access functions of \<^verbatim>\<open>src/hackbright.py\<close>, one definition each, in
  the order of the source: \<open>get_student_by_github\<close>, \<open>make_new_student\<close>,
  \<open>get_project_by_title\<close>, \<open>get_grade_by_github_title\<close>, \<open>assign_grade\<close> and
  \<open>add_project\<close>. A function that prints takes the session and returns what it
  writes to standard output with the new session, or the exception it raises
  (\<open>cmd_result\<close>); \<open>get_project_by_title\<close> prints nothing and returns the
  fetched row, as the source does. Reads go through the fetch order \<open>fo\<close>, writes
  through the schema \<open>sch\<close> of \<^theory_text>\<open>Database\<close>.

  The write operations issue their \<^verbatim>\<open>INSERT\<close>, \<^verbatim>\<open>commit()\<close> and
  \<^verbatim>\<open>print\<close> in the source's order (\<open>py_seq\<close>, \<open>py_out\<close>):
  \<open>make_new_student\<close> prints before it commits, the other two after.

  Lemmas: each write operation's exact effect (\<open>*_eq\<close>), the round trips of the
  spec (insert then look up), the lookups on a missing row (\<open>TypeError\<close> for a
  student, the friendly message for a grade), and that the post-insert check of
  \<open>add_project\<close> can never report a failure.
\<close>

type_synonym cmd_result = "session py_run"

definition apos :: string where
  "apos = [CHR 0x27]"

definition get_student_by_github :: "fetch_order \<Rightarrow> string \<Rightarrow> session \<Rightarrow> cmd_result" where
  "get_student_by_github fo gh s =
     (case fetch_student fo (select_student (session_view s) gh) of
        None \<Rightarrow> Inl ([], TypeError)
      | Some row \<Rightarrow>
          Inr ([py_print (''Student: '' @ first_name row @ '' '' @ last_name row @ nl @
                          ''GitHub account: '' @ github row)], s))"

definition make_new_student ::
  "schema \<Rightarrow> string \<Rightarrow> string \<Rightarrow> string \<Rightarrow> session \<Rightarrow> cmd_result" where
  "make_new_student sch fn ln gh s =
     py_seq (db_execute sch (insert_student fn ln gh) s)
       (\<lambda>s1. py_out [py_print ''Data has been inserted succesfully!'']
         (py_seq (db_commit sch s1) (\<lambda>s2. Inr ([], s2))))"

definition get_project_by_title :: "fetch_order \<Rightarrow> string \<Rightarrow> session \<Rightarrow> project_row option" where
  "get_project_by_title fo ti s = fetch_project fo (select_project (session_view s) ti)"

definition no_grade_msg :: string where
  "no_grade_msg =
     ''This student does not have a grade yet. Please insert a grade using the '' @
     apos @ ''grade'' @ apos @ '' command.''"

definition get_grade_by_github_title ::
  "fetch_order \<Rightarrow> string \<Rightarrow> string \<Rightarrow> session \<Rightarrow> cmd_result" where
  "get_grade_by_github_title fo gh ti s =
     (case fetch_grade fo (select_grade (session_view s) gh ti) of
        None \<Rightarrow> Inr ([py_print no_grade_msg], s)
      | Some g \<Rightarrow> Inr ([py_print (''Grades is '' @ g @ '' for '' @ ti)], s))"

definition assign_grade_msg :: "string \<Rightarrow> string \<Rightarrow> string \<Rightarrow> string" where
  "assign_grade_msg gh ti g =
     gh @ apos @ ''s project '' @ ti @ apos @ ''s grade is '' @ g @
     '' and has succesfully been insterted!''"

definition assign_grade :: "schema \<Rightarrow> string \<Rightarrow> string \<Rightarrow> string \<Rightarrow> session \<Rightarrow> cmd_result" where
  "assign_grade sch gh ti g s =
     py_seq (db_execute sch (insert_grade gh ti g) s)
       (\<lambda>s1. py_seq (db_commit sch s1) (\<lambda>s2. Inr ([py_print (assign_grade_msg gh ti g)], s2)))"

definition project_failed_msg :: string where
  "project_failed_msg = ''Your project was not successfully inserted. Please try again!''"

definition project_ok_msg :: string where
  "project_ok_msg = ''Congratulations! Your project was successfully inserted!''"

definition add_project ::
  "schema \<Rightarrow> fetch_order \<Rightarrow> string \<Rightarrow> string \<Rightarrow> string \<Rightarrow> session \<Rightarrow> cmd_result" where
  "add_project sch fo ti d mg s =
     py_seq (db_execute sch (insert_project ti d mg) s)
       (\<lambda>s1. py_seq (db_commit sch s1) (\<lambda>s2.
             if get_project_by_title fo ti s2 = None
             then Inr ([py_print project_failed_msg], s2)
             else Inr ([py_print project_ok_msg], s2)))"

section \<open>Effects of the write operations\<close>

text \<open>The session after a successful insert and commit: the write applied to what the
  session saw, nothing pending.\<close>

definition committed_after :: "db_write \<Rightarrow> session \<Rightarrow> session" where
  "committed_after w s = \<lparr>committed = apply_write w (session_view s), pending = []\<rparr>"

lemma session_view_committed_after [simp]:
  "session_view (committed_after w s) = apply_write w (session_view s)"
  by (simp add: committed_after_def session_view_def)

lemma pending_committed_after [simp]: "pending (committed_after w s) = []"
  by (simp add: committed_after_def)

lemma commit_snoc [simp]:
  "commit_tables (s\<lparr>pending := pending s @ [w]\<rparr>) = committed_after w s"
  by (simp add: commit_tables_def committed_after_def session_view_def)

lemma commit_single [simp]:
  "pending s = [] \<Longrightarrow> commit_tables (s\<lparr>pending := [w]\<rparr>) = committed_after w s"
  using commit_snoc [of s w] by simp

text \<open>A successful insert and commit leave the session \<open>committed_after\<close> the write,
  which violated nothing, whatever was pending before.\<close>

lemma insert_commit_Inr:
  assumes "db_execute sch w s = Inr s1" and "db_commit sch s1 = Inr s2"
  shows "s2 = committed_after w s \<and> violation sch (session_view s) w = None"
proof -
  from assms(1) have s1: "s1 = s\<lparr>pending := pending s @ [w]\<rparr>"
    and ok: "constraints_deferred sch \<or> violation sch (session_view s) w = None"
    by (simp_all add: db_execute_Inr)
  have "s2 = committed_after w s" using db_commit_Inr [OF assms(2)] s1 by simp
  moreover have "violation sch (session_view s) w = None"
    using ok db_commit_snoc_Inr assms(2) s1 by blast
  ultimately show ?thesis ..
qed

text \<open>The exact effect of each write operation on a session with nothing pending. An
  insert that violates a constraint raises \<open>IntegrityError\<close>; only
  \<open>make_new_student\<close> has printed its confirmation by then, and only when the
  constraints are deferred, since it prints before it commits.\<close>

lemma make_new_student_eq:
  "pending s = [] \<Longrightarrow>
   make_new_student sch fn ln gh s =
     (case violation sch (session_view s) (insert_student fn ln gh) of
        Some tbl \<Rightarrow>
          Inl (if constraints_deferred sch then [py_print ''Data has been inserted succesfully!''] else [],
               IntegrityError tbl)
      | None \<Rightarrow> Inr ([py_print ''Data has been inserted succesfully!''],
                   committed_after (insert_student fn ln gh) s))"
  by (simp add: make_new_student_def db_execute_single db_commit_single split: option.split)

lemma assign_grade_eq:
  "pending s = [] \<Longrightarrow>
   assign_grade sch gh ti g s =
     (case violation sch (session_view s) (insert_grade gh ti g) of
        Some tbl \<Rightarrow> Inl ([], IntegrityError tbl)
      | None \<Rightarrow> Inr ([py_print (assign_grade_msg gh ti g)], committed_after (insert_grade gh ti g) s))"
  by (simp add: assign_grade_def db_execute_single db_commit_single split: option.split)

lemma add_project_eq:
  "pending s = [] \<Longrightarrow>
   add_project sch fo ti d mg s =
     (case violation sch (session_view s) (insert_project ti d mg) of
        Some tbl \<Rightarrow> Inl ([], IntegrityError tbl)
      | None \<Rightarrow>
          (let s2 = committed_after (insert_project ti d mg) s in
           if get_project_by_title fo ti s2 = None
           then Inr ([py_print project_failed_msg], s2)
           else Inr ([py_print project_ok_msg], s2)))"
  by (simp add: add_project_def db_execute_single db_commit_single Let_def split: option.split)

lemmas write_op_eqs = make_new_student_eq assign_grade_eq add_project_eq

section \<open>Queries after an insert\<close>

lemma select_project_fresh:
  "ti \<notin> set (map title (projects t)) \<Longrightarrow>
   select_project (apply_write (insert_project ti d mg) t) ti =
     [\<lparr>title = ti, description = d, max_grade = mg\<rparr>]"
  by (auto simp: select_project_def insert_project_def filter_empty_iff_not_ex)

lemma select_project_inserted:
  "select_project (apply_write (insert_project ti d mg) t) ti \<noteq> []"
  by (simp add: select_project_def insert_project_def)

lemma select_grade_inserted:
  "select_grade (apply_write (insert_grade gh ti g) t) gh ti = select_grade t gh ti @ [g]"
  by (simp add: select_grade_def insert_grade_def)

lemma violation_fresh_student:
  "gh \<notin> set (map github (students t)) \<Longrightarrow> violation sch t (insert_student fn ln gh) = None"
  by (simp add: insert_student_def)

lemma violation_fresh_project:
  "ti \<notin> set (map title (projects t)) \<Longrightarrow> violation sch t (insert_project ti d mg) = None"
  by (simp add: insert_project_def)

section \<open>The operations on the abstract data model\<close>

text \<open>With unique keys and a lawful row order, the read operations are lookups in the
  abstract database, and \<^verbatim>\<open>add_project\<close>'s re-query always finds the inserted row.\<close>

lemma get_student_abs:
  assumes "fetch_ok (fetch_student fo)" and "github_unique sch" and "keys_ok sch (session_view s)"
  shows "get_student_by_github fo gh s =
           (case abs_students (abs_tables (session_view s)) gh of
              None \<Rightarrow> Inl ([], TypeError)
            | Some (fn, ln) \<Rightarrow>
                Inr ([py_print (''Student: '' @ fn @ '' '' @ ln @ nl @ ''GitHub account: '' @ gh)], s))"
proof -
  let ?f = "fetch_student fo" and ?t = "session_view s"
  have eq: "map_option (\<lambda>r. (first_name r, last_name r, github r)) (?f (select_student ?t gh)) =
      map_option (\<lambda>(fn, ln). (fn, ln, gh)) (abs_students (abs_tables ?t) gh)"
    using assms by (rule fetch_student_abs)
  show ?thesis
  proof (cases "?f (select_student ?t gh)")
    case None
    with eq show ?thesis by (simp add: get_student_by_github_def)
  next
    case (Some r)
    with eq have "abs_students (abs_tables ?t) gh = Some (first_name r, last_name r)"
      and "github r = gh"
      by (cases "abs_students (abs_tables ?t) gh", auto)+
    with Some show ?thesis by (simp add: get_student_by_github_def)
  qed
qed

lemma get_grade_abs:
  assumes "fetch_ok (fetch_grade fo)"
  shows "get_grade_by_github_title fo gh ti s = Inr ([py_print no_grade_msg], s) \<and>
           filter_mset (\<lambda>(a, b, _). a = gh \<and> b = ti) (abs_grades (abs_tables (session_view s))) = {#} \<or>
         (\<exists>g. get_grade_by_github_title fo gh ti s =
                Inr ([py_print (''Grades is '' @ g @ '' for '' @ ti)], s) \<and>
              (gh, ti, g) \<in># abs_grades (abs_tables (session_view s)))"
proof (cases "fetch_grade fo (select_grade (session_view s) gh ti)")
  case None
  moreover have "\<forall>g. (gh, ti, g) \<notin># abs_grades (abs_tables (session_view s))"
    using None fetch_grade_abs(1) [OF assms, of "session_view s" gh ti] by simp
  ultimately show ?thesis
    by (auto simp: get_grade_by_github_title_def)
next
  case (Some g)
  with fetch_grade_abs(2) [OF assms Some] show ?thesis
    by (simp add: get_grade_by_github_title_def)
qed

lemma requery_finds_project:
  "fetch_ok (fetch_project fo) \<Longrightarrow>
   get_project_by_title fo ti (committed_after (insert_project ti d mg) s) \<noteq> None"
  using select_project_inserted by (simp add: get_project_by_title_def fetch_ok_def)

section \<open>Properties of the operations\<close>

text \<open>C1. Creating a student whose GitHub account is not yet stored and then looking it
  up prints that student's first and last name and account, whatever order the store
  returns rows in and whatever constraints the schema has, on a session with nothing
  pending (as between two commands).\<close>

theorem student_roundtrip:
  assumes "fetch_ok (fetch_student fo)"
    and "gh \<notin> set (map github (students (session_view s)))" and "pending s = []"
  shows "\<exists>s1. make_new_student sch fn ln gh s =
                Inr ([py_print ''Data has been inserted succesfully!''], s1) \<and>
              get_student_by_github fo gh s1 =
                Inr ([py_print (''Student: '' @ fn @ '' '' @ ln @ nl @ ''GitHub account: '' @ gh)], s1)"
proof -
  let ?row = "\<lparr>first_name = fn, last_name = ln, github = gh\<rparr>"
  let ?s1 = "committed_after (insert_student fn ln gh) s"
  have mk: "make_new_student sch fn ln gh s =
      Inr ([py_print ''Data has been inserted succesfully!''], ?s1)"
    using assms(2,3) by (simp add: make_new_student_eq violation_fresh_student)
  have "select_student (session_view ?s1) gh = [?row]"
    using assms(2) by (auto simp: select_student_def insert_student_def filter_empty_iff_not_ex)
  moreover have "fetch_student fo [?row] = Some ?row"
    using assms(1) by (rule fetch_ok_all_same) simp_all
  ultimately have "get_student_by_github fo gh ?s1 =
      Inr ([py_print (''Student: '' @ fn @ '' '' @ ln @ nl @ ''GitHub account: '' @ gh)], ?s1)"
    by (simp add: get_student_by_github_def)
  with mk show ?thesis by blast
qed

theorem student_roundtrip_witness:
  "\<exists>s1. make_new_student \<lparr>github_unique = True, title_unique = True, grade_refs_checked = False, constraints_deferred = False\<rparr>
          ''Ada'' ''Lovelace'' ''ada'' \<lparr>committed = empty_tables, pending = []\<rparr> =
          Inr ([py_print ''Data has been inserted succesfully!''], s1) \<and>
        get_student_by_github heap_order ''ada'' s1 =
          Inr ([py_print (''Student: Ada Lovelace'' @ nl @ ''GitHub account: ada'')], s1)"
  using student_roundtrip [of heap_order "''ada''" "\<lparr>committed = empty_tables, pending = []\<rparr>"
      "\<lparr>github_unique = True, title_unique = True, grade_refs_checked = False, constraints_deferred = False\<rparr>" "''Ada''" "''Lovelace''"]
  by (simp add: empty_tables_def)

text \<open>C2. Creating a project whose title is not yet stored prints the success message,
  and looking the title up afterwards returns a row equal to the inserted values (on a
  session with nothing pending).\<close>

theorem project_roundtrip:
  assumes "fetch_ok (fetch_project fo)"
    and "ti \<notin> set (map title (projects (session_view s)))" and "pending s = []"
  shows "\<exists>s1. add_project sch fo ti d mg s = Inr ([py_print project_ok_msg], s1) \<and>
              get_project_by_title fo ti s1 = Some \<lparr>title = ti, description = d, max_grade = mg\<rparr>"
proof -
  let ?row = "\<lparr>title = ti, description = d, max_grade = mg\<rparr>"
  let ?s1 = "committed_after (insert_project ti d mg) s"
  have "select_project (session_view ?s1) ti = [?row]"
    using assms(2) by (simp add: select_project_fresh)
  moreover have "fetch_project fo [?row] = Some ?row"
    using assms(1) by (rule fetch_ok_all_same) simp_all
  ultimately have get: "get_project_by_title fo ti ?s1 = Some ?row"
    by (simp add: get_project_by_title_def)
  then have "add_project sch fo ti d mg s = Inr ([py_print project_ok_msg], ?s1)"
    using assms(2,3) by (simp add: add_project_eq violation_fresh_project)
  with get show ?thesis by blast
qed

theorem project_roundtrip_witness:
  "\<exists>s1. add_project \<lparr>github_unique = True, title_unique = True, grade_refs_checked = False, constraints_deferred = False\<rparr>
          heap_order ''Ants'' ''kill all the ants'' ''100'' \<lparr>committed = empty_tables, pending = []\<rparr> =
          Inr ([py_print project_ok_msg], s1) \<and>
        get_project_by_title heap_order ''Ants'' s1 =
          Some \<lparr>title = ''Ants'', description = ''kill all the ants'', max_grade = ''100''\<rparr>"
  using project_roundtrip [of heap_order "''Ants''" "\<lparr>committed = empty_tables, pending = []\<rparr>"
      "\<lparr>github_unique = True, title_unique = True, grade_refs_checked = False, constraints_deferred = False\<rparr>"
      "''kill all the ants''" "''100''"]
  by (simp add: empty_tables_def)

text \<open>C3. Assigning a grade that the store accepts, for a student and project that
  have no other grade stored, and then looking the grade up prints the assigned value
  (on a session with nothing pending).\<close>

theorem grade_roundtrip:
  assumes "fetch_ok (fetch_grade fo)"
    and "violation sch (session_view s) (insert_grade gh ti g) = None"
    and "\<forall>r\<in>set (grades (session_view s)).
           student_github r = gh \<and> project_title r = ti \<longrightarrow> grade r = g"
    and "pending s = []"
  shows "\<exists>s1. assign_grade sch gh ti g s = Inr ([py_print (assign_grade_msg gh ti g)], s1) \<and>
              get_grade_by_github_title fo gh ti s1 =
                Inr ([py_print (''Grades is '' @ g @ '' for '' @ ti)], s1)"
proof -
  let ?s1 = "committed_after (insert_grade gh ti g) s"
  have "\<forall>x\<in>set (select_grade (session_view s) gh ti). x = g"
    using assms(3) by (auto simp: select_grade_def)
  then have "fetch_grade fo (select_grade (session_view ?s1) gh ti) = Some g"
    using assms(1) by (intro fetch_ok_all_same) (simp_all add: select_grade_inserted)
  then have "get_grade_by_github_title fo gh ti ?s1 =
      Inr ([py_print (''Grades is '' @ g @ '' for '' @ ti)], ?s1)"
    by (simp add: get_grade_by_github_title_def)
  moreover have "assign_grade sch gh ti g s = Inr ([py_print (assign_grade_msg gh ti g)], ?s1)"
    using assms(2,4) by (simp add: assign_grade_eq)
  ultimately show ?thesis by blast
qed

theorem grade_roundtrip_witness:
  "\<exists>s1. assign_grade \<lparr>github_unique = True, title_unique = True, grade_refs_checked = False, constraints_deferred = False\<rparr>
          ''ada'' ''Ants'' ''95'' \<lparr>committed = empty_tables, pending = []\<rparr> =
          Inr ([py_print (assign_grade_msg ''ada'' ''Ants'' ''95'')], s1) \<and>
        get_grade_by_github_title heap_order ''ada'' ''Ants'' s1 =
          Inr ([py_print ''Grades is 95 for Ants''], s1)"
  using grade_roundtrip [of heap_order
      "\<lparr>github_unique = True, title_unique = True, grade_refs_checked = False, constraints_deferred = False\<rparr>"
      "\<lparr>committed = empty_tables, pending = []\<rparr>" "''ada''" "''Ants''" "''95''"]
  by (simp add: empty_tables_def insert_grade_def)

text \<open>C4. Looking up a grade for a student and project with no grade stored prints the
  message asking for a grade to be inserted, raises nothing and changes nothing.\<close>

theorem grade_missing:
  assumes "fetch_ok (fetch_grade fo)"
    and "\<forall>r\<in>set (grades (session_view s)). \<not> (student_github r = gh \<and> project_title r = ti)"
  shows "get_grade_by_github_title fo gh ti s = Inr ([py_print no_grade_msg], s)"
proof -
  from assms(2) have "select_grade (session_view s) gh ti = []"
    by (simp add: select_grade_def filter_empty_iff_not_ex)
  with assms(1) show ?thesis by (simp add: get_grade_by_github_title_def)
qed

theorem grade_missing_witness:
  "get_grade_by_github_title heap_order ''ada'' ''Ants'' \<lparr>committed = empty_tables, pending = []\<rparr> =
     Inr ([py_print no_grade_msg], \<lparr>committed = empty_tables, pending = []\<rparr>)"
  using grade_missing [of heap_order "\<lparr>committed = empty_tables, pending = []\<rparr>" "''ada''" "''Ants''"]
  by (simp add: empty_tables_def)

text \<open>C5. Looking up a GitHub account that no stored student has raises
  \<open>TypeError\<close>: \<^verbatim>\<open>fetchone()\<close> returns \<^verbatim>\<open>None\<close> and the source subscripts it
  without a check.\<close>

theorem student_missing_raises:
  assumes "fetch_ok (fetch_student fo)"
    and "gh \<notin> set (map github (students (session_view s)))"
  shows "get_student_by_github fo gh s = Inl ([], TypeError)"
proof -
  from assms(2) have "select_student (session_view s) gh = []"
    by (auto simp: select_student_def filter_empty_iff_not_ex)
  with assms(1) show ?thesis by (simp add: get_student_by_github_def)
qed

theorem student_missing_raises_witness:
  "get_student_by_github heap_order ''ada'' \<lparr>committed = empty_tables, pending = []\<rparr> = Inl ([], TypeError)"
  using student_missing_raises [of heap_order "''ada''" "\<lparr>committed = empty_tables, pending = []\<rparr>"]
  by (simp add: empty_tables_def)

text \<open>C6. Whenever \<open>add_project\<close>'s insert succeeds it prints the success message:
  the re-query by title always finds a row, so the failure branch of the source is dead
  code, for every lawful store order and every schema.\<close>

theorem add_project_check_dead:
  assumes "fetch_ok (fetch_project fo)" and "add_project sch fo ti d mg s = Inr (out, s')"
  shows "out = [py_print project_ok_msg]"
proof -
  from assms(2) obtain s1 s2 where ex: "db_execute sch (insert_project ti d mg) s = Inr s1"
    and cm: "db_commit sch s1 = Inr s2"
    and out: "out = (if get_project_by_title fo ti s2 = None
                     then [py_print project_failed_msg] else [py_print project_ok_msg])"
    by (auto simp: add_project_def split: if_splits)
  have "s2 = committed_after (insert_project ti d mg) s"
    using insert_commit_Inr [OF ex cm] by simp
  with requery_finds_project [OF assms(1)] out show ?thesis by (simp del: not_None_eq)
qed

theorem add_project_check_dead_witness:
  "add_project \<lparr>github_unique = False, title_unique = False, grade_refs_checked = False, constraints_deferred = False\<rparr>
      heap_order ''Ants'' [] ''100'' \<lparr>committed = empty_tables, pending = []\<rparr> =
     Inr ([py_print project_ok_msg],
          committed_after (insert_project ''Ants'' [] ''100'') \<lparr>committed = empty_tables, pending = []\<rparr>) \<and>
   [py_print project_ok_msg] = [py_print project_ok_msg]"
proof -
  let ?sch = "\<lparr>github_unique = False, title_unique = False, grade_refs_checked = False, constraints_deferred = False\<rparr>"
  let ?s = "\<lparr>committed = empty_tables, pending = []\<rparr>"
  let ?s' = "committed_after (insert_project ''Ants'' [] ''100'') ?s"
  have run: "add_project ?sch heap_order ''Ants'' [] ''100'' ?s = Inr ([py_print project_ok_msg], ?s')"
    by (simp add: add_project_eq insert_project_def get_project_by_title_def select_project_def
        empty_tables_def)
  have ok: "fetch_ok (fetch_project heap_order)" by simp
  have "[py_print project_ok_msg] = [py_print project_ok_msg]"
    by (rule add_project_check_dead [OF ok run])
  with run show ?thesis by simp
qed

text \<open>C21. Whatever row order the store uses, a grade the \<^verbatim>\<open>grade\<close> lookup prints is
  one stored for that student and project: the printed value is in the abstract
  multiset of grades, and the lookup changes nothing. With several grades for the
  pair, which one is printed is the store's choice.\<close>

theorem grade_lookup_sound:
  assumes "fetch_ok (fetch_grade fo)"
    and "get_grade_by_github_title fo gh ti s = Inr ([py_print (''Grades is '' @ g @ '' for '' @ ti)], s')"
  shows "(gh, ti, g) \<in># abs_grades (abs_tables (session_view s)) \<and> s' = s"
proof (cases "fetch_grade fo (select_grade (session_view s) gh ti)")
  case None
  with assms(2) show ?thesis
    by (simp add: get_grade_by_github_title_def no_grade_msg_def)
next
  case (Some g')
  with assms(2) have "g' = g" and "s' = s"
    by (simp_all add: get_grade_by_github_title_def)
  with Some fetch_grade_abs(2) [OF assms(1)] show ?thesis by blast
qed

theorem grade_lookup_sound_witness:
  "(''ada'', ''Ants'', ''95'') \<in># abs_grades (abs_tables (session_view
      (committed_after (insert_grade ''ada'' ''Ants'' ''95'') \<lparr>committed = empty_tables, pending = []\<rparr>)))"
proof -
  let ?s = "committed_after (insert_grade ''ada'' ''Ants'' ''95'') \<lparr>committed = empty_tables, pending = []\<rparr>"
  have "get_grade_by_github_title heap_order ''ada'' ''Ants'' ?s =
      Inr ([py_print (''Grades is '' @ ''95'' @ '' for '' @ ''Ants'')], ?s)"
    by (simp add: get_grade_by_github_title_def select_grade_def insert_grade_def empty_tables_def)
  from grade_lookup_sound [OF _ this] show ?thesis by simp
qed

text \<open>C22. \<^verbatim>\<open>assign_grade\<close> checks neither that the student nor that the project
  exists: unless the store itself checks references, every grade is accepted and
  appended to the grades table, so the referential integrity the spec assumes can be
  broken from the command line.\<close>

theorem assign_grade_unchecked:
  assumes "\<not> grade_refs_checked sch" and "pending s = []"
  shows "\<exists>s'. assign_grade sch gh ti g s = Inr ([py_print (assign_grade_msg gh ti g)], s') \<and>
              grades (committed s') =
                grades (session_view s) @ [\<lparr>student_github = gh, project_title = ti, grade = g\<rparr>]"
  using assms
  by (simp add: assign_grade_eq insert_grade_def committed_after_def)

theorem assign_grade_unchecked_witness:
  "\<exists>s'. assign_grade \<lparr>github_unique = True, title_unique = True, grade_refs_checked = False, constraints_deferred = False\<rparr>
          ''nobody'' ''NoSuchProject'' ''95'' \<lparr>committed = empty_tables, pending = []\<rparr> =
          Inr ([py_print (assign_grade_msg ''nobody'' ''NoSuchProject'' ''95'')], s') \<and>
        grades (committed s') = [\<lparr>student_github = ''nobody'', project_title = ''NoSuchProject'', grade = ''95''\<rparr>]"
  using assign_grade_unchecked [where sch = "\<lparr>github_unique = True, title_unique = True, grade_refs_checked = False, constraints_deferred = False\<rparr>"
      and gh = "''nobody''" and ti = "''NoSuchProject''" and g = "''95''" and s = "\<lparr>committed = empty_tables, pending = []\<rparr>"]
  by (simp add: empty_tables_def)

text \<open>C26. Creating a student whose GitHub account is already stored either fails with
  the store's \<open>IntegrityError\<close> for the students table, when the schema declares the
  account unique, or silently inserts a second row for the account (spec section 4.3).
  When the store defers its constraints to the commit, the confirmation
  \<^verbatim>\<open>Data has been inserted succesfully!\<close> has already been printed when the error
  ends the command, because \<^verbatim>\<open>make_new_student\<close> prints before it commits.\<close>

theorem duplicate_student:
  assumes "gh \<in> set (map github (students (session_view s)))" and "pending s = []"
  shows "make_new_student sch fn ln gh s =
           (if github_unique sch
            then Inl (if constraints_deferred sch then [py_print ''Data has been inserted succesfully!''] else [],
                      IntegrityError ''students'')
            else Inr ([py_print ''Data has been inserted succesfully!''],
                      committed_after (insert_student fn ln gh) s))"
  using assms by (simp add: make_new_student_eq insert_student_def)

theorem duplicate_student_witness:
  "make_new_student \<lparr>github_unique = True, title_unique = True, grade_refs_checked = False, constraints_deferred = False\<rparr>
      ''Grace'' ''Hopper'' ''ada''
      (committed_after (insert_student ''Ada'' ''Lovelace'' ''ada'') \<lparr>committed = empty_tables, pending = []\<rparr>) =
     Inl ([], IntegrityError ''students'') \<and>
   make_new_student \<lparr>github_unique = True, title_unique = True, grade_refs_checked = False, constraints_deferred = True\<rparr>
      ''Grace'' ''Hopper'' ''ada''
      (committed_after (insert_student ''Ada'' ''Lovelace'' ''ada'') \<lparr>committed = empty_tables, pending = []\<rparr>) =
     Inl ([py_print ''Data has been inserted succesfully!''], IntegrityError ''students'') \<and>
   make_new_student \<lparr>github_unique = False, title_unique = True, grade_refs_checked = False, constraints_deferred = False\<rparr>
      ''Grace'' ''Hopper'' ''ada''
      (committed_after (insert_student ''Ada'' ''Lovelace'' ''ada'') \<lparr>committed = empty_tables, pending = []\<rparr>) =
     Inr ([py_print ''Data has been inserted succesfully!''],
          committed_after (insert_student ''Grace'' ''Hopper'' ''ada'')
            (committed_after (insert_student ''Ada'' ''Lovelace'' ''ada'') \<lparr>committed = empty_tables, pending = []\<rparr>))"
proof -
  let ?s = "committed_after (insert_student ''Ada'' ''Lovelace'' ''ada'') \<lparr>committed = empty_tables, pending = []\<rparr>"
  have dup: "''ada'' \<in> set (map github (students (session_view ?s)))"
    by (simp add: insert_student_def empty_tables_def)
  have p: "pending ?s = []" by simp
  show ?thesis
    using duplicate_student [OF dup p, of "\<lparr>github_unique = True, title_unique = True, grade_refs_checked = False, constraints_deferred = False\<rparr>"
        "''Grace''" "''Hopper''"]
      duplicate_student [OF dup p, of "\<lparr>github_unique = True, title_unique = True, grade_refs_checked = False, constraints_deferred = True\<rparr>"
        "''Grace''" "''Hopper''"]
      duplicate_student [OF dup p, of "\<lparr>github_unique = False, title_unique = True, grade_refs_checked = False, constraints_deferred = False\<rparr>"
        "''Grace''" "''Hopper''"]
    by simp
qed

end
