(* ===== verification/Command_Loop.thy ===== *)
theory Command_Loop
  imports Tokenizer Operations
begin

text \<open>
  The main loop \<^verbatim>\<open>handle_input\<close> of \<^verbatim>\<open>src/hackbright.py\<close> and the script's
  \<^verbatim>\<open>__main__\<close> block.
  \<^item> \<open>handle_command\<close> is the \<^verbatim>\<open>if\<close>/\<^verbatim>\<open>elif\<close> chain on the command token, with
    the argument extraction of each branch (\<^verbatim>\<open>args[0]\<close>, tuple unpacking,
    \<^verbatim>\<open>args[1:-1]\<close> re-joined by \<^verbatim>\<open>" ".join\<close>), in the source's order.
  \<^item> \<open>handle_input\<close> is the \<^verbatim>\<open>while command != "quit"\<close> loop over the lines of
    standard input: it writes the prompt, reads a line (\<open>EOFError\<close> when none is
    left), splits it, takes \<^verbatim>\<open>tokens[0]\<close> (\<open>IndexError\<close> on a blank line) and
    dispatches. An exception of a handler ends the loop and the program
    (\<open>Crash\<close>); the command \<^verbatim>\<open>quit\<close> ends it normally (\<open>Quit\<close>). The loop
    consumes one line per iteration, so it is structural recursion on the input.
  \<^item> \<open>main\<close> opens the session, runs the loop and closes the session; what remains
    in the database is the committed tables.
  \<^item> \<open>reachable\<close> is the set of sessions a run can be in between two commands, an
    inductive relation; invariants of the loop are proved by rule induction on it.
\<close>

definition prompt :: string where
  "prompt = ''HBA Database> ''"

definition invalid_msg :: string where
  "invalid_msg = ''Invalid Entry. Try again.''"

definition handle_command ::
  "schema \<Rightarrow> fetch_order \<Rightarrow> string \<Rightarrow> string list \<Rightarrow> session \<Rightarrow> cmd_result" where
  "handle_command sch fo command args s =
     (if command = ''student'' then
        py_seq (py_nth args 0) (\<lambda>gh. get_student_by_github fo gh s)
      else if command = ''new_student'' then
        py_seq (unpack3 args) (\<lambda>(fn, ln, gh). make_new_student sch fn ln gh s)
      else if command = ''projects'' then
        py_seq (py_nth args 0) (\<lambda>ti. let _ = get_project_by_title fo ti s in Inr ([], s))
      else if command = ''grade'' then
        py_seq (unpack2 args) (\<lambda>(gh, ti). get_grade_by_github_title fo gh ti s)
      else if command = ''give_grade'' then
        py_seq (unpack3 args) (\<lambda>(gh, ti, g). assign_grade sch gh ti g s)
      else if command = ''new_project'' then
        py_seq (py_nth args 0) (\<lambda>ti. py_seq (py_nth args (-1)) (\<lambda>mg.
          let description = py_slice args 1 (Some (-1));
              str_description = str_join '' '' description
          in add_project sch fo ti str_description mg s))
      else if command \<noteq> ''quit'' then Inr ([py_print invalid_msg], s)
      else Inr ([], s))"

datatype outcome = Quit | Crash py_error

fun handle_input ::
  "schema \<Rightarrow> fetch_order \<Rightarrow> string list \<Rightarrow> session \<Rightarrow> outcome \<times> stdout \<times> session" where
  "handle_input sch fo [] s = (Crash EOFError, [prompt], s)"
| "handle_input sch fo (input_string # rest) s =
     (let tokens = str_split input_string in
      case py_nth tokens 0 of
        Inl e \<Rightarrow> (Crash e, [prompt], s)
      | Inr command \<Rightarrow>
          (case handle_command sch fo command (py_slice tokens 1 None) s of
             Inl (out, e) \<Rightarrow> (Crash e, prompt # out, s)
           | Inr (out, s') \<Rightarrow>
               if command = ''quit'' then (Quit, prompt # out, s')
               else (case handle_input sch fo rest s' of
                       (r, out', s'') \<Rightarrow> (r, prompt # out @ out', s''))))"

text \<open>A new session on a database: its committed tables, nothing pending. How the
  script obtains it from the configured application is in \<^theory_text>\<open>Program_Entry\<close>.\<close>

definition open_session :: "tables \<Rightarrow> session" where
  "open_session db = \<lparr>committed = db, pending = []\<rparr>"

text \<open>After \<^verbatim>\<open>quit\<close> the script closes the session; after an exception the
  process ends and the server rolls the open transaction back. Either way the
  database keeps the committed tables.\<close>

definition main :: "schema \<Rightarrow> fetch_order \<Rightarrow> tables \<Rightarrow> string list \<Rightarrow> outcome \<times> stdout \<times> tables" where
  "main sch fo db lines =
     (case handle_input sch fo lines (open_session db) of
        (r, out, s) \<Rightarrow> (r, out, committed (db_close s)))"

inductive reachable :: "schema \<Rightarrow> fetch_order \<Rightarrow> tables \<Rightarrow> session \<Rightarrow> bool"
  for sch fo db where
  start: "reachable sch fo db (open_session db)"
| step: "reachable sch fo db s \<Longrightarrow> handle_command sch fo cmd args s = Inr (out, s') \<Longrightarrow>
         reachable sch fo db s'"

section \<open>The insert each command performs\<close>

text \<open>The command table of the spec (section 4.1) as a function: which row a command
  line inserts, if any. \<^verbatim>\<open>new_project\<close>'s description is the arguments between the
  first and the last, joined by single spaces.\<close>

definition cmd_write :: "string \<Rightarrow> string list \<Rightarrow> db_write option" where
  "cmd_write cmd args =
     (if cmd = ''new_student'' \<and> length args = 3
      then Some (insert_student (args ! 0) (args ! 1) (args ! 2))
      else if cmd = ''give_grade'' \<and> length args = 3
      then Some (insert_grade (args ! 0) (args ! 1) (args ! 2))
      else if cmd = ''new_project'' \<and> args \<noteq> []
      then Some (insert_project (hd args) (str_join '' '' (butlast (tl args))) (last args))
      else None)"

section \<open>Invariant and example configuration\<close>

definition session_ok :: "schema \<Rightarrow> session \<Rightarrow> bool" where
  "session_ok sch s = (pending s = [] \<and> keys_ok sch (committed s))"

text \<open>A schema for the concrete examples: unique accounts and titles, unchecked
  grade references.\<close>

definition demo_schema :: schema where
  "demo_schema = \<lparr>github_unique = True, title_unique = True, grade_refs_checked = False, constraints_deferred = False\<rparr>"

section \<open>Lemmas on one command\<close>

lemma handle_input_line:
  assumes "str_split line = command # args"
  shows "handle_input sch fo (line # rest) s =
     (case handle_command sch fo command args s of
        Inl (out, e) \<Rightarrow> (Crash e, prompt # out, s)
      | Inr (out, s') \<Rightarrow>
          if command = ''quit'' then (Quit, prompt # out, s')
          else (case handle_input sch fo rest s' of (r, out', s'') \<Rightarrow> (r, prompt # out @ out', s'')))"
  using assms by (simp add: py_simps)

lemma handle_command_quit: "handle_command sch fo ''quit'' args s = Inr ([], s)"
  by (simp add: handle_command_def py_simps)

lemma handle_input_blank:
  "str_split line = [] \<Longrightarrow> handle_input sch fo (line # rest) s = (Crash IndexError, [prompt], s)"
  by (simp add: py_simps)

lemma read_only_results:
  "get_student_by_github fo gh s = Inr (out, s') \<Longrightarrow> s' = s"
  "get_grade_by_github_title fo gh ti s = Inr (out, s') \<Longrightarrow> s' = s"
  by (auto simp: get_student_by_github_def get_grade_by_github_title_def split: option.splits)

lemma write_op_results:
  "make_new_student sch fn ln gh s = Inr (out, s') \<Longrightarrow>
     violation sch (session_view s) (insert_student fn ln gh) = None \<and>
     s' = committed_after (insert_student fn ln gh) s"
  "assign_grade sch gh ti g s = Inr (out, s') \<Longrightarrow>
     violation sch (session_view s) (insert_grade gh ti g) = None \<and>
     s' = committed_after (insert_grade gh ti g) s"
  "add_project sch fo ti d mg s = Inr (out, s') \<Longrightarrow>
     violation sch (session_view s) (insert_project ti d mg) = None \<and>
     s' = committed_after (insert_project ti d mg) s"
  by (auto simp: make_new_student_def assign_grade_def add_project_def dest: insert_commit_Inr
      split: if_splits)

lemma write_op_errors:
  "pending s = [] \<Longrightarrow> make_new_student sch fn ln gh s = Inl (out, e) \<Longrightarrow>
     \<exists>tbl. violation sch (session_view s) (insert_student fn ln gh) = Some tbl \<and> e = IntegrityError tbl"
  "pending s = [] \<Longrightarrow> assign_grade sch gh ti g s = Inl (out, e) \<Longrightarrow>
     \<exists>tbl. violation sch (session_view s) (insert_grade gh ti g) = Some tbl \<and> e = IntegrityError tbl"
  "pending s = [] \<Longrightarrow> add_project sch fo ti d mg s = Inl (out, e) \<Longrightarrow>
     \<exists>tbl. violation sch (session_view s) (insert_project ti d mg) = Some tbl \<and> e = IntegrityError tbl"
  by (auto simp: write_op_eqs Let_def split: option.splits if_splits)

text \<open>What a successful command does to the session: nothing, or exactly the insert of
  the command table, committed.\<close>

lemma handle_command_effect:
  assumes "handle_command sch fo cmd args s = Inr (out, s')"
  shows "case cmd_write cmd args of
           None \<Rightarrow> s' = s
         | Some w \<Rightarrow> violation sch (session_view s) w = None \<and> s' = committed_after w s"
  using assms
  by (auto simp: handle_command_def py_simps cmd_write_def unpack2_eq_Inr unpack3_eq_Inr Let_def
       dest: read_only_results write_op_results split: if_splits list.splits)

lemma handle_command_error:
  assumes "pending s = []" and "handle_command sch fo cmd args s = Inl (out, IntegrityError tbl)"
  shows "\<exists>w. cmd_write cmd args = Some w \<and> violation sch (session_view s) w = Some tbl"
  using assms
  by (auto simp: handle_command_def py_simps cmd_write_def unpack2_eq_Inr unpack3_eq_Inr py_seq_eq_Inl
       unpack2_eq_Inl unpack3_eq_Inl Let_def get_student_by_github_def get_grade_by_github_title_def
       dest: write_op_errors [OF assms(1)] split: if_splits list.splits option.splits)

section \<open>Invariants of the loop\<close>

text \<open>Between two commands nothing is pending, and the keys the schema declares unique
  are unique. \<open>handle_command_effect\<close> is the only fact about a step the proofs
  need.\<close>

lemma handle_command_session_ok:
  assumes "session_ok sch s" and "handle_command sch fo cmd args s = Inr (out, s')"
  shows "session_ok sch s'"
proof (cases "cmd_write cmd args")
  case None
  with handle_command_effect [OF assms(2)] assms(1) show ?thesis by simp
next
  case (Some w)
  with handle_command_effect [OF assms(2)]
  have v: "violation sch (session_view s) w = None" and s': "s' = committed_after w s"
    by simp_all
  have "keys_ok sch (session_view s)"
    using assms(1) by (simp add: session_ok_def)
  then have "keys_ok sch (apply_write w (session_view s))"
    using v by (rule keys_ok_apply_write)
  with s' show ?thesis by (simp add: session_ok_def committed_after_def)
qed

lemma reachable_session_ok:
  "reachable sch fo db s \<Longrightarrow> keys_ok sch db \<Longrightarrow> session_ok sch s"
proof (induction rule: reachable.induct)
  case start
  then show ?case by (simp add: session_ok_def open_session_def)
next
  case (step s cmd args out s')
  then show ?case by (blast intro: handle_command_session_ok)
qed

lemma handle_command_pending:
  "pending s = [] \<Longrightarrow> handle_command sch fo cmd args s = Inr (out, s') \<Longrightarrow> pending s' = []"
  using handle_command_effect [of sch fo cmd args s out s']
  by (auto split: option.splits)

lemma reachable_pending: "reachable sch fo db s \<Longrightarrow> pending s = []"
  by (induction rule: reachable.induct) (auto simp: open_session_def handle_command_pending)

text \<open>Every session a run passes through is reachable.\<close>

lemma handle_input_reachable:
  "reachable sch fo db s \<Longrightarrow> handle_input sch fo lines s = (r, out, s') \<Longrightarrow> reachable sch fo db s'"
proof (induction lines arbitrary: s out)
  case Nil
  then show ?case by simp
next
  case (Cons line rest)
  show ?case
  proof (cases "str_split line")
    case Nil
    with Cons.prems show ?thesis by (simp add: py_simps)
  next
    case (Cons command args)
    show ?thesis
    proof (cases "handle_command sch fo command args s")
      case (Inl p)
      with Cons Cons.prems show ?thesis by (cases p) (simp add: handle_input_line py_simps)
    next
      case (Inr res)
      obtain o1 s1 where res: "res = (o1, s1)" by (cases res)
      with Inr Cons.prems(1) have r1: "reachable sch fo db s1"
        by (blast intro: reachable.step)
      show ?thesis
      proof (cases "command = ''quit''")
        case True
        with Cons Inr res Cons.prems r1 show ?thesis by (simp add: handle_input_line py_simps)
      next
        case False
        with Cons Inr res Cons.prems(2) obtain out' where
          "handle_input sch fo rest s1 = (r, out', s')"
          by (auto simp: handle_input_line py_simps split: prod.splits)
        with r1 show ?thesis by (rule Cons.IH)
      qed
    qed
  qed
qed

text \<open>The loop reads its input line by line and stops at \<^verbatim>\<open>quit\<close> or at the
  first exception: whatever follows is never read, unless the run ended for lack of
  input.\<close>

lemma handle_input_append:
  "fst (handle_input sch fo xs s) \<noteq> Crash EOFError \<Longrightarrow>
   handle_input sch fo (xs @ ys) s = handle_input sch fo xs s"
proof (induction xs arbitrary: s)
  case Nil
  then show ?case by simp
next
  case (Cons line rest)
  show ?case
  proof (cases "str_split line")
    case Nil
    then show ?thesis by (simp add: py_simps)
  next
    case (Cons command args)
    then show ?thesis
      using Cons.prems Cons.IH
      by (auto simp: handle_input_line py_simps split: sum.splits prod.splits if_splits)
  qed
qed

lemma py_nth_Inl: "py_nth xs i = Inl e \<Longrightarrow> e = IndexError"
  by (simp add: py_nth_def Let_def split: if_splits)

lemma ops_Inl_not_eof:
  "get_student_by_github fo gh s = Inl (out, e) \<Longrightarrow> e \<noteq> EOFError"
  "get_grade_by_github_title fo gh ti s = Inl (out, e) \<Longrightarrow> e \<noteq> EOFError"
  "make_new_student sch fn ln gh s = Inl (out, e) \<Longrightarrow> e \<noteq> EOFError"
  "assign_grade sch gh ti g s = Inl (out, e) \<Longrightarrow> e \<noteq> EOFError"
  "add_project sch fo ti d mg s = Inl (out, e) \<Longrightarrow> e \<noteq> EOFError"
  by (auto simp: get_student_by_github_def get_grade_by_github_title_def make_new_student_def
      assign_grade_def add_project_def py_seq_eq_Inl dest: db_errors split: option.splits if_splits)

lemma handle_command_not_eof: "handle_command sch fo cmd args s \<noteq> Inl (out, EOFError)"
proof
  assume "handle_command sch fo cmd args s = Inl (out, EOFError)"
  then show False
    unfolding handle_command_def py_simps
    by (auto simp: py_seq_eq_Inl unpack2_eq_Inl unpack3_eq_Inl Let_def
        dest: py_nth_Inl ops_Inl_not_eof split: if_splits list.splits)
qed

lemma handle_input_quit_last:
  assumes "str_split line = ''quit'' # args"
  shows "fst (handle_input sch fo (xs @ [line]) s) \<noteq> Crash EOFError"
proof (induction xs arbitrary: s)
  case Nil
  from assms show ?case by (simp add: handle_input_line py_simps handle_command_def py_simps)
next
  case (Cons x xs)
  note IH = Cons.IH
  show ?case
  proof (cases "str_split x")
    case Nil
    then show ?thesis by (simp add: py_simps)
  next
    case (Cons cmd args)
    show ?thesis
    proof (cases "handle_command sch fo cmd args s")
      case (Inl p)
      with handle_command_not_eof [of sch fo cmd args s "fst p"] Cons show ?thesis
        by (cases p) (auto simp: handle_input_line py_simps)
    next
      case (Inr res)
      with Cons IH [of "snd res"] show ?thesis
        by (auto simp: handle_input_line py_simps split: prod.splits)
    qed
  qed
qed

lemma str_split_all_space: "\<forall>c\<in>set line. is_py_space c \<Longrightarrow> str_split line = []"
  by (simp add: str_split.simps [of line])

section \<open>Properties of the loop\<close>

text \<open>C7. A line whose first token is none of the six commands and not \<^verbatim>\<open>quit\<close>
  prints the invalid-entry message; the loop then goes on reading the next line with
  the session unchanged.\<close>

theorem invalid_command_continues:
  assumes "str_split line = cmd # args"
    and "cmd \<notin> {''student'', ''new_student'', ''projects'', ''grade'', ''give_grade'',
                 ''new_project'', ''quit''}"
  shows "handle_input sch fo (line # rest) s =
           (case handle_input sch fo rest s of
              (r, out, s') \<Rightarrow> (r, prompt # py_print invalid_msg # out, s'))"
  using assms by (simp add: handle_input_line py_simps handle_command_def py_simps)

theorem invalid_command_continues_witness:
  "handle_input demo_schema heap_order [''foobar'', ''quit''] (open_session empty_tables) =
     (Quit, [prompt, py_print invalid_msg, prompt], open_session empty_tables)"
proof -
  have tok: "str_split ''foobar'' = ''foobar'' # []"
    by (simp add: str_split.simps is_py_space_def)
  have quit: "handle_input demo_schema heap_order [''quit''] (open_session empty_tables) =
      (Quit, [prompt], open_session empty_tables)"
    by (simp add: str_split.simps is_py_space_def handle_command_def py_simps)
  show ?thesis
    using invalid_command_continues [OF tok, of demo_schema heap_order "[''quit'']"
        "open_session empty_tables"] quit
    by simp
qed

text \<open>C8. A line whose first token is \<^verbatim>\<open>quit\<close> ends the loop normally: nothing is
  printed after its prompt, nothing changes, whatever arguments follow the token.\<close>

theorem quit_stops:
  assumes "str_split line = ''quit'' # args"
  shows "handle_input sch fo (line # rest) s = (Quit, [prompt], s)"
  using assms by (simp add: handle_input_line py_simps handle_command_def py_simps)

theorem quit_stops_witness:
  "handle_input demo_schema heap_order [''quit now'', ''student ada''] (open_session empty_tables) =
     (Quit, [prompt], open_session empty_tables)"
proof -
  have "str_split ''quit now'' = ''quit'' # [''now'']"
    by (simp add: str_split.simps is_py_space_def)
  then show ?thesis by (rule quit_stops)
qed

text \<open>C9. A known command with the wrong number of arguments raises: tuple unpacking
  raises \<open>ValueError\<close> for \<^verbatim>\<open>new_student\<close>, \<^verbatim>\<open>grade\<close> and \<^verbatim>\<open>give_grade\<close>,
  indexing an empty argument list raises \<open>IndexError\<close> for \<^verbatim>\<open>student\<close>,
  \<^verbatim>\<open>projects\<close> and \<^verbatim>\<open>new_project\<close>.\<close>

theorem arity_errors:
  "(length args \<noteq> 3 \<longrightarrow>
      handle_command sch fo ''new_student'' args s = Inl ([], ValueError 3 (length args))) \<and>
   (length args \<noteq> 2 \<longrightarrow>
      handle_command sch fo ''grade'' args s = Inl ([], ValueError 2 (length args))) \<and>
   (length args \<noteq> 3 \<longrightarrow>
      handle_command sch fo ''give_grade'' args s = Inl ([], ValueError 3 (length args))) \<and>
   handle_command sch fo ''student'' [] s = Inl ([], IndexError) \<and>
   handle_command sch fo ''projects'' [] s = Inl ([], IndexError) \<and>
   handle_command sch fo ''new_project'' [] s = Inl ([], IndexError)"
  by (simp add: handle_command_def py_simps unpack2_wrong unpack3_wrong)

theorem arity_errors_witness:
  "handle_command demo_schema heap_order ''new_student'' [''Ada'', ''Lovelace''] (open_session empty_tables) =
     Inl ([], ValueError 3 2) \<and>
   handle_command demo_schema heap_order ''grade'' [''ada''] (open_session empty_tables) =
     Inl ([], ValueError 2 1) \<and>
   handle_command demo_schema heap_order ''give_grade'' [''ada'', ''Ants'', ''95'', ''x''] (open_session empty_tables) =
     Inl ([], ValueError 3 4)"
proof -
  have a: "handle_command demo_schema heap_order ''new_student'' [''Ada'', ''Lovelace''] (open_session empty_tables) =
     Inl ([], ValueError 3 2)"
    using arity_errors [of "[''Ada'', ''Lovelace'']" demo_schema heap_order "open_session empty_tables"]
    by simp
  have b: "handle_command demo_schema heap_order ''grade'' [''ada''] (open_session empty_tables) =
     Inl ([], ValueError 2 1)"
    using arity_errors [of "[''ada'']" demo_schema heap_order "open_session empty_tables"]
    by simp
  have c: "handle_command demo_schema heap_order ''give_grade'' [''ada'', ''Ants'', ''95'', ''x'']
      (open_session empty_tables) = Inl ([], ValueError 3 4)"
    using arity_errors [of "[''ada'', ''Ants'', ''95'', ''x'']" demo_schema heap_order
        "open_session empty_tables"]
    by simp
  from a b c show ?thesis by blast
qed

text \<open>C10. A blank line (empty, or white space only) ends the program with
  \<open>IndexError\<close> from \<^verbatim>\<open>tokens[0]\<close>; the rest of the input is never read.\<close>

theorem blank_line_crashes:
  assumes "\<forall>c\<in>set line. is_py_space c"
  shows "handle_input sch fo (line # rest) s = (Crash IndexError, [prompt], s)"
  using str_split_all_space [OF assms] by (simp add: py_simps)

theorem blank_line_crashes_witness:
  "handle_input demo_schema heap_order [''  '', ''quit''] (open_session empty_tables) =
     (Crash IndexError, [prompt], open_session empty_tables)"
proof -
  have "\<forall>c\<in>set ''  ''. is_py_space c" by simp
  then show ?thesis by (rule blank_line_crashes)
qed

text \<open>C11. Invariant of every run: after any sequence of input lines processed from a
  freshly opened session on a database whose declared keys are unique, no write is
  left uncommitted and the declared keys are still unique.\<close>

theorem run_invariant:
  assumes "keys_ok sch db"
    and "handle_input sch fo lines (open_session db) = (r, out, s)"
  shows "pending s = [] \<and> keys_ok sch (committed s)"
proof -
  have "reachable sch fo db s"
    using reachable.start assms(2) by (rule handle_input_reachable)
  then have "session_ok sch s"
    using assms(1) by (rule reachable_session_ok)
  then show ?thesis by (simp add: session_ok_def)
qed

theorem run_invariant_witness:
  "pending (snd (snd (handle_input demo_schema heap_order [''new_student Ada Lovelace ada'', ''quit'']
       (open_session empty_tables)))) = [] \<and>
   keys_ok demo_schema (committed (snd (snd (handle_input demo_schema heap_order
       [''new_student Ada Lovelace ada'', ''quit''] (open_session empty_tables)))))"
proof -
  have k: "keys_ok demo_schema empty_tables"
    by (simp add: keys_ok_def empty_tables_def)
  obtain r out s where run: "handle_input demo_schema heap_order [''new_student Ada Lovelace ada'', ''quit'']
      (open_session empty_tables) = (r, out, s)"
    by (metis prod_cases3)
  from run_invariant [OF k run] run show ?thesis by simp
qed

text \<open>C12. Refinement of the spec's data model: with unique GitHub accounts and
  project titles, a command that succeeds moves the abstract database (students and
  projects as maps, grades as a multiset) exactly as the insert of the spec's command
  table does, or leaves it unchanged if the command inserts nothing; a command that
  fails with \<open>IntegrityError\<close> is one whose abstract insert is refused. This holds
  between two commands (nothing pending), whether the store checks constraints at
  \<^verbatim>\<open>execute\<close> or at \<^verbatim>\<open>commit\<close>.\<close>

theorem handle_command_refines:
  assumes "github_unique sch" and "title_unique sch" and "pending s = []"
  shows "case handle_command sch fo cmd args s of
           Inr (out, s') \<Rightarrow>
             (case cmd_write cmd args of
                None \<Rightarrow> abs_tables (session_view s') = abs_tables (session_view s)
              | Some w \<Rightarrow> abs_write sch w (abs_tables (session_view s)) =
                          Some (abs_tables (session_view s')))
         | Inl (_, IntegrityError tbl) \<Rightarrow>
             (\<exists>w. cmd_write cmd args = Some w \<and> abs_write sch w (abs_tables (session_view s)) = None)
         | Inl _ \<Rightarrow> True"
proof (cases "handle_command sch fo cmd args s")
  case (Inr res)
  obtain out s' where res: "res = (out, s')" by (cases res)
  have eff: "case cmd_write cmd args of
           None \<Rightarrow> s' = s
         | Some w \<Rightarrow> violation sch (session_view s) w = None \<and> s' = committed_after w s"
    using Inr res by (simp add: handle_command_effect)
  show ?thesis
  proof (cases "cmd_write cmd args")
    case None
    with eff Inr res show ?thesis by simp
  next
    case (Some w)
    with eff have "violation sch (session_view s) w = None" and "s' = committed_after w s"
      by simp_all
    with abs_tables_apply_write [OF _ assms(1,2)] Some Inr res show ?thesis by simp
  qed
next
  case (Inl p)
  obtain o1 e where p: "p = (o1, e)" by (cases p)
  show ?thesis
  proof (cases e)
    case (IntegrityError tbl)
    with Inl p obtain w where "cmd_write cmd args = Some w" "violation sch (session_view s) w = Some tbl"
      using handle_command_error [OF assms(3)] by blast
    with abs_tables_violation [OF _ assms(1,2)] Inl p IntegrityError show ?thesis by auto
  qed (use Inl p in simp_all)
qed

theorem handle_command_refines_witness:
  "abs_write demo_schema (insert_student ''Ada'' ''Lovelace'' ''ada'')
      (abs_tables (session_view (open_session empty_tables))) =
   Some (abs_tables (session_view (committed_after (insert_student ''Ada'' ''Lovelace'' ''ada'')
      (open_session empty_tables))))"
proof -
  have u: "github_unique demo_schema" "title_unique demo_schema" by (simp_all add: demo_schema_def)
  have run: "handle_command demo_schema heap_order ''new_student'' [''Ada'', ''Lovelace'', ''ada'']
      (open_session empty_tables) =
      Inr ([py_print ''Data has been inserted succesfully!''],
           committed_after (insert_student ''Ada'' ''Lovelace'' ''ada'') (open_session empty_tables))"
    by (simp add: handle_command_def py_simps make_new_student_eq insert_student_def open_session_def
        empty_tables_def)
  have cw: "cmd_write ''new_student'' [''Ada'', ''Lovelace'', ''ada''] =
      Some (insert_student ''Ada'' ''Lovelace'' ''ada'')"
    by (simp add: cmd_write_def)
  have p: "pending (open_session empty_tables) = []" by (simp add: open_session_def)
  from handle_command_refines [OF u p, where fo = heap_order and cmd = "''new_student''"
      and args = "[''Ada'', ''Lovelace'', ''ada'']"] run cw
  show ?thesis by simp
qed

text \<open>C13. With unique GitHub accounts, the \<^verbatim>\<open>student\<close> command implements a lookup
  in the abstract map of students: it prints the entry's names, or raises
  \<open>TypeError\<close> if there is none, whatever order the store returns rows in; extra
  arguments are ignored.\<close>

theorem student_lookup_refines:
  assumes "fetch_ok (fetch_student fo)" and "github_unique sch"
    and "keys_ok sch (session_view s)"
  shows "handle_command sch fo ''student'' (gh # extra) s =
           (case abs_students (abs_tables (session_view s)) gh of
              None \<Rightarrow> Inl ([], TypeError)
            | Some (fn, ln) \<Rightarrow>
                Inr ([py_print (''Student: '' @ fn @ '' '' @ ln @ nl @ ''GitHub account: '' @ gh)], s))"
  using get_student_abs [OF assms, of gh] by (simp add: handle_command_def py_simps)

theorem student_lookup_refines_witness:
  "handle_command demo_schema heap_order ''student'' [''ada'']
      (committed_after (insert_student ''Ada'' ''Lovelace'' ''ada'') (open_session empty_tables)) =
     Inr ([py_print (''Student: Ada Lovelace'' @ nl @ ''GitHub account: ada'')],
          committed_after (insert_student ''Ada'' ''Lovelace'' ''ada'') (open_session empty_tables))"
proof -
  let ?s = "committed_after (insert_student ''Ada'' ''Lovelace'' ''ada'') (open_session empty_tables)"
  have h: "fetch_ok (fetch_student heap_order)" "github_unique demo_schema"
      "keys_ok demo_schema (session_view ?s)"
    by (simp_all add: demo_schema_def keys_ok_def insert_student_def open_session_def empty_tables_def)
  have "abs_students (abs_tables (session_view ?s)) ''ada'' = Some (''Ada'', ''Lovelace'')"
    by (simp add: abs_tables_def insert_student_def open_session_def empty_tables_def)
  with student_lookup_refines [OF h, of "''ada''" "[]"] show ?thesis by simp
qed

text \<open>C14. Once a \<^verbatim>\<open>quit\<close> line has been read, the lines after it are never read:
  the run on the input up to and including that line determines the whole result.\<close>

theorem lines_after_quit_unread:
  assumes "str_split line = ''quit'' # args"
  shows "handle_input sch fo (xs @ line # ys) s = handle_input sch fo (xs @ [line]) s"
  using handle_input_append [OF handle_input_quit_last [OF assms], where ys = ys] by simp

theorem lines_after_quit_unread_witness:
  "handle_input demo_schema heap_order [''foobar'', ''quit'', '''', ''student nobody'']
      (open_session empty_tables) =
   handle_input demo_schema heap_order [''foobar'', ''quit''] (open_session empty_tables)"
proof -
  have "str_split ''quit'' = ''quit'' # []" by (simp add: str_split.simps is_py_space_def)
  from lines_after_quit_unread [OF this, where sch = demo_schema and fo = heap_order
      and xs = "[''foobar'']" and ys = "[[], ''student nobody'']" and s = "open_session empty_tables"]
  show ?thesis by simp
qed

text \<open>C15. The \<^verbatim>\<open>projects\<close> command looks the project up and discards the row:
  it prints nothing and changes nothing, whether the project exists or not.\<close>

theorem projects_prints_nothing:
  "handle_command sch fo ''projects'' (ti # extra) s = Inr ([], s)"
  by (simp add: handle_command_def py_simps)

text \<open>C16. \<^verbatim>\<open>new_project\<close> with a single argument raises nothing: \<^verbatim>\<open>args[0]\<close>
  and \<^verbatim>\<open>args[-1]\<close> are the same token, so it inserts a project whose title and
  maximum grade are both that token and whose description is empty.\<close>

theorem new_project_single_arg:
  "handle_command sch fo ''new_project'' [x] s = add_project sch fo x [] x s"
  by (simp add: handle_command_def py_simps)

text \<open>C17. For a \<^verbatim>\<open>new_project\<close> line, the stored description is the tokens
  between the title and the maximum grade joined by single spaces, and splitting it
  again gives those tokens back: runs of white space in the description collapse to
  one space and quotes are kept as characters.\<close>

theorem new_project_description:
  assumes "str_split line = ''new_project'' # ti # ws @ [mg]"
  shows "handle_command sch fo ''new_project'' (py_slice (str_split line) 1 None) s =
           add_project sch fo ti (str_join '' '' ws) mg s \<and>
         str_split (str_join '' '' ws) = ws"
proof -
  have "\<forall>t\<in>set ws. word t"
    using assms str_split_tokens_aux [of _ line] by auto
  then have "str_split (str_join '' '' ws) = ws" by (rule str_split_join)
  moreover have "handle_command sch fo ''new_project'' (py_slice (str_split line) 1 None) s =
      add_project sch fo ti (str_join '' '' ws) mg s"
    using assms by (simp add: handle_command_def py_simps)
  ultimately show ?thesis by simp
qed

theorem new_project_description_witness:
  "handle_command demo_schema heap_order ''new_project''
      (py_slice (str_split (''new_project Ants '' @ [CHR 0x22] @ ''kill  all the ants'' @ [CHR 0x22] @ '' 100''))
        1 None) (open_session empty_tables) =
     add_project demo_schema heap_order ''Ants'' ([CHR 0x22] @ ''kill all the ants'' @ [CHR 0x22]) ''100''
       (open_session empty_tables) \<and>
   str_split ([CHR 0x22] @ ''kill all the ants'' @ [CHR 0x22]) =
     [CHR 0x22 # ''kill'', ''all'', ''the'', ''ants'' @ [CHR 0x22]]"
proof -
  have tok: "str_split (''new_project Ants '' @ [CHR 0x22] @ ''kill  all the ants'' @ [CHR 0x22] @ '' 100'') =
      ''new_project'' # ''Ants'' # [CHR 0x22 # ''kill'', ''all'', ''the'', ''ants'' @ [CHR 0x22]] @ [''100'']"
    by (simp add: str_split.simps is_py_space_def)
  have j: "str_join '' '' [CHR 0x22 # ''kill'', ''all'', ''the'', ''ants'' @ [CHR 0x22]] =
      [CHR 0x22] @ ''kill all the ants'' @ [CHR 0x22]"
    by simp
  from new_project_description [OF tok, of demo_schema heap_order "open_session empty_tables"] j
  show ?thesis by simp
qed

end
