(* ===== verification/Spec_Machine.thy ===== *)
theory Spec_Machine
  imports Command_Loop
begin

text \<open>
  The spec's contract for a whole run, as an abstract machine over the abstract data
  model of \<^theory_text>\<open>Database\<close> (students and projects as maps from their identifiers,
  grades as a multiset), and the proof that \<open>main\<close> implements it.
  \<^item> \<open>abs_cmd\<close> is what one command does on the abstract database (spec sections 4.1
    to 4.7 and 7): the argument-count errors the code raises (it accepts
    \<^verbatim>\<open>new_project\<close> with a single argument, which spec section 7's wording would make
    fatal; the machine follows the code there, as the finding on it records), a student lookup that fails on an
    absent account, a grade lookup that prints \<^emph>\<open>some\<close> stored grade for the pair
    (the spec leaves the choice to the store), the three inserts of the spec's
    command table through \<open>abs_write\<close>, and the invalid-entry message.
  \<^item> \<open>abs_run\<close> is the loop: prompt, split, stop on \<^verbatim>\<open>quit\<close>, on an error or at
    the end of the input.
  Both are relations, since a grade lookup may print any stored grade of the pair.
\<close>

section \<open>The abstract machine\<close>

definition known_commands :: "string list" where
  "known_commands = [''student'', ''new_student'', ''projects'', ''grade'', ''give_grade'', ''new_project'']"

text \<open>The error a known command raises for a wrong number of arguments: the
  commands that take \<^verbatim>\<open>args[0]\<close> need one, the ones that unpack need exactly as
  many as they unpack.\<close>

definition arity_error :: "string \<Rightarrow> string list \<Rightarrow> py_error option" where
  "arity_error cmd args =
     (if cmd \<in> {''student'', ''projects'', ''new_project''}
      then (if args = [] then Some IndexError else None)
      else if cmd \<in> {''new_student'', ''give_grade''}
      then (if length args \<noteq> 3 then Some (ValueError 3 (length args)) else None)
      else if cmd = ''grade''
      then (if length args \<noteq> 2 then Some (ValueError 2 (length args)) else None)
      else None)"

definition student_msg :: "string \<Rightarrow> string \<Rightarrow> string \<Rightarrow> string" where
  "student_msg fn ln gh = ''Student: '' @ fn @ '' '' @ ln @ nl @ ''GitHub account: '' @ gh"

primrec write_msg :: "db_write \<Rightarrow> string" where
  "write_msg (Insert_student r) = ''Data has been inserted succesfully!''"
| "write_msg (Insert_project r) = project_ok_msg"
| "write_msg (Insert_grade r) = assign_grade_msg (student_github r) (project_title r) (grade r)"

primrec write_table :: "db_write \<Rightarrow> string" where
  "write_table (Insert_student r) = ''students''"
| "write_table (Insert_project r) = ''projects''"
| "write_table (Insert_grade r) = ''grades''"

inductive abs_cmd ::
  "schema \<Rightarrow> abs_db \<Rightarrow> string \<Rightarrow> string list \<Rightarrow> abs_db py_run \<Rightarrow> bool"
  for sch where
  arity: "arity_error cmd args = Some e \<Longrightarrow> abs_cmd sch A cmd args (Inl ([], e))"
| student_found: "abs_students A gh = Some (fn, ln) \<Longrightarrow>
    abs_cmd sch A ''student'' (gh # extra) (Inr ([py_print (student_msg fn ln gh)], A))"
| student_missing: "abs_students A gh = None \<Longrightarrow>
    abs_cmd sch A ''student'' (gh # extra) (Inl ([], TypeError))"
| projects: "abs_cmd sch A ''projects'' (ti # extra) (Inr ([], A))"
| grade_none: "filter_mset (\<lambda>(a, b, _). a = gh \<and> b = ti) (abs_grades A) = {#} \<Longrightarrow>
    abs_cmd sch A ''grade'' [gh, ti] (Inr ([py_print no_grade_msg], A))"
| grade_some: "(gh, ti, g) \<in># abs_grades A \<Longrightarrow>
    abs_cmd sch A ''grade'' [gh, ti] (Inr ([py_print (''Grades is '' @ g @ '' for '' @ ti)], A))"
| write_ok: "cmd_write cmd args = Some w \<Longrightarrow> abs_write sch w A = Some A' \<Longrightarrow>
    abs_cmd sch A cmd args (Inr ([py_print (write_msg w)], A'))"
| write_refused: "cmd_write cmd args = Some w \<Longrightarrow> abs_write sch w A = None \<Longrightarrow>
    abs_cmd sch A cmd args (Inl ([], IntegrityError (write_table w)))"
| invalid: "cmd \<notin> set known_commands \<Longrightarrow> cmd \<noteq> ''quit'' \<Longrightarrow>
    abs_cmd sch A cmd args (Inr ([py_print invalid_msg], A))"

inductive abs_run ::
  "schema \<Rightarrow> abs_db \<Rightarrow> string list \<Rightarrow> outcome \<Rightarrow> stdout \<Rightarrow> abs_db \<Rightarrow> bool"
  for sch where
  eof: "abs_run sch A [] (Crash EOFError) [prompt] A"
| blank: "str_split l = [] \<Longrightarrow> abs_run sch A (l # rest) (Crash IndexError) [prompt] A"
| quit: "str_split l = ''quit'' # args \<Longrightarrow> abs_run sch A (l # rest) Quit [prompt] A"
| crash: "str_split l = cmd # args \<Longrightarrow> abs_cmd sch A cmd args (Inl (out, e)) \<Longrightarrow>
    abs_run sch A (l # rest) (Crash e) (prompt # out) A"
| continue: "str_split l = cmd # args \<Longrightarrow> cmd \<noteq> ''quit'' \<Longrightarrow> abs_cmd sch A cmd args (Inr (out, A')) \<Longrightarrow>
    abs_run sch A' rest r out' A'' \<Longrightarrow> abs_run sch A (l # rest) r (prompt # out @ out') A''"

text \<open>The abstract image of a command's result.\<close>

definition abs_result :: "cmd_result \<Rightarrow> abs_db py_run" where
  "abs_result res = map_sum id (\<lambda>(out, s'). (out, abs_tables (committed s'))) res"

text \<open>The number of rows of a database.\<close>

definition row_count :: "tables \<Rightarrow> nat" where
  "row_count t = length (students t) + length (projects t) + length (grades t)"

section \<open>Simulation of one command\<close>

lemma abs_result_simps [simp]:
  "abs_result (Inl p) = Inl p"
  "abs_result (Inr (out, s')) = Inr (out, abs_tables (committed s'))"
  by (simp_all add: abs_result_def)

lemma violation_table: "violation sch t w = Some tbl \<Longrightarrow> tbl = write_table w"
  by (cases w) (simp_all split: if_splits)

lemma write_step_abs:
  assumes "cmd_write cmd args = Some w" and "github_unique sch" and "title_unique sch"
    and "pending s = []"
    and "res = (case violation sch (session_view s) w of
                  Some tbl \<Rightarrow> Inl ([], IntegrityError tbl)
                | None \<Rightarrow> Inr ([py_print (write_msg w)], committed_after w s))"
  shows "abs_cmd sch (abs_tables (committed s)) cmd args (abs_result res)"
proof (cases "violation sch (session_view s) w")
  case None
  with abs_tables_apply_write [OF None assms(2,3)] assms(1,4,5) show ?thesis
    by (simp add: committed_after_def abs_cmd.write_ok)
next
  case (Some tbl)
  with abs_tables_violation [OF Some assms(2,3)] violation_table [OF Some] assms(1,4,5)
  show ?thesis by (simp add: abs_cmd.write_refused)
qed


lemma write_msg_inserts [simp]:
  "write_msg (insert_student fn ln gh) = ''Data has been inserted succesfully!''"
  "write_msg (insert_grade gh ti g) = assign_grade_msg gh ti g"
  "write_msg (insert_project ti d mg) = project_ok_msg"
  by (simp_all add: insert_student_def insert_grade_def insert_project_def)

lemma handle_command_abs:
  assumes fo: "fetch_order_ok fo" and u: "github_unique sch" "title_unique sch"
    and d: "\<not> constraints_deferred sch"
    and ok: "session_ok sch s" and q: "cmd \<noteq> ''quit''"
  shows "abs_cmd sch (abs_tables (committed s)) cmd args (abs_result (handle_command sch fo cmd args s))"
proof -
  have p: "pending s = []" and k: "keys_ok sch (session_view s)"
    using ok by (simp_all add: session_ok_def)
  note ins = write_step_abs [OF _ u p]
  note arity = abs_cmd.arity [where sch = sch and A = "abs_tables (committed s)"]
  consider "cmd = ''student''" | "cmd = ''new_student''" | "cmd = ''projects''" | "cmd = ''grade''"
    | "cmd = ''give_grade''" | "cmd = ''new_project''" | "cmd \<notin> set known_commands"
    by (auto simp: known_commands_def)
  then show ?thesis
  proof cases
    case 1
    show ?thesis
    proof (cases args)
      case Nil
      with 1 arity show ?thesis by (simp add: handle_command_def py_simps arity_error_def)
    next
      case (Cons gh extra)
      note get = get_student_abs [OF fetch_order_okD(1) [OF fo] u(1) k, of gh]
      show ?thesis
      proof (cases "abs_students (abs_tables (committed s)) gh")
        case None
        with 1 Cons p get show ?thesis
          by (simp add: handle_command_def py_simps abs_cmd.student_missing)
      next
        case (Some n)
        obtain fn ln where n: "n = (fn, ln)" by (cases n)
        with Some have "abs_cmd sch (abs_tables (committed s)) cmd args
            (Inr ([py_print (student_msg fn ln gh)], abs_tables (committed s)))"
          using 1 Cons by (simp add: abs_cmd.student_found)
        with 1 Cons Some n p get show ?thesis
          by (simp add: handle_command_def py_simps student_msg_def)
      qed
    qed
  next
    case 2
    show ?thesis
    proof (cases "length args = 3")
      case True
      then obtain a b c where args: "args = [a, b, c]" by (auto simp: numeral_3_eq_3 length_Suc_conv)
      show ?thesis
        by (rule ins [where w = "insert_student a b c"])
          (simp_all add: 2 args p d handle_command_def py_simps cmd_write_def make_new_student_eq
            split: option.split)
    next
      case False
      with 2 arity show ?thesis by (simp add: handle_command_def unpack3_wrong arity_error_def)
    qed
  next
    case 3
    with arity show ?thesis
      by (cases args) (auto simp: handle_command_def py_simps arity_error_def intro: abs_cmd.projects)
  next
    case 4
    show ?thesis
    proof (cases "length args = 2")
      case True
      then obtain gh ti where args: "args = [gh, ti]" by (auto simp: numeral_2_eq_2 length_Suc_conv)
      let ?A = "abs_tables (committed s)"
      have run: "abs_result (handle_command sch fo cmd args s) =
          abs_result (get_grade_by_github_title fo gh ti s)"
        by (simp add: 4 args handle_command_def py_simps)
      from get_grade_abs [OF fetch_order_okD(3) [OF fo], of gh ti s] show ?thesis
      proof
        assume none: "get_grade_by_github_title fo gh ti s = Inr ([py_print no_grade_msg], s) \<and>
          filter_mset (\<lambda>(a, b, _). a = gh \<and> b = ti) (abs_grades (abs_tables (session_view s))) = {#}"
        have "abs_cmd sch ?A ''grade'' [gh, ti] (Inr ([py_print no_grade_msg], ?A))"
          by (rule abs_cmd.grade_none) (use none p in simp)
        with none run show ?thesis by (simp add: 4 args)
      next
        assume "\<exists>g. get_grade_by_github_title fo gh ti s =
            Inr ([py_print (''Grades is '' @ g @ '' for '' @ ti)], s) \<and>
          (gh, ti, g) \<in># abs_grades (abs_tables (session_view s))"
        then obtain g where g: "get_grade_by_github_title fo gh ti s =
            Inr ([py_print (''Grades is '' @ g @ '' for '' @ ti)], s)"
          and mem: "(gh, ti, g) \<in># abs_grades ?A"
          using p by auto
        have "abs_cmd sch ?A ''grade'' [gh, ti] (Inr ([py_print (''Grades is '' @ g @ '' for '' @ ti)], ?A))"
          by (rule abs_cmd.grade_some [OF mem])
        with g run show ?thesis by (simp add: 4 args)
      qed
    next
      case False
      with 4 arity show ?thesis by (simp add: handle_command_def unpack2_wrong arity_error_def)
    qed
  next
    case 5
    show ?thesis
    proof (cases "length args = 3")
      case True
      then obtain a b c where args: "args = [a, b, c]" by (auto simp: numeral_3_eq_3 length_Suc_conv)
      show ?thesis
        by (rule ins [where w = "insert_grade a b c"])
          (simp_all add: 5 args p d handle_command_def py_simps cmd_write_def assign_grade_eq
            split: option.split)
    next
      case False
      with 5 arity show ?thesis by (simp add: handle_command_def unpack3_wrong arity_error_def)
    qed
  next
    case 6
    show ?thesis
    proof (cases "args = []")
      case True
      with 6 arity show ?thesis by (simp add: handle_command_def py_simps arity_error_def)
    next
      case False
      then obtain ti rest where args: "args = ti # rest" by (cases args) auto
      let ?w = "insert_project ti (str_join '' '' (butlast rest)) (last args)"
      have rq: "\<And>d mg. get_project_by_title fo ti (committed_after (insert_project ti d mg) s) \<noteq> None"
        using requery_finds_project [OF fetch_order_okD(2) [OF fo]] by blast
      have h: "handle_command sch fo cmd args s = add_project sch fo ti (str_join '' '' (butlast rest)) (last args) s"
        by (simp add: 6 args handle_command_def py_simps)
      show ?thesis
        by (rule ins [where w = ?w])
          (simp add: 6 args cmd_write_def, simp add: h p add_project_eq rq Let_def split: option.split)
    qed
  next
    case 7
    with q have "cmd_write cmd args = None" "cmd \<noteq> ''student''" "cmd \<noteq> ''new_student''"
      "cmd \<noteq> ''projects''" "cmd \<noteq> ''grade''" "cmd \<noteq> ''give_grade''" "cmd \<noteq> ''new_project''"
      by (auto simp: known_commands_def cmd_write_def)
    with 7 q show ?thesis by (simp add: handle_command_def abs_cmd.invalid)
  qed
qed

section \<open>Simulation of a run\<close>

lemma handle_input_abs:
  assumes fo: "fetch_order_ok fo" and u: "github_unique sch" "title_unique sch"
    and d: "\<not> constraints_deferred sch"
  shows "session_ok sch s \<Longrightarrow> handle_input sch fo lines s = (r, out, s') \<Longrightarrow>
         abs_run sch (abs_tables (committed s)) lines r out (abs_tables (committed s'))"
proof (induction lines arbitrary: s out)
  case Nil
  then show ?case by (auto intro: abs_run.eof)
next
  case (Cons line rest)
  show ?case
  proof (cases "str_split line")
    case Nil
    have "(Crash IndexError, [prompt], s) = (r, out, s')"
      using Cons.prems(2) by (simp only: handle_input_blank [OF Nil])
    with Nil show ?thesis by (auto intro: abs_run.blank)
  next
    case (Cons cmd args)
    note run = Cons.prems(2) [unfolded handle_input_line [OF Cons]]
    show ?thesis
    proof (cases "cmd = ''quit''")
      case True
      with run Cons show ?thesis by (auto simp: handle_command_quit intro: abs_run.quit)
    next
      case False
      note step = handle_command_abs [OF fo u d Cons.prems(1) False, of args]
      show ?thesis
      proof (cases "handle_command sch fo cmd args s")
        case (Inl p)
        with run step Cons show ?thesis by (cases p) (auto intro: abs_run.crash)
      next
        case (Inr res)
        obtain o1 s1 where res: "res = (o1, s1)" by (cases res)
        obtain out' where tail: "handle_input sch fo rest s1 = (r, out', s')"
          and out: "out = prompt # o1 @ out'"
          using run Inr res False by (auto split: prod.splits)
        have "session_ok sch s1"
          using handle_command_session_ok [OF Cons.prems(1)] Inr res by blast
        with Cons.IH tail have "abs_run sch (abs_tables (committed s1)) rest r out' (abs_tables (committed s'))"
          by blast
        with step Inr res out \<open>str_split line = cmd # args\<close> False show ?thesis
          by (auto intro: abs_run.continue)
      qed
    qed
  qed
qed

section \<open>The program implements the spec\<close>

text \<open>C23. With a lawful row order, unique GitHub accounts and project titles, and
  constraints checked when a statement executes, every run of the program on a
  database whose keys are unique is a run of the spec's abstract machine: the same
  outcome, the same output, and a final database whose abstraction is the abstract
  machine's final state.\<close>

theorem main_refines_spec:
  assumes "fetch_order_ok fo" and "github_unique sch" and "title_unique sch"
    and "\<not> constraints_deferred sch" and "keys_ok sch db"
    and "main sch fo db lines = (r, out, db')"
  shows "abs_run sch (abs_tables db) lines r out (abs_tables db')"
proof -
  obtain s' where run: "handle_input sch fo lines (open_session db) = (r, out, s')"
    and db': "db' = committed s'"
    using assms(6) by (auto simp: main_def db_close_def split: prod.splits)
  have "session_ok sch (open_session db)"
    using assms(5) by (simp add: session_ok_def open_session_def)
  from handle_input_abs [OF assms(1-4) this run] db' show ?thesis
    by (simp add: open_session_def)
qed

theorem main_refines_spec_witness:
  "abs_run demo_schema \<lparr>abs_students = Map.empty, abs_projects = Map.empty, abs_grades = {#}\<rparr>
     [''new_student Ada Lovelace ada'', ''student ada'', ''quit''] Quit
     [prompt, py_print ''Data has been inserted succesfully!'',
      prompt, py_print (student_msg ''Ada'' ''Lovelace'' ''ada''), prompt]
     \<lparr>abs_students = [''ada'' \<mapsto> (''Ada'', ''Lovelace'')], abs_projects = Map.empty, abs_grades = {#}\<rparr>"
proof -
  let ?ada = "\<lparr>first_name = ''Ada'', last_name = ''Lovelace'', github = ''ada''\<rparr>"
  have run: "main demo_schema heap_order empty_tables
      [''new_student Ada Lovelace ada'', ''student ada'', ''quit''] =
      (Quit, [prompt, py_print ''Data has been inserted succesfully!'',
              prompt, py_print (student_msg ''Ada'' ''Lovelace'' ''ada''), prompt],
       \<lparr>students = [?ada], projects = [], grades = []\<rparr>)"
    by (simp add: main_def open_session_def db_close_def str_split.simps is_py_space_def
        handle_command_def py_simps make_new_student_eq get_student_by_github_def select_student_def
        insert_student_def empty_tables_def committed_after_def session_view_def student_msg_def
        demo_schema_def)
  have h: "fetch_order_ok heap_order" "github_unique demo_schema" "title_unique demo_schema"
      "\<not> constraints_deferred demo_schema" "keys_ok demo_schema empty_tables"
    by (simp_all add: demo_schema_def keys_ok_def empty_tables_def)
  from main_refines_spec [OF h run] show ?thesis
    by (simp add: abs_tables_def empty_tables_def)
qed

section \<open>Properties of whole runs\<close>

text \<open>A command prints at most one line.\<close>

lemma handle_command_output:
  "handle_command sch fo cmd args s = Inr (out, s') \<Longrightarrow> out = [] \<or> (\<exists>m. out = [py_print m])"
  "handle_command sch fo cmd args s = Inl (out, e) \<Longrightarrow> out = [] \<or> (\<exists>m. out = [py_print m])"
  by (auto simp: handle_command_def py_simps unpack2_eq_Inr unpack3_eq_Inr Let_def py_seq_eq_Inl
      make_new_student_def assign_grade_def add_project_def get_student_by_github_def
      get_grade_by_github_title_def split: if_splits option.splits list.splits sum.splits)

lemma handle_command_prints:
  "handle_command sch fo cmd args s = Inr (out, s') \<Longrightarrow> \<forall>x\<in>set out. \<exists>m. x = py_print m"
  by (drule handle_command_output(1)) auto

lemma handle_command_output_le1:
  "handle_command sch fo cmd args s = Inr (out, s') \<Longrightarrow> length out \<le> 1"
  "handle_command sch fo cmd args s = Inl (out, e) \<Longrightarrow> length out \<le> 1"
  by (drule handle_command_output(1), auto) (drule handle_command_output(2), auto)

lemma prompt_not_print: "py_print m \<noteq> prompt" "prompt \<noteq> py_print m"
proof -
  show "py_print m \<noteq> prompt"
  proof
    assume "py_print m = prompt"
    then have "last (py_print m) = last prompt" by simp
    then show False by (simp add: prompt_def nl_def)
  qed
  then show "prompt \<noteq> py_print m" by (rule not_sym)
qed

lemma handle_command_no_prompt:
  assumes "handle_command sch fo cmd args s = Inr (out, s')"
  shows "filter (\<lambda>x. x = prompt) out = []"
  using handle_command_prints [OF assms] prompt_not_print
  by (auto simp: filter_empty_iff_not_ex)

text \<open>C24. A run ends with \<open>EOFError\<close> only after reading every line: each line
  had a command other than \<^verbatim>\<open>quit\<close>, and a prompt was written for each line and once
  more for the \<^verbatim>\<open>input()\<close> that found the input exhausted.\<close>

theorem eof_after_all_lines:
  assumes "handle_input sch fo lines s = (Crash EOFError, out, s')"
  shows "(\<forall>l\<in>set lines. \<exists>cmd args. str_split l = cmd # args \<and> cmd \<noteq> ''quit'') \<and>
         length (filter (\<lambda>x. x = prompt) out) = Suc (length lines)"
  using assms
proof (induction lines arbitrary: s out)
  case Nil
  then show ?case by auto
next
  case (Cons line rest)
  show ?case
  proof (cases "str_split line")
    case Nil
    with Cons.prems show ?thesis by (simp only: handle_input_blank) simp
  next
    case (Cons cmd args)
    note run = Cons.prems [unfolded handle_input_line [OF Cons]]
    show ?thesis
    proof (cases "handle_command sch fo cmd args s")
      case (Inl p)
      with run handle_command_not_eof [of sch fo cmd args s "fst p"] show ?thesis by (cases p) auto
    next
      case (Inr res)
      obtain o1 s1 where res: "res = (o1, s1)" by (cases res)
      have q: "cmd \<noteq> ''quit''" using run Inr res by (auto split: if_splits)
      obtain out' where tail: "handle_input sch fo rest s1 = (Crash EOFError, out', s')"
        and out: "out = prompt # o1 @ out'"
        using run Inr res q by (auto split: prod.splits)
      have "filter (\<lambda>x. x = prompt) o1 = []"
        using Inr res by (simp add: handle_command_no_prompt)
      with Cons.IH [OF tail] out q \<open>str_split line = cmd # args\<close> show ?thesis by simp
    qed
  qed
qed

theorem eof_after_all_lines_witness:
  "(\<exists>cmd args. str_split ''foobar'' = cmd # args \<and> cmd \<noteq> ''quit'') \<and>
   length (filter (\<lambda>x. x = prompt) [prompt, py_print invalid_msg, prompt]) = Suc (length [''foobar''])"
proof -
  have run: "handle_input demo_schema heap_order [''foobar''] (open_session empty_tables) =
      (Crash EOFError, [prompt, py_print invalid_msg, prompt], open_session empty_tables)"
    by (simp add: str_split.simps is_py_space_def handle_command_def py_simps)
  from eof_after_all_lines [OF run] show ?thesis by simp
qed

text \<open>C25. The loop ends normally only at a \<^verbatim>\<open>quit\<close> line: if a run ends with
  \<open>Quit\<close>, one of the input lines had \<^verbatim>\<open>quit\<close> as its first token.\<close>

theorem quit_required:
  assumes "handle_input sch fo lines s = (Quit, out, s')"
  shows "\<exists>l args. l \<in> set lines \<and> str_split l = ''quit'' # args"
  using assms
proof (induction lines arbitrary: s out)
  case Nil
  then show ?case by simp
next
  case (Cons line rest)
  show ?case
  proof (cases "str_split line")
    case Nil
    with Cons.prems show ?thesis by (simp only: handle_input_blank) simp
  next
    case (Cons cmd args)
    note run = Cons.prems [unfolded handle_input_line [OF Cons]]
    show ?thesis
    proof (cases "cmd = ''quit''")
      case True
      with Cons show ?thesis by auto
    next
      case False
      from run False obtain s1 out' where tail: "handle_input sch fo rest s1 = (Quit, out', s')"
        by (auto split: sum.splits prod.splits)
      from Cons.IH [OF tail] show ?thesis by auto
    qed
  qed
qed

theorem quit_required_witness:
  "\<exists>l args. l \<in> set [''new_student Ada Lovelace ada'', ''quit''] \<and> str_split l = ''quit'' # args"
proof -
  have run: "handle_input demo_schema heap_order [''new_student Ada Lovelace ada'', ''quit'']
      (open_session empty_tables) =
      (Quit, [prompt, py_print ''Data has been inserted succesfully!'', prompt],
       committed_after (insert_student ''Ada'' ''Lovelace'' ''ada'') (open_session empty_tables))"
    by (simp add: str_split.simps is_py_space_def handle_command_def py_simps make_new_student_eq
        insert_student_def open_session_def empty_tables_def session_view_def)
  from quit_required [OF run] show ?thesis .
qed

lemma handle_command_fetch_indep:
  assumes fo: "fetch_order_ok fo1" "fetch_order_ok fo2" and g: "fetch_grade fo1 = fetch_grade fo2"
    and u: "github_unique sch" and ok: "session_ok sch s"
  shows "handle_command sch fo1 cmd args s = handle_command sch fo2 cmd args s"
proof -
  have k: "keys_ok sch (session_view s)" and p: "pending s = []"
    using ok by (simp_all add: session_ok_def)
  have st: "get_student_by_github fo1 gh s = get_student_by_github fo2 gh s" for gh
    using get_student_abs [OF fetch_order_okD(1) [OF fo(1)] u k, of gh]
      get_student_abs [OF fetch_order_okD(1) [OF fo(2)] u k, of gh] by simp
  have gr: "get_grade_by_github_title fo1 gh ti s = get_grade_by_github_title fo2 gh ti s" for gh ti
    using g by (simp add: get_grade_by_github_title_def)
  have pr: "add_project sch fo1 ti d mg s = add_project sch fo2 ti d mg s" for ti d mg
    using requery_finds_project [OF fetch_order_okD(2) [OF fo(1)], of ti d mg s]
      requery_finds_project [OF fetch_order_okD(2) [OF fo(2)], of ti d mg s]
    by (auto simp: p add_project_eq Let_def split: option.split)
  show ?thesis
    by (simp add: handle_command_def st gr pr cong: if_cong)
qed

lemma handle_input_fetch_indep:
  assumes fo: "fetch_order_ok fo1" "fetch_order_ok fo2" and g: "fetch_grade fo1 = fetch_grade fo2"
    and u: "github_unique sch"
  shows "session_ok sch s \<Longrightarrow> handle_input sch fo1 lines s = handle_input sch fo2 lines s"
proof (induction lines arbitrary: s)
  case Nil
  then show ?case by simp
next
  case (Cons line rest)
  show ?case
  proof (cases "str_split line")
    case Nil
    then show ?thesis by (simp only: handle_input_blank)
  next
    case (Cons cmd args)
    have eq: "handle_command sch fo1 cmd args s = handle_command sch fo2 cmd args s"
      by (rule handle_command_fetch_indep [OF fo g u Cons.prems])
    have "handle_input sch fo1 rest s' = handle_input sch fo2 rest s'"
      if "handle_command sch fo2 cmd args s = Inr (out, s')" for out s'
      using Cons.IH handle_command_session_ok [OF Cons.prems that] by blast
    then show ?thesis
      by (simp only: handle_input_line [OF Cons] eq split: sum.split prod.split) auto
  qed
qed

text \<open>C27. With unique GitHub accounts, the order in which the store returns student and
  project rows never shows: two lawful row orders that pick grade rows alike give the
  same outcome, the same output and the same final database on every input.\<close>

theorem main_fetch_independent:
  assumes "fetch_order_ok fo1" and "fetch_order_ok fo2" and "fetch_grade fo1 = fetch_grade fo2"
    and "github_unique sch" and "keys_ok sch db"
  shows "main sch fo1 db lines = main sch fo2 db lines"
proof -
  have "session_ok sch (open_session db)"
    using assms(5) by (simp add: session_ok_def open_session_def)
  with handle_input_fetch_indep [OF assms(1-4)] show ?thesis
    by (simp add: main_def)
qed


theorem main_fetch_independent_witness:
  "main demo_schema heap_order empty_tables [''new_student Ada Lovelace ada'', ''student ada'', ''quit''] =
   main demo_schema
     (heap_order\<lparr>fetch_student := \<lambda>rows. if rows = [] then None else Some (last rows),
                 fetch_project := \<lambda>rows. if rows = [] then None else Some (last rows)\<rparr>)
     empty_tables [''new_student Ada Lovelace ada'', ''student ada'', ''quit'']"
proof (rule main_fetch_independent)
  show "fetch_order_ok heap_order" by simp
  show "fetch_order_ok (heap_order\<lparr>fetch_student := \<lambda>rows. if rows = [] then None else Some (last rows),
      fetch_project := \<lambda>rows. if rows = [] then None else Some (last rows)\<rparr>)"
    using fetch_ok_first by (simp add: fetch_order_ok_def fetch_ok_def heap_order_def)
qed (simp_all add: heap_order_def demo_schema_def keys_ok_def empty_tables_def)

lemma row_count_apply_write [simp]: "row_count (apply_write w t) = Suc (row_count t)"
  by (cases w) (simp_all add: row_count_def)

lemma handle_command_rows:
  assumes "pending s = []" and "handle_command sch fo cmd args s = Inr (out, s')"
  shows "row_count (committed s') \<le> Suc (row_count (committed s))"
  using handle_command_effect [OF assms(2)] assms(1)
  by (auto simp: committed_after_def split: option.splits)

lemma handle_input_bounds:
  "pending s = [] \<Longrightarrow> handle_input sch fo lines s = (r, out, s') \<Longrightarrow>
   row_count (committed s') \<le> row_count (committed s) + length lines \<and>
   length out \<le> 2 * length lines + 1"
proof (induction lines arbitrary: s out)
  case Nil
  then have "out = [prompt] \<and> s' = s" by auto
  then show ?case by simp
next
  case (Cons line rest)
  show ?case
  proof (cases "str_split line")
    case Nil
    have "(Crash IndexError, [prompt], s) = (r, out, s')"
      using Cons.prems(2) by (simp only: handle_input_blank [OF Nil])
    then show ?thesis by auto
  next
    case (Cons cmd args)
    note run = Cons.prems(2) [unfolded handle_input_line [OF Cons]]
    show ?thesis
    proof (cases "handle_command sch fo cmd args s")
      case (Inl p)
      obtain o1 e where p: "p = (o1, e)" by (cases p)
      with Inl have "length o1 \<le> 1" by (blast intro: handle_command_output_le1(2))
      with run Inl p show ?thesis by auto
    next
      case (Inr res)
      obtain o1 s1 where res: "res = (o1, s1)" by (cases res)
      have step: "row_count (committed s1) \<le> Suc (row_count (committed s))" "length o1 \<le> 1"
        using handle_command_rows [OF Cons.prems(1)] handle_command_output_le1 Inr res by blast+
      show ?thesis
      proof (cases "cmd = ''quit''")
        case True
        with run Inr res step show ?thesis by auto
      next
        case False
        obtain out' where tail: "handle_input sch fo rest s1 = (r, out', s')"
          and out: "out = prompt # o1 @ out'"
          using run Inr res False by (auto split: prod.splits)
        have "pending s1 = []"
          using handle_command_pending [OF Cons.prems(1)] Inr res by blast
        from Cons.IH [OF this tail] step out show ?thesis by auto
      qed
    qed
  qed
qed

text \<open>C29. Each input line adds at most one row: the database a run leaves behind has at
  most as many rows more than it started with as there were input lines.\<close>

theorem main_rows_bound:
  "case main sch fo db lines of
     (r, out, db') \<Rightarrow> row_count db' \<le> row_count db + length lines"
  using handle_input_bounds [of "open_session db" sch fo lines]
  by (auto simp: main_def open_session_def db_close_def split: prod.split)

text \<open>C30. A run prints at most two lines per input line and one more: a prompt for each
  line read, at most one message per command, and the prompt of the \<^verbatim>\<open>input()\<close>
  that finds the input exhausted.\<close>

theorem main_output_bound:
  "case main sch fo db lines of (r, out, db') \<Rightarrow> length out \<le> 2 * length lines + 1"
  using handle_input_bounds [of "open_session db" sch fo lines]
  by (auto simp: main_def open_session_def split: prod.split)

end
