(* ===== verification/Program_Entry.thy ===== *)
theory Program_Entry
  imports Command_Loop
begin

text \<open>
  The module level of \<^verbatim>\<open>src/hackbright.py\<close>: the globals \<^verbatim>\<open>app = Flask(__name__)\<close>
  and \<^verbatim>\<open>db = SQLAlchemy()\<close>, \<^verbatim>\<open>connect_to_db(app)\<close>, which configures the
  application and binds the extension to it, and the \<^verbatim>\<open>__main__\<close> block.
  \<^item> The two globals are a record \<open>script_globals\<close>. The application object is a
    record of its import name, its \<^verbatim>\<open>config\<close> dictionary (a map from keys to
    configuration values) and the names in \<^verbatim>\<open>app.extensions\<close>; \<^verbatim>\<open>db.app\<close>
    always refers to the one module-level application, so the extension records only
    whether it is bound.
  \<^item> \<open>db_session\<close> is how Flask-SQLAlchemy 2.x resolves \<^verbatim>\<open>db.session\<close> outside
    a request: the bound application (\<open>RuntimeError\<close> if none), the registered
    extension (\<open>AssertionError\<close> if \<^verbatim>\<open>init_app\<close> was never called), and the
    database its \<^verbatim>\<open>SQLALCHEMY_DATABASE_URI\<close> names.
  \<^item> \<open>run_script\<close> is the \<^verbatim>\<open>__main__\<close> block over a database server, a map
    from database URIs to their tables: it connects, runs the loop on the session of
    the configured database and closes the session.
\<close>

datatype config_value = Config_str string | Config_bool bool

record flask_app =
  import_name :: string
  config :: "string \<rightharpoonup> config_value"
  extensions :: "string list"

record sqlalchemy =
  app_bound :: bool

record script_globals =
  app_obj :: flask_app
  db_obj :: sqlalchemy

text \<open>\<^verbatim>\<open>Flask(name)\<close> and \<^verbatim>\<open>SQLAlchemy()\<close>. Flask's own default configuration
  keys are left out: the program reads none of them.\<close>

definition Flask :: "string \<Rightarrow> flask_app" where
  "Flask name = \<lparr>import_name = name, config = Map.empty, extensions = []\<rparr>"

definition SQLAlchemy :: sqlalchemy where
  "SQLAlchemy = \<lparr>app_bound = False\<rparr>"

text \<open>Run as a script, \<^verbatim>\<open>__name__\<close> is \<^verbatim>\<open>"__main__"\<close>.\<close>

definition module_globals :: script_globals where
  "module_globals = \<lparr>app_obj = Flask ''__main__'', db_obj = SQLAlchemy\<rparr>"

definition uri_key :: string where
  "uri_key = ''SQLALCHEMY_DATABASE_URI''"

definition track_key :: string where
  "track_key = ''SQLALCHEMY_TRACK_MODIFICATIONS''"

definition hackbright_uri :: string where
  "hackbright_uri = ''postgresql:///hackbright''"

text \<open>\<^verbatim>\<open>db.init_app(app)\<close> in Flask-SQLAlchemy 2.x: the database URI defaults to an
  in-memory SQLite database unless already set (\<^verbatim>\<open>config.setdefault\<close>), and the
  extension registers itself in \<^verbatim>\<open>app.extensions\<close>.\<close>

definition init_app :: "flask_app \<Rightarrow> flask_app" where
  "init_app a =
     a\<lparr>config := (if config a uri_key = None
                  then (config a)(uri_key \<mapsto> Config_str ''sqlite:///:memory:'') else config a),
       extensions := extensions a @ [''sqlalchemy'']\<rparr>"

definition connect_to_db :: "script_globals \<Rightarrow> script_globals" where
  "connect_to_db g =
     (let a1 = (app_obj g)\<lparr>config := (config (app_obj g))(uri_key \<mapsto> Config_str hackbright_uri)\<rparr>;
          a2 = a1\<lparr>config := (config a1)(track_key \<mapsto> Config_bool False)\<rparr>;
          d = (db_obj g)\<lparr>app_bound := True\<rparr>
      in \<lparr>app_obj = init_app a2, db_obj = d\<rparr>)"

definition database_uri :: "flask_app \<Rightarrow> string" where
  "database_uri a = (case config a uri_key of Some (Config_str u) \<Rightarrow> u | _ \<Rightarrow> ''sqlite:///:memory:'')"

definition db_session :: "script_globals \<Rightarrow> (string \<Rightarrow> tables) \<Rightarrow> session py_result" where
  "db_session g server =
     (if \<not> app_bound (db_obj g) then Inl RuntimeError
      else if ''sqlalchemy'' \<notin> set (extensions (app_obj g)) then Inl AssertionError
      else Inr (open_session (server (database_uri (app_obj g)))))"

text \<open>The \<^verbatim>\<open>__main__\<close> block. The session is resolved once: after
  \<^verbatim>\<open>connect_to_db\<close> every resolution yields the same scoped session.\<close>

definition run_script ::
  "schema \<Rightarrow> fetch_order \<Rightarrow> (string \<Rightarrow> tables) \<Rightarrow> string list \<Rightarrow> outcome \<times> stdout \<times> (string \<Rightarrow> tables)" where
  "run_script sch fo server lines =
     (let g = connect_to_db module_globals in
      case db_session g server of
        Inl e \<Rightarrow> (Crash e, [], server)
      | Inr s \<Rightarrow>
          (case handle_input sch fo lines s of
             (r, out, s') \<Rightarrow> (r, out, server(database_uri (app_obj g) := committed (db_close s')))))"

section \<open>Lemmas\<close>

lemma connect_to_db_config:
  "config (app_obj (connect_to_db g)) k =
     (if k = uri_key then Some (Config_str hackbright_uri)
      else if k = track_key then Some (Config_bool False)
      else config (app_obj g) k)"
  by (simp add: connect_to_db_def init_app_def uri_key_def track_key_def)

lemma connect_to_db_bound:
  "app_bound (db_obj (connect_to_db g))"
  "''sqlalchemy'' \<in> set (extensions (app_obj (connect_to_db g)))"
  by (simp_all add: connect_to_db_def init_app_def)

lemma database_uri_connect: "database_uri (app_obj (connect_to_db g)) = hackbright_uri"
  by (simp add: database_uri_def connect_to_db_config)

section \<open>Properties of the program entry\<close>

text \<open>C28. \<^verbatim>\<open>connect_to_db\<close> is what makes \<^verbatim>\<open>db.session\<close> usable: from the module's
  initial globals the session cannot be resolved (\<open>RuntimeError\<close>), and after
  \<^verbatim>\<open>connect_to_db\<close>, whatever the application's configuration was before, it
  resolves to a fresh session on the \<^verbatim>\<open>hackbright\<close> database.\<close>

theorem connect_enables_session:
  "db_session module_globals server = Inl RuntimeError \<and>
   db_session (connect_to_db g) server = Inr (open_session (server hackbright_uri))"
  by (simp add: db_session_def module_globals_def SQLAlchemy_def connect_to_db_bound database_uri_connect)

end
