(* ===== verification/Sql_Text.thy ===== *)
theory Sql_Text
  imports Database Tokenizer
begin

text \<open>
  The SQL text of \<^verbatim>\<open>src/hackbright.py\<close>: the six \<^verbatim>\<open>QUERY\<close> strings, the
  dictionaries passed with them to \<^verbatim>\<open>db.session.execute\<close>, and what executing a
  statement text does, from its characters to the rows it returns or the write it
  issues. \<^theory_text>\<open>Database\<close> gives the statements as functions on tables
  (\<open>select_student\<close>, \<open>insert_student\<close>, ...); this theory shows that those are
  what the source's texts mean.
  \<^item> \<open>sql_lex\<close> is the lexer for the part of SQL the script uses: identifiers
    and key words (folded to lower case, as PostgreSQL folds unquoted names), the
    punctuation \<^verbatim>\<open>, ( ) =\<close>, and bind parameters \<^verbatim>\<open>:name\<close>, which
    SQLAlchemy's \<^verbatim>\<open>text()\<close> finds and replaces by the values of the dictionary.
    Here the client's scan for bind parameters and the server's lexer are one scanner.
  \<^item> \<open>parse_stmt\<close> reads the two shapes of statement the script sends:
    \<^verbatim>\<open>SELECT cols FROM t [WHERE c = :p AND ...]\<close> and
    \<^verbatim>\<open>INSERT INTO t (cols) VALUES (:p, ...)\<close>.
  \<^item> \<open>sql_prepare\<close> binds the parameters: a parameter the dictionary has no key for
    is \<open>StatementError\<close>; a text that does not lex or parse is
    \<open>ProgrammingError\<close>.
  \<^item> \<open>sql_execute\<close> runs the bound statement on the catalogue of the three tables,
    whose columns are in the order of the spec's data model (section 6): a
    \<^verbatim>\<open>SELECT\<close> returns the matching rows as lists of column values (the
    \<open>row[i]\<close> the script indexes), an \<^verbatim>\<open>INSERT\<close> becomes a \<open>db_write\<close>
    issued through \<open>db_execute\<close>. An unknown table or column is
    \<open>ProgrammingError\<close>; a column an \<^verbatim>\<open>INSERT\<close> leaves out violates its
    \<^verbatim>\<open>NOT NULL\<close> constraint (rows here have no \<^verbatim>\<open>NULL\<close>), which is
    \<open>IntegrityError\<close> at once, as \<^verbatim>\<open>NOT NULL\<close> cannot be deferred.
\<close>

section \<open>The statement texts and their parameters\<close>

text \<open>A triple-quoted literal that opens with a line break: the line break, then the
  source lines joined by line breaks, the last one being the indentation before the
  closing quotes.\<close>

definition triple_quoted :: "string list \<Rightarrow> string" where
  "triple_quoted ls = nl @ str_join nl ls"

definition student_query :: string where
  "student_query = triple_quoted
     [''        SELECT first_name, last_name, github'',
      ''        FROM students'',
      ''        WHERE github = :github'',
      ''        '']"

definition insert_student_query :: string where
  "insert_student_query = triple_quoted
     [''        INSERT INTO students (first_name, last_name, github)'',
      ''        VALUES (:first_name, :last_name, :github)'',
      ''    '']"

definition project_query :: string where
  "project_query = triple_quoted
     [''        SELECT title, description, max_grade'',
      ''        FROM projects'',
      ''        WHERE title = :title'',
      ''    '']"

definition grade_query :: string where
  "grade_query = triple_quoted
     [''        SELECT grade'',
      ''        FROM grades'',
      ''        WHERE student_github = :student_github AND project_title = :project_title'',
      ''    '']"

definition insert_grade_query :: string where
  "insert_grade_query = triple_quoted
     [''    INSERT INTO grades(student_github, project_title, grade)'',
      ''        VALUES(:github, :title, :grade)'',
      ''    '']"

definition insert_project_query :: string where
  "insert_project_query = triple_quoted
     [''    INSERT INTO projects(title, description, max_grade)'',
      ''        VALUES(:title, :description, :max_grade)'',
      ''    '']"

text \<open>A dictionary display \<^verbatim>\<open>{'k': v, ...}\<close> as the list of its entries; a later
  entry for the same key overrides an earlier one (\<open>py_dict\<close>).\<close>

type_synonym bind_params = "(string \<times> string) list"

definition py_dict :: "bind_params \<Rightarrow> string \<Rightarrow> string option" where
  "py_dict params = map_of (rev params)"

definition student_params :: "string \<Rightarrow> bind_params" where
  "student_params gh = [(''github'', gh)]"

definition new_student_params :: "string \<Rightarrow> string \<Rightarrow> string \<Rightarrow> bind_params" where
  "new_student_params fn ln gh = [(''first_name'', fn), (''last_name'', ln), (''github'', gh)]"

definition project_params :: "string \<Rightarrow> bind_params" where
  "project_params ti = [(''title'', ti)]"

definition grade_params :: "string \<Rightarrow> string \<Rightarrow> bind_params" where
  "grade_params gh ti = [(''student_github'', gh), (''project_title'', ti)]"

definition assign_grade_params :: "string \<Rightarrow> string \<Rightarrow> string \<Rightarrow> bind_params" where
  "assign_grade_params gh ti g = [(''github'', gh), (''title'', ti), (''grade'', g)]"

definition add_project_params :: "string \<Rightarrow> string \<Rightarrow> string \<Rightarrow> bind_params" where
  "add_project_params ti d mg = [(''title'', ti), (''description'', d), (''max_grade'', mg)]"

section \<open>Lexing\<close>

datatype sql_tok = Word string | Param string | Comma | Lparen | Rparen | Equals

definition is_sql_space :: "char \<Rightarrow> bool" where
  "is_sql_space c = (let n = (of_char c :: nat) in (9 \<le> n \<and> n \<le> 13) \<or> n = 32)"

definition is_ident_char :: "char \<Rightarrow> bool" where
  "is_ident_char c =
     (let n = (of_char c :: nat)
      in (48 \<le> n \<and> n \<le> 57) \<or> (65 \<le> n \<and> n \<le> 90) \<or> (97 \<le> n \<and> n \<le> 122) \<or> n = 95)"

definition lower_char :: "char \<Rightarrow> char" where
  "lower_char c =
     (case map_of (zip ''ABCDEFGHIJKLMNOPQRSTUVWXYZ'' ''abcdefghijklmnopqrstuvwxyz'') c of
        Some l \<Rightarrow> l
      | None \<Rightarrow> c)"

definition punct :: "char \<Rightarrow> sql_tok option" where
  "punct c =
     (if c = CHR '','' then Some Comma
      else if c = CHR ''('' then Some Lparen
      else if c = CHR '')'' then Some Rparen
      else if c = CHR ''='' then Some Equals
      else None)"

text \<open>The lexer's state between characters: between tokens, or inside a word or a
  parameter name (kept reversed).\<close>

datatype lex_mode = Gap | In_word string | In_param string

fun lex_flush :: "lex_mode \<Rightarrow> sql_tok list option" where
  "lex_flush Gap = Some []"
| "lex_flush (In_word w) = Some [Word (map lower_char (rev w))]"
| "lex_flush (In_param p) = (if p = [] then None else Some [Param (rev p)])"

fun lex_extend :: "lex_mode \<Rightarrow> char \<Rightarrow> lex_mode" where
  "lex_extend Gap c = In_word [c]"
| "lex_extend (In_word w) c = In_word (c # w)"
| "lex_extend (In_param p) c = In_param (c # p)"

fun sql_lex :: "lex_mode \<Rightarrow> string \<Rightarrow> sql_tok list option" where
  "sql_lex m [] = lex_flush m"
| "sql_lex m (c # cs) =
     (if is_ident_char c then sql_lex (lex_extend m c) cs
      else if c = CHR '':'' \<and> m = Gap then sql_lex (In_param []) cs
      else case lex_flush m of
             None \<Rightarrow> None
           | Some ts \<Rightarrow>
               if is_sql_space c then map_option (\<lambda>r. ts @ r) (sql_lex Gap cs)
               else case punct c of
                      None \<Rightarrow> None
                    | Some t \<Rightarrow> map_option (\<lambda>r. ts @ t # r) (sql_lex Gap cs))"

section \<open>Parsing\<close>

text \<open>A statement with its parameters: \<open>Select cols t conds\<close> with the
  conditions \<open>c = :p\<close> of its \<^verbatim>\<open>WHERE\<close> clause, \<open>Insert t cols ps\<close>. Before
  binding the parameters are names, after binding their values.\<close>

datatype sql_stmt =
    Select "string list" string "(string \<times> string) list"
  | Insert string "string list" "string list"

fun parse_names :: "sql_tok list \<Rightarrow> (string list \<times> sql_tok list) option" where
  "parse_names (Word c # Comma # ts) = map_option (\<lambda>(cs, r). (c # cs, r)) (parse_names ts)"
| "parse_names (Word c # ts) = Some ([c], ts)"
| "parse_names ts = None"

fun parse_params :: "sql_tok list \<Rightarrow> (string list \<times> sql_tok list) option" where
  "parse_params (Param p # Comma # ts) = map_option (\<lambda>(ps, r). (p # ps, r)) (parse_params ts)"
| "parse_params (Param p # ts) = Some ([p], ts)"
| "parse_params ts = None"

fun parse_where :: "sql_tok list \<Rightarrow> (string \<times> string) list option" where
  "parse_where (Word c # Equals # Param p # []) = Some [(c, p)]"
| "parse_where (Word c # Equals # Param p # Word a # ts) =
     (if a = ''and'' then map_option (Cons (c, p)) (parse_where ts) else None)"
| "parse_where ts = None"

fun parse_from :: "string list \<Rightarrow> sql_tok list \<Rightarrow> sql_stmt option" where
  "parse_from cols [Word f, Word tbl] = (if f = ''from'' then Some (Select cols tbl []) else None)"
| "parse_from cols (Word f # Word tbl # Word w # conds) =
     (if f = ''from'' \<and> w = ''where'' then map_option (Select cols tbl) (parse_where conds) else None)"
| "parse_from cols ts = None"

fun parse_values :: "string \<Rightarrow> string list \<Rightarrow> sql_tok list \<Rightarrow> sql_stmt option" where
  "parse_values tbl cols (Rparen # Word v # Lparen # ts) =
     (if v = ''values''
      then (case parse_params ts of
              Some (ps, r) \<Rightarrow> if r = [Rparen] then Some (Insert tbl cols ps) else None
            | None \<Rightarrow> None)
      else None)"
| "parse_values tbl cols ts = None"

fun parse_stmt :: "sql_tok list \<Rightarrow> sql_stmt option" where
  "parse_stmt (Word k # ts) =
     (if k = ''select''
      then (case parse_names ts of Some (cols, r) \<Rightarrow> parse_from cols r | None \<Rightarrow> None)
      else if k = ''insert''
      then (case ts of
              Word i # Word tbl # Lparen # ts' \<Rightarrow>
                if i = ''into''
                then (case parse_names ts' of Some (cols, r) \<Rightarrow> parse_values tbl cols r | None \<Rightarrow> None)
                else None
            | _ \<Rightarrow> None)
      else None)"
| "parse_stmt ts = None"

section \<open>Binding the parameters\<close>

fun tok_params :: "sql_tok list \<Rightarrow> string list" where
  "tok_params [] = []"
| "tok_params (Param p # ts) = p # tok_params ts"
| "tok_params (t # ts) = tok_params ts"

primrec subst_stmt :: "(string \<Rightarrow> string) \<Rightarrow> sql_stmt \<Rightarrow> sql_stmt" where
  "subst_stmt v (Select cols tbl conds) = Select cols tbl (map (\<lambda>(c, p). (c, v p)) conds)"
| "subst_stmt v (Insert tbl cols ps) = Insert tbl cols (map v ps)"

definition sql_prepare :: "string \<Rightarrow> bind_params \<Rightarrow> sql_stmt py_result" where
  "sql_prepare q params =
     (case sql_lex Gap q of
        None \<Rightarrow> Inl ProgrammingError
      | Some ts \<Rightarrow>
          if list_all (\<lambda>p. py_dict params p \<noteq> None) (tok_params ts)
          then (case parse_stmt ts of
                  None \<Rightarrow> Inl ProgrammingError
                | Some st \<Rightarrow> Inr (subst_stmt (\<lambda>p. the (py_dict params p)) st))
          else Inl StatementError)"

section \<open>Running a statement\<close>

text \<open>The catalogue: the columns of each table, and a row as the list of its
  column values in that order.\<close>

definition table_cols :: "string \<Rightarrow> string list option" where
  "table_cols n =
     (if n = ''students'' then Some [''first_name'', ''last_name'', ''github'']
      else if n = ''projects'' then Some [''title'', ''description'', ''max_grade'']
      else if n = ''grades'' then Some [''student_github'', ''project_title'', ''grade'']
      else None)"

definition student_vals :: "student_row \<Rightarrow> string list" where
  "student_vals r = [first_name r, last_name r, github r]"

definition project_vals :: "project_row \<Rightarrow> string list" where
  "project_vals r = [title r, description r, max_grade r]"

definition grade_vals :: "grade_row \<Rightarrow> string list" where
  "grade_vals r = [student_github r, project_title r, grade r]"

definition table_rows :: "tables \<Rightarrow> string \<Rightarrow> string list list" where
  "table_rows t n =
     (if n = ''students'' then map student_vals (students t)
      else if n = ''projects'' then map project_vals (projects t)
      else map grade_vals (grades t))"

definition cell :: "string list \<Rightarrow> string list \<Rightarrow> string \<Rightarrow> string option" where
  "cell cols r c = map_of (zip cols r) c"

definition run_select ::
  "string list \<Rightarrow> string \<Rightarrow> (string \<times> string) list \<Rightarrow> tables \<Rightarrow> string list list py_result" where
  "run_select cols tbl conds t =
     (case table_cols tbl of
        None \<Rightarrow> Inl ProgrammingError
      | Some tcols \<Rightarrow>
          if list_all (\<lambda>c. c \<in> set tcols) (cols @ map fst conds)
          then Inr (map (\<lambda>r. map (\<lambda>c. the (cell tcols r c)) cols)
                      (filter (\<lambda>r. list_all (\<lambda>(c, v). cell tcols r c = Some v) conds)
                         (table_rows t tbl)))
          else Inl ProgrammingError)"

definition row_write :: "string \<Rightarrow> (string \<Rightarrow> string) \<Rightarrow> db_write" where
  "row_write tbl v =
     (if tbl = ''students''
      then Insert_student \<lparr>first_name = v ''first_name'', last_name = v ''last_name'', github = v ''github''\<rparr>
      else if tbl = ''projects''
      then Insert_project \<lparr>title = v ''title'', description = v ''description'', max_grade = v ''max_grade''\<rparr>
      else Insert_grade \<lparr>student_github = v ''student_github'', project_title = v ''project_title'',
                         grade = v ''grade''\<rparr>)"

definition run_insert :: "string \<Rightarrow> string list \<Rightarrow> string list \<Rightarrow> db_write py_result" where
  "run_insert tbl cols vals =
     (case table_cols tbl of
        None \<Rightarrow> Inl ProgrammingError
      | Some tcols \<Rightarrow>
          if length cols = length vals \<and> distinct cols \<and> list_all (\<lambda>c. c \<in> set tcols) cols
          then (if list_all (\<lambda>c. c \<in> set cols) tcols
                then Inr (row_write tbl (\<lambda>c. the (map_of (zip cols vals) c)))
                else Inl (IntegrityError tbl))
          else Inl ProgrammingError)"

text \<open>What \<^verbatim>\<open>db.session.execute(QUERY, params)\<close> returns: a cursor over the rows
  of a query, or one without rows for an \<^verbatim>\<open>INSERT\<close>, with the session after it.\<close>

datatype cursor = Rows "string list list" | No_rows

definition sql_execute ::
  "schema \<Rightarrow> string \<Rightarrow> bind_params \<Rightarrow> session \<Rightarrow> (cursor \<times> session) py_result" where
  "sql_execute sch q params s =
     py_bind (sql_prepare q params) (\<lambda>st. case st of
        Select cols tbl conds \<Rightarrow>
          py_bind (run_select cols tbl conds (session_view s)) (\<lambda>rows. Inr (Rows rows, s))
      | Insert tbl cols vals \<Rightarrow>
          py_bind (run_insert tbl cols vals) (\<lambda>w. py_bind (db_execute sch w s) (\<lambda>s'. Inr (No_rows, s'))))"

text \<open>\<^verbatim>\<open>cursor.fetchone()\<close>, with the row the store picks chosen by \<open>f\<close>, and
  \<^verbatim>\<open>row[i]\<close> on what it returns: \<open>TypeError\<close> on \<^verbatim>\<open>None\<close>, Python
  indexing on a row.\<close>

type_synonym row_fetch = "string list list \<Rightarrow> string list option"

definition cursor_fetchone :: "row_fetch \<Rightarrow> cursor \<Rightarrow> string list option py_result" where
  "cursor_fetchone f c = (case c of Rows rows \<Rightarrow> Inr (f rows) | No_rows \<Rightarrow> Inl ResourceClosedError)"

definition row_item :: "string list option \<Rightarrow> int \<Rightarrow> string py_result" where
  "row_item row i = (case row of None \<Rightarrow> Inl TypeError | Some r \<Rightarrow> py_nth r i)"

text \<open>A sample session for the concrete examples: one student, one project, one
  grade, nothing pending; and a schema with unique keys checked at execute.\<close>

definition sample_session :: session where
  "sample_session =
     \<lparr>committed =
        \<lparr>students = [\<lparr>first_name = ''Ada'', last_name = ''Lovelace'', github = ''ada''\<rparr>],
         projects = [\<lparr>title = ''Ants'', description = ''kill all the ants'', max_grade = ''100''\<rparr>],
         grades = [\<lparr>student_github = ''ada'', project_title = ''Ants'', grade = ''95''\<rparr>]\<rparr>,
      pending = []\<rparr>"

definition sample_schema :: schema where
  "sample_schema =
     \<lparr>github_unique = True, title_unique = True, grade_refs_checked = False, constraints_deferred = False\<rparr>"

section \<open>The script's statements, token by token\<close>

lemmas lex_defs = triple_quoted_def nl_def is_ident_char_def is_sql_space_def lower_char_def punct_def
lemma lex_student_query:
  "sql_lex Gap student_query = Some [Word ''select'', Word ''first_name'', Comma, Word ''last_name'', Comma,
     Word ''github'', Word ''from'', Word ''students'', Word ''where'', Word ''github'', Equals, Param ''github'']"
  by (simp add: student_query_def lex_defs)
lemma lex_insert_student_query:
  "sql_lex Gap insert_student_query = Some [Word ''insert'', Word ''into'', Word ''students'', Lparen,
     Word ''first_name'', Comma, Word ''last_name'', Comma, Word ''github'', Rparen, Word ''values'', Lparen,
     Param ''first_name'', Comma, Param ''last_name'', Comma, Param ''github'', Rparen]"
  by (simp add: insert_student_query_def lex_defs)
lemma lex_project_query:
  "sql_lex Gap project_query = Some [Word ''select'', Word ''title'', Comma, Word ''description'', Comma,
     Word ''max_grade'', Word ''from'', Word ''projects'', Word ''where'', Word ''title'', Equals, Param ''title'']"
  by (simp add: project_query_def lex_defs)
lemma lex_grade_query:
  "sql_lex Gap grade_query = Some [Word ''select'', Word ''grade'', Word ''from'', Word ''grades'',
     Word ''where'', Word ''student_github'', Equals, Param ''student_github'', Word ''and'',
     Word ''project_title'', Equals, Param ''project_title'']"
  by (simp add: grade_query_def lex_defs)
lemma lex_insert_grade_query:
  "sql_lex Gap insert_grade_query = Some [Word ''insert'', Word ''into'', Word ''grades'', Lparen,
     Word ''student_github'', Comma, Word ''project_title'', Comma, Word ''grade'', Rparen, Word ''values'', Lparen,
     Param ''github'', Comma, Param ''title'', Comma, Param ''grade'', Rparen]"
  by (simp add: insert_grade_query_def lex_defs)
lemma lex_insert_project_query:
  "sql_lex Gap insert_project_query = Some [Word ''insert'', Word ''into'', Word ''projects'', Lparen,
     Word ''title'', Comma, Word ''description'', Comma, Word ''max_grade'', Rparen, Word ''values'', Lparen,
     Param ''title'', Comma, Param ''description'', Comma, Param ''max_grade'', Rparen]"
  by (simp add: insert_project_query_def lex_defs)

lemmas prepare_defs = sql_prepare_def py_dict_def
lemma prepare_student_query:
  "sql_prepare student_query (student_params gh) =
     Inr (Select [''first_name'', ''last_name'', ''github''] ''students'' [(''github'', gh)])"
  by (simp add: prepare_defs lex_student_query student_params_def)
lemma prepare_project_query:
  "sql_prepare project_query (project_params ti) =
     Inr (Select [''title'', ''description'', ''max_grade''] ''projects'' [(''title'', ti)])"
  by (simp add: prepare_defs lex_project_query project_params_def)
lemma prepare_grade_query:
  "sql_prepare grade_query (grade_params gh ti) =
     Inr (Select [''grade''] ''grades'' [(''student_github'', gh), (''project_title'', ti)])"
  by (simp add: prepare_defs lex_grade_query grade_params_def)
lemma prepare_insert_student_query:
  "sql_prepare insert_student_query (new_student_params fn ln gh) =
     Inr (Insert ''students'' [''first_name'', ''last_name'', ''github''] [fn, ln, gh])"
  by (simp add: prepare_defs lex_insert_student_query new_student_params_def)
lemma prepare_insert_grade_query:
  "sql_prepare insert_grade_query (assign_grade_params gh ti g) =
     Inr (Insert ''grades'' [''student_github'', ''project_title'', ''grade''] [gh, ti, g])"
  by (simp add: prepare_defs lex_insert_grade_query assign_grade_params_def)
lemma prepare_insert_project_query:
  "sql_prepare insert_project_query (add_project_params ti d mg) =
     Inr (Insert ''projects'' [''title'', ''description'', ''max_grade''] [ti, d, mg])"
  by (simp add: prepare_defs lex_insert_project_query add_project_params_def)

lemmas run_defs = run_select_def run_insert_def table_cols_def table_rows_def cell_def row_write_def

lemma run_select_students:
  "run_select [''first_name'', ''last_name'', ''github''] ''students'' [(''github'', gh)] t =
     Inr (map student_vals (select_student t gh))"
  by (simp add: run_defs select_student_def student_vals_def filter_map comp_def)
lemma run_select_projects:
  "run_select [''title'', ''description'', ''max_grade''] ''projects'' [(''title'', ti)] t =
     Inr (map project_vals (select_project t ti))"
  by (simp add: run_defs select_project_def project_vals_def filter_map comp_def)
lemma run_select_grades:
  "run_select [''grade''] ''grades'' [(''student_github'', gh), (''project_title'', ti)] t =
     Inr (map (\<lambda>g. [g]) (select_grade t gh ti))"
  by (simp add: run_defs select_grade_def grade_vals_def filter_map comp_def)

lemma run_insert_students:
  "run_insert ''students'' [''first_name'', ''last_name'', ''github''] [fn, ln, gh] = Inr (insert_student fn ln gh)"
  by (simp add: run_defs insert_student_def)
lemma run_insert_grades:
  "run_insert ''grades'' [''student_github'', ''project_title'', ''grade''] [gh, ti, g] = Inr (insert_grade gh ti g)"
  by (simp add: run_defs insert_grade_def)
lemma run_insert_projects:
  "run_insert ''projects'' [''title'', ''description'', ''max_grade''] [ti, d, mg] = Inr (insert_project ti d mg)"
  by (simp add: run_defs insert_project_def)

section \<open>Executing the script's statements\<close>

lemma execute_insert:
  "sql_prepare q params = Inr (Insert tbl cols vals) \<Longrightarrow> run_insert tbl cols vals = Inr w \<Longrightarrow>
   sql_execute sch q params s = map_sum id (Pair No_rows) (db_execute sch w s)"
  by (cases "db_execute sch w s") (simp_all add: sql_execute_def)

lemma execute_select:
  "sql_prepare q params = Inr (Select cols tbl conds) \<Longrightarrow> run_select cols tbl conds (session_view s) = Inr rows \<Longrightarrow>
   sql_execute sch q params s = Inr (Rows rows, s)"
  by (simp add: sql_execute_def)

lemma sql_execute_student_query:
  "sql_execute sch student_query (student_params gh) s =
     Inr (Rows (map student_vals (select_student (session_view s) gh)), s)"
  by (rule execute_select [OF prepare_student_query run_select_students])

lemma sql_execute_project_query:
  "sql_execute sch project_query (project_params ti) s =
     Inr (Rows (map project_vals (select_project (session_view s) ti)), s)"
  by (rule execute_select [OF prepare_project_query run_select_projects])

lemma sql_execute_grade_query:
  "sql_execute sch grade_query (grade_params gh ti) s =
     Inr (Rows (map (\<lambda>g. [g]) (select_grade (session_view s) gh ti)), s)"
  by (rule execute_select [OF prepare_grade_query run_select_grades])

lemma sql_execute_insert_student_query:
  "sql_execute sch insert_student_query (new_student_params fn ln gh) s =
     map_sum id (Pair No_rows) (db_execute sch (insert_student fn ln gh) s)"
  by (rule execute_insert [OF prepare_insert_student_query run_insert_students])

lemma sql_execute_insert_grade_query:
  "sql_execute sch insert_grade_query (assign_grade_params gh ti g) s =
     map_sum id (Pair No_rows) (db_execute sch (insert_grade gh ti g) s)"
  by (rule execute_insert [OF prepare_insert_grade_query run_insert_grades])

lemma sql_execute_insert_project_query:
  "sql_execute sch insert_project_query (add_project_params ti d mg) s =
     map_sum id (Pair No_rows) (db_execute sch (insert_project ti d mg) s)"
  by (rule execute_insert [OF prepare_insert_project_query run_insert_projects])

lemmas sql_execute_script =
  sql_execute_student_query sql_execute_project_query sql_execute_grade_query
  sql_execute_insert_student_query sql_execute_insert_grade_query sql_execute_insert_project_query

section \<open>Properties of the statement texts\<close>

text \<open>C32. The three \<^verbatim>\<open>SELECT\<close> texts of the script, executed with the
  dictionaries the script passes, return exactly the rows of the model's queries, each
  row as the list of its columns in the order the script indexes them
  (\<^verbatim>\<open>row[0]\<close> is the first name, ...), and leave the session unchanged: for
  every session and every argument string.\<close>

theorem select_texts_refine:
  "sql_execute sch student_query (student_params gh) s =
     Inr (Rows (map student_vals (select_student (session_view s) gh)), s) \<and>
   sql_execute sch project_query (project_params ti) s =
     Inr (Rows (map project_vals (select_project (session_view s) ti)), s) \<and>
   sql_execute sch grade_query (grade_params gh ti) s =
     Inr (Rows (map (\<lambda>g. [g]) (select_grade (session_view s) gh ti)), s)"
  by (simp add: sql_execute_student_query sql_execute_project_query sql_execute_grade_query)

theorem select_texts_refine_witness:
  "sql_execute sample_schema student_query (student_params ''ada'') sample_session =
     Inr (Rows [[''Ada'', ''Lovelace'', ''ada'']], sample_session) \<and>
   sql_execute sample_schema project_query (project_params ''Ants'') sample_session =
     Inr (Rows [[''Ants'', ''kill all the ants'', ''100'']], sample_session) \<and>
   sql_execute sample_schema grade_query (grade_params ''ada'' ''Ants'') sample_session =
     Inr (Rows [[''95'']], sample_session)"
  using select_texts_refine [where sch = sample_schema and gh = "''ada''" and s = sample_session
      and ti = "''Ants''"]
  by (simp add: sample_session_def session_view_def select_student_def select_project_def
      select_grade_def student_vals_def project_vals_def)

text \<open>C33. The three \<^verbatim>\<open>INSERT\<close> texts of the script, executed with its
  dictionaries, issue exactly the model's writes, with the values in the columns the
  script names: whatever characters the arguments contain, they are bound as values
  and never become part of the statement. The outcome is that of \<open>db_execute\<close>,
  constraint errors included.\<close>

theorem insert_texts_refine:
  "sql_execute sch insert_student_query (new_student_params fn ln gh) s =
     map_sum id (Pair No_rows) (db_execute sch (insert_student fn ln gh) s) \<and>
   sql_execute sch insert_grade_query (assign_grade_params gh ti g) s =
     map_sum id (Pair No_rows) (db_execute sch (insert_grade gh ti g) s) \<and>
   sql_execute sch insert_project_query (add_project_params ti d mg) s =
     map_sum id (Pair No_rows) (db_execute sch (insert_project ti d mg) s)"
  by (simp add: sql_execute_insert_student_query sql_execute_insert_grade_query
      sql_execute_insert_project_query)

theorem insert_texts_refine_witness:
  "sql_execute sample_schema insert_student_query (new_student_params ''Grace'' ''Hopper'' ''grace'')
      sample_session =
     Inr (No_rows, sample_session\<lparr>pending := [insert_student ''Grace'' ''Hopper'' ''grace'']\<rparr>) \<and>
   sql_execute sample_schema insert_student_query (new_student_params ''Ada'' ''Byron'' ''ada'')
      sample_session = Inl (IntegrityError ''students'')"
proof -
  have "sql_execute sample_schema insert_student_query (new_student_params fn ln gh) sample_session =
     map_sum id (Pair No_rows) (db_execute sample_schema (insert_student fn ln gh) sample_session)"
    for fn ln gh
    using insert_texts_refine [where sch = sample_schema and s = sample_session and fn = fn
        and ln = ln and gh = gh] by blast
  then show ?thesis
    by (simp add: db_execute_def sample_schema_def sample_session_def session_view_def insert_student_def)
qed

end
