(* ===== verification/Sql_Operations.thy ===== *)
theory Sql_Operations
  imports Sql_Text Operations
begin

text \<open>
  The six functions of \<^verbatim>\<open>src/hackbright.py\<close> written statement by statement as
  the source has them, over the statement texts of \<^theory_text>\<open>Sql_Text\<close>:
  \<^verbatim>\<open>db.session.execute(QUERY, {...})\<close> is \<open>sql_execute\<close> on the \<^verbatim>\<open>QUERY\<close>
  text and the dictionary, \<^verbatim>\<open>fetchone()\<close> is \<open>cursor_fetchone\<close> and
  \<^verbatim>\<open>row[i]\<close> is \<open>row_item\<close>. The theorem of this theory is that these
  transcriptions are the operations of \<^theory_text>\<open>Operations\<close>, which read rows
  as records through the fetch order: whenever \<^verbatim>\<open>fetchone()\<close> on the rows as
  column lists picks the row the fetch order picks (\<open>fetch_agrees\<close>).
\<close>

definition get_student_by_github_sql ::
  "schema \<Rightarrow> row_fetch \<Rightarrow> string \<Rightarrow> session \<Rightarrow> cmd_result" where
  "get_student_by_github_sql sch f gh s =
     py_seq (sql_execute sch student_query (student_params gh) s) (\<lambda>(db_cursor, s1).
     py_seq (cursor_fetchone f db_cursor) (\<lambda>row.
     py_seq (row_item row 0) (\<lambda>r0. py_seq (row_item row 1) (\<lambda>r1. py_seq (row_item row 2) (\<lambda>r2.
       Inr ([py_print (''Student: '' @ r0 @ '' '' @ r1 @ nl @ ''GitHub account: '' @ r2)], s1))))))"

definition make_new_student_sql ::
  "schema \<Rightarrow> string \<Rightarrow> string \<Rightarrow> string \<Rightarrow> session \<Rightarrow> cmd_result" where
  "make_new_student_sql sch fn ln gh s =
     py_seq (sql_execute sch insert_student_query (new_student_params fn ln gh) s) (\<lambda>(_, s1).
       py_out [py_print ''Data has been inserted succesfully!'']
         (py_seq (db_commit sch s1) (\<lambda>s2. Inr ([], s2))))"

definition get_project_by_title_sql ::
  "schema \<Rightarrow> row_fetch \<Rightarrow> string \<Rightarrow> session \<Rightarrow> string list option py_result" where
  "get_project_by_title_sql sch f ti s =
     py_bind (sql_execute sch project_query (project_params ti) s) (\<lambda>(cursor, s1).
       cursor_fetchone f cursor)"

definition get_grade_by_github_title_sql ::
  "schema \<Rightarrow> row_fetch \<Rightarrow> string \<Rightarrow> string \<Rightarrow> session \<Rightarrow> cmd_result" where
  "get_grade_by_github_title_sql sch f gh ti s =
     py_seq (sql_execute sch grade_query (grade_params gh ti) s) (\<lambda>(cursor, s1).
     py_seq (cursor_fetchone f cursor) (\<lambda>row.
       if row = None then Inr ([py_print no_grade_msg], s1)
       else py_seq (row_item row 0) (\<lambda>g. Inr ([py_print (''Grades is '' @ g @ '' for '' @ ti)], s1))))"

definition assign_grade_sql ::
  "schema \<Rightarrow> string \<Rightarrow> string \<Rightarrow> string \<Rightarrow> session \<Rightarrow> cmd_result" where
  "assign_grade_sql sch gh ti g s =
     py_seq (sql_execute sch insert_grade_query (assign_grade_params gh ti g) s) (\<lambda>(_, s1).
     py_seq (db_commit sch s1) (\<lambda>s2. Inr ([py_print (assign_grade_msg gh ti g)], s2)))"

definition add_project_sql ::
  "schema \<Rightarrow> row_fetch \<Rightarrow> string \<Rightarrow> string \<Rightarrow> string \<Rightarrow> session \<Rightarrow> cmd_result" where
  "add_project_sql sch f ti d mg s =
     py_seq (sql_execute sch insert_project_query (add_project_params ti d mg) s) (\<lambda>(_, s1).
     py_seq (db_commit sch s1) (\<lambda>s2.
     py_seq (get_project_by_title_sql sch f ti s2) (\<lambda>row.
       if row = None then Inr ([py_print project_failed_msg], s2)
       else Inr ([py_print project_ok_msg], s2))))"

text \<open>\<^verbatim>\<open>fetchone()\<close> on column lists picks the row the fetch order picks on the
  records, for each of the three queries.\<close>

definition fetch_agrees :: "row_fetch \<Rightarrow> fetch_order \<Rightarrow> bool" where
  "fetch_agrees f fo =
     ((\<forall>rows. f (map student_vals rows) = map_option student_vals (fetch_student fo rows)) \<and>
      (\<forall>rows. f (map project_vals rows) = map_option project_vals (fetch_project fo rows)) \<and>
      (\<forall>gs. f (map (\<lambda>g. [g]) gs) = map_option (\<lambda>g. [g]) (fetch_grade fo gs)))"

section \<open>Lemmas\<close>

lemma py_seq_map_sum:
  "py_seq (map_sum id (Pair c) r) (\<lambda>(_, s1). k s1) = py_seq r k"
  by (cases r) simp_all

lemma fetch_first_map: "fetch_first (map g xs) = map_option g (fetch_first xs)"
  by (cases xs) (simp_all add: fetch_first_def)

lemma fetch_agrees_heap_order: "fetch_agrees fetch_first heap_order"
  by (simp add: fetch_agrees_def heap_order_def fetch_first_map)

lemma get_student_by_github_sql_eq:
  assumes "fetch_agrees f fo"
  shows "get_student_by_github_sql sch f gh s = get_student_by_github fo gh s"
  using assms
  by (cases "fetch_student fo (select_student (session_view s) gh)")
     (simp_all add: get_student_by_github_sql_def get_student_by_github_def fetch_agrees_def
        sql_execute_student_query cursor_fetchone_def row_item_def student_vals_def py_simps)

lemma get_project_by_title_sql_eq:
  assumes "fetch_agrees f fo"
  shows "get_project_by_title_sql sch f ti s = Inr (map_option project_vals (get_project_by_title fo ti s))"
  using assms
  by (simp add: get_project_by_title_sql_def get_project_by_title_def fetch_agrees_def
      sql_execute_project_query cursor_fetchone_def)

lemma get_grade_by_github_title_sql_eq:
  assumes "fetch_agrees f fo"
  shows "get_grade_by_github_title_sql sch f gh ti s = get_grade_by_github_title fo gh ti s"
  using assms
  by (cases "fetch_grade fo (select_grade (session_view s) gh ti)")
     (simp_all add: get_grade_by_github_title_sql_def get_grade_by_github_title_def fetch_agrees_def
        sql_execute_grade_query cursor_fetchone_def row_item_def py_simps)

lemma make_new_student_sql_eq:
  "make_new_student_sql sch fn ln gh s = make_new_student sch fn ln gh s"
  by (simp add: make_new_student_sql_def make_new_student_def sql_execute_insert_student_query
      py_seq_map_sum)

lemma assign_grade_sql_eq: "assign_grade_sql sch gh ti g s = assign_grade sch gh ti g s"
  by (simp add: assign_grade_sql_def assign_grade_def sql_execute_insert_grade_query py_seq_map_sum)

lemma add_project_sql_eq:
  assumes "fetch_agrees f fo"
  shows "add_project_sql sch f ti d mg s = add_project sch fo ti d mg s"
proof -
  have "\<And>s2. get_project_by_title_sql sch f ti s2 = Inr (map_option project_vals (get_project_by_title fo ti s2))"
    using get_project_by_title_sql_eq [OF assms] .
  then show ?thesis
    by (simp add: add_project_sql_def add_project_def sql_execute_insert_project_query py_seq_map_sum)
qed

section \<open>The functions as written are the model's operations\<close>

text \<open>C34. Composition of the statement layer with the operations: the six functions
  of the script, written as the source writes them (execute the \<^verbatim>\<open>QUERY\<close> text
  with its dictionary, \<^verbatim>\<open>fetchone()\<close>, read the row by position, commit, print),
  behave exactly as the operations of the model, on every session and every argument,
  errors and output included, whenever \<^verbatim>\<open>fetchone()\<close> picks the row the fetch order
  picks. \<open>get_project_by_title\<close> returns the row as its column list.\<close>

theorem functions_text_refine:
  assumes "fetch_agrees f fo"
  shows "get_student_by_github_sql sch f gh s = get_student_by_github fo gh s \<and>
         make_new_student_sql sch fn ln gh s = make_new_student sch fn ln gh s \<and>
         get_project_by_title_sql sch f ti s = Inr (map_option project_vals (get_project_by_title fo ti s)) \<and>
         get_grade_by_github_title_sql sch f gh ti s = get_grade_by_github_title fo gh ti s \<and>
         assign_grade_sql sch gh ti g s = assign_grade sch gh ti g s \<and>
         add_project_sql sch f ti d mg s = add_project sch fo ti d mg s"
  by (simp add: get_student_by_github_sql_eq [OF assms] make_new_student_sql_eq
      get_project_by_title_sql_eq [OF assms] get_grade_by_github_title_sql_eq [OF assms]
      assign_grade_sql_eq add_project_sql_eq [OF assms])

theorem functions_text_refine_witness:
  "fetch_agrees fetch_first heap_order \<and>
   get_student_by_github_sql sample_schema fetch_first ''ada'' sample_session =
     Inr ([py_print (''Student: Ada Lovelace'' @ nl @ ''GitHub account: ada'')], sample_session) \<and>
   get_grade_by_github_title_sql sample_schema fetch_first ''ada'' ''Ants'' sample_session =
     Inr ([py_print ''Grades is 95 for Ants''], sample_session)"
proof -
  note h = functions_text_refine [OF fetch_agrees_heap_order, where sch = sample_schema
      and gh = "''ada''" and s = sample_session and ti = "''Ants''"]
  have "get_student_by_github heap_order ''ada'' sample_session =
      Inr ([py_print (''Student: Ada Lovelace'' @ nl @ ''GitHub account: ada'')], sample_session)"
    by (simp add: get_student_by_github_def heap_order_def fetch_first_def sample_session_def
        session_view_def select_student_def)
  moreover have "get_grade_by_github_title heap_order ''ada'' ''Ants'' sample_session =
      Inr ([py_print ''Grades is 95 for Ants''], sample_session)"
    by (simp add: get_grade_by_github_title_def heap_order_def fetch_first_def sample_session_def
        session_view_def select_grade_def)
  ultimately show ?thesis
    using h fetch_agrees_heap_order by simp
qed

end
