(* ===== verification/Spec2Isabelle.thy ===== *)
theory Spec2Isabelle
  imports Spec_Machine Program_Entry Sql_Operations
begin

text \<open>
  \<^bold>\<open>Hackbright project tracker\<close> (\<^verbatim>\<open>src/hackbright.py\<close>): a command-line front end
  to a PostgreSQL database of students, projects and grades. The program has two parts:
  the command loop \<^verbatim>\<open>handle_input\<close>, which prompts, splits the line on white space
  and dispatches on the first token, and six data-access functions, each issuing one
  parameterised SQL statement through the module-global session \<^verbatim>\<open>db.session\<close>.

  Theories of the development, in import order:
  \<^item> \<^theory_text>\<open>Prelude\<close>: the exceptions a run can end with (\<open>py_error\<close>), standard
    output as the list of strings written (\<open>stdout\<close>, \<open>py_print\<close>), sequencing of
    statements that print and may raise, keeping what was printed before an exception
    (\<open>py_run\<close>, \<open>py_seq\<close>, \<open>py_out\<close>), shared list and map lemmas.
  \<^item> \<^theory_text>\<open>Py_Runtime\<close>: Python indexing, slicing and tuple unpacking as total
    functions with \<open>IndexError\<close>/\<open>ValueError\<close> results.
  \<^item> \<^theory_text>\<open>Tokenizer\<close>: \<^verbatim>\<open>str.split()\<close> (\<open>str_split\<close>, a \<^theory_text>\<open>function\<close> with a
    measure termination proof) and \<^verbatim>\<open>" ".join\<close> (\<open>str_join\<close>); tokens are
    non-empty and space-free, join then split is the identity on such tokens, and
    the loop agrees with a reference one-pass scan (\<open>split_ref\<close>).
  \<^item> \<^theory_text>\<open>Database\<close>: the three tables as records of row lists, the session
    (committed tables plus pending writes, \<open>db_execute\<close>, \<open>db_commit\<close>,
    \<open>db_close\<close>), the statements of the source as functions on tables
    (\<open>select_student\<close>, \<open>insert_student\<close>, ...), the schema constraints, whether
    they are checked at \<^verbatim>\<open>execute\<close> or deferred to \<^verbatim>\<open>commit\<close>, and the store's
    row order as parameters, the key invariant \<open>keys_ok\<close>, and the abstraction
    \<open>abs_tables\<close> to the spec's data model (maps for students and projects, a
    multiset for grades) with the refinement lemma \<open>insert_commit_refines\<close>.
  \<^item> \<^theory_text>\<open>Operations\<close>: \<open>get_student_by_github\<close>, \<open>make_new_student\<close>,
    \<open>get_project_by_title\<close>, \<open>get_grade_by_github_title\<close>, \<open>assign_grade\<close>,
    \<open>add_project\<close>, each over the session, with their round-trip and error
    properties.
  \<^item> \<^theory_text>\<open>Sql_Text\<close>: the six \<^verbatim>\<open>QUERY\<close> strings character for character
    and the dictionaries passed with them, and \<^verbatim>\<open>db.session.execute\<close> on a
    statement text (\<open>sql_execute\<close>): a lexer for the SQL the script uses
    (\<open>sql_lex\<close>, structural recursion on the characters), a parser for its
    \<^verbatim>\<open>SELECT\<close> and \<^verbatim>\<open>INSERT\<close> shapes, binding of \<^verbatim>\<open>:name\<close> parameters by
    name as \<^verbatim>\<open>text()\<close> does (\<open>StatementError\<close> for a missing key), and an
    interpreter over the catalogue of the three tables (\<open>ProgrammingError\<close> for
    an unknown table or column); also \<^verbatim>\<open>fetchone()\<close> and \<^verbatim>\<open>row[i]\<close>. The
    lemmas show each text with its dictionary computes the statement function of
    \<^theory_text>\<open>Database\<close>.
  \<^item> \<^theory_text>\<open>Sql_Operations\<close>: the six functions transcribed statement by statement
    over the texts (\<open>*_sql\<close>), and the theorem that they are the operations of
    \<^theory_text>\<open>Operations\<close> whenever \<^verbatim>\<open>fetchone()\<close> on column lists picks the row
    the fetch order picks (\<open>fetch_agrees\<close>).
  \<^item> \<^theory_text>\<open>Command_Loop\<close>: the if/elif dispatch of one line (\<open>handle_command\<close>),
    the loop \<open>handle_input\<close> over the lines of standard input (ending in \<open>Quit\<close>
    or in an uncaught exception, \<open>Crash\<close>), \<open>main\<close> (the loop on a freshly opened
    session, \<open>open_session\<close>, then \<^verbatim>\<open>db.session.close()\<close>), and the
    step relation \<open>reachable\<close> on sessions with its invariant \<open>session_ok\<close>
    (key uniqueness, nothing pending between commands) proved by rule induction.
    \<open>cmd_write\<close> is the spec's table of commands and the rows they insert;
    \<open>handle_command_refines\<close> shows every command implements it on the abstract
    data model.
  \<^item> \<^theory_text>\<open>Spec_Machine\<close>: the spec's contract for a whole run as an abstract
    machine over the abstract data model (\<open>abs_cmd\<close> for one command, \<open>abs_run\<close>
    for the loop; a grade lookup may print any stored grade of the pair), the
    simulation lemmas \<open>handle_command_abs\<close> and \<open>handle_input_abs\<close>, and the
    theorem \<open>main_refines_spec\<close> that every run of \<open>main\<close> is a run of the
    machine when constraints are checked at \<^verbatim>\<open>execute\<close> (with constraints
    deferred to \<^verbatim>\<open>commit\<close> it is not: \<open>make_new_student\<close> confirms before it
    commits, see \<open>duplicate_student\<close>); with the properties of whole runs:
    \<open>EOFError\<close> comes only after every line was read, a normal end needs a
    \<^verbatim>\<open>quit\<close> line, the row order of students and projects never
    shows in a run, and the bounds on rows added and lines printed (\<open>row_count\<close>).
  \<^item> \<^theory_text>\<open>Program_Entry\<close>: the module globals \<^verbatim>\<open>app = Flask(__name__)\<close> and
    \<^verbatim>\<open>db = SQLAlchemy()\<close> (\<open>module_globals\<close>), \<open>connect_to_db\<close> (two
    \<^verbatim>\<open>app.config\<close> writes, \<^verbatim>\<open>db.app = app\<close>, \<^verbatim>\<open>db.init_app(app)\<close>), the
    Flask-SQLAlchemy 2.x resolution of \<^verbatim>\<open>db.session\<close> (\<open>db_session\<close>), and the
    \<^verbatim>\<open>__main__\<close> block (\<open>run_script\<close>) over a database server, a map from URIs
    to tables.
  \<^item> \<^theory_text>\<open>Spec2Isabelle\<close> (this theory): the scenarios of the spec run end to end
    through \<open>main\<close>.

  Correspondence with the source: the session record stands for
  \<^verbatim>\<open>db.session\<close>; each data-access function of the source is the definition of
  the same name, returning the strings it prints and the session after its
  \<^verbatim>\<open>commit()\<close>, or the strings printed before the exception it raised and the
  exception; the loop's \<open>Crash\<close> keeps that output; \<^verbatim>\<open>input()\<close> is the head of
  the list of remaining input lines, and the end of that list is \<open>EOFError\<close>.
  The command table \<open>cmd_write\<close> and the abstract machine take the argument counts
  the code accepts: \<^verbatim>\<open>new_project\<close> with a single argument inserts a project,
  where spec section 7's wording would make it fatal (C16, recorded as a finding).

  Termination and fuel: no fuel is used. The command loop recurses structurally on
  the list of input lines (the source's \<^verbatim>\<open>while command != "quit"\<close> ends
  only by \<^verbatim>\<open>quit\<close>, by an exception, or by end of input, which raises), and
  \<open>str_split\<close> terminates by the length of the remaining string; every other
  definition is primitive recursive or non-recursive.

  Groups of properties: round trips of the data-access functions and their error
  branches (Operations, C1--C6, C21, C22, C26); behaviour of the loop on each branch of
  the dispatch, the session invariant, refinement of the abstract command table and
  the unread rest of the input (Command_Loop, C7--C17); the tokenizer (Tokenizer,
  C18, C31); the spec's scenarios (this theory, C19, C20); refinement of the spec's
  abstract machine by the whole program and the properties of whole runs
  (Spec_Machine, C23--C25, C27, C29, C30); the program entry (Program_Entry, C28);
  the statement texts and the functions written over them (Sql_Text, C32, C33;
  Sql_Operations, C34).

  The store is not in the repository. Two of its choices are parameters of every
  theorem instead of assumptions: the schema (\<open>schema\<close>: unique GitHub accounts,
  unique project titles, checked grade references) and the order in which
  \<^verbatim>\<open>fetchone()\<close> picks a row (\<open>fetch_order\<close>, lawful when \<open>fetch_ok\<close>). The
  concrete examples run with \<open>heap_order\<close> (first row in insertion order).

  Not modelled: Flask's own default configuration keys and the internals of Flask,
  Flask-SQLAlchemy and the database driver (engines, pools, application contexts;
  the script reads none of them), the lazy opening of the connection (the session is
  resolved once at start, which after \<^verbatim>\<open>connect_to_db\<close> cannot fail and always
  gives the same scoped session), SQL type coercion of the
  \<^verbatim>\<open>grade\<close> and \<^verbatim>\<open>max_grade\<close> columns (values are stored as the strings given,
  as the spec states), failures of the database connection itself (a lost
  connection or a server error; commit fails in the model only on a deferred
  constraint), the parts of SQL the script does not use (quoted names and string
  literals, numbers, comments, operators other than \<^verbatim>\<open>=\<close> and \<^verbatim>\<open>AND\<close>; the
  lexer rejects them), the difference between SQLAlchemy's scan for bind parameters
  and the server's lexer (one scanner here, on which they agree for the script's
  texts), and characters beyond code point 255 in input lines.
\<close>

section \<open>Whole-program scenarios\<close>

text \<open>The lines of the spec's scenarios and their tokens.\<close>

definition ants_line :: string where
  "ants_line = ''new_project Ants '' @ [CHR 0x22] @ ''kill all the ants'' @ [CHR 0x22] @ '' 100''"

definition ada_row :: student_row where
  "ada_row = \<lparr>first_name = ''Ada'', last_name = ''Lovelace'', github = ''ada''\<rparr>"

definition ants_row :: project_row where
  "ants_row = \<lparr>title = ''Ants'', description = [CHR 0x22] @ ''kill all the ants'' @ [CHR 0x22],
               max_grade = ''100''\<rparr>"

lemma scenario_tokens:
  "str_split ''new_student Ada Lovelace ada'' = ''new_student'' # [''Ada'', ''Lovelace'', ''ada'']"
  "str_split ''student ada'' = ''student'' # [''ada'']"
  "str_split ''quit'' = ''quit'' # []"
  "str_split ''give_grade ada Ants 95'' = ''give_grade'' # [''ada'', ''Ants'', ''95'']"
  "str_split ''give_grade ada Ants 80'' = ''give_grade'' # [''ada'', ''Ants'', ''80'']"
  "str_split ''grade ada Ants'' = ''grade'' # [''ada'', ''Ants'']"
  "str_split ants_line =
     ''new_project'' # [''Ants'', CHR 0x22 # ''kill'', ''all'', ''the'', ''ants'' @ [CHR 0x22], ''100'']"
  by (simp_all add: str_split.simps is_py_space_def ants_line_def)

lemma scenario_steps:
  assumes "fetch_order_ok fo"
  shows "handle_command sch fo ''new_student'' [''Ada'', ''Lovelace'', ''ada''] (open_session empty_tables) =
           Inr ([py_print ''Data has been inserted succesfully!''],
                \<lparr>committed = \<lparr>students = [ada_row], projects = [], grades = []\<rparr>, pending = []\<rparr>)"
    and "handle_command sch fo ''student'' [''ada'']
           \<lparr>committed = \<lparr>students = [ada_row], projects = ps, grades = gs\<rparr>, pending = []\<rparr> =
           Inr ([py_print (''Student: Ada Lovelace'' @ nl @ ''GitHub account: ada'')],
                \<lparr>committed = \<lparr>students = [ada_row], projects = ps, grades = gs\<rparr>, pending = []\<rparr>)"
    and "handle_command sch fo ''new_project''
           [''Ants'', CHR 0x22 # ''kill'', ''all'', ''the'', ''ants'' @ [CHR 0x22], ''100'']
           \<lparr>committed = \<lparr>students = [ada_row], projects = [], grades = []\<rparr>, pending = []\<rparr> =
           Inr ([py_print project_ok_msg],
                \<lparr>committed = \<lparr>students = [ada_row], projects = [ants_row], grades = []\<rparr>, pending = []\<rparr>)"
    and "handle_command sch fo ''give_grade'' [''ada'', ''Ants'', ''95'']
           \<lparr>committed = \<lparr>students = [ada_row], projects = [ants_row], grades = []\<rparr>, pending = []\<rparr> =
           Inr ([py_print (assign_grade_msg ''ada'' ''Ants'' ''95'')],
                \<lparr>committed = \<lparr>students = [ada_row], projects = [ants_row],
                   grades = [\<lparr>student_github = ''ada'', project_title = ''Ants'', grade = ''95''\<rparr>]\<rparr>,
                 pending = []\<rparr>)"
    and "handle_command sch fo ''grade'' [''ada'', ''Ants'']
           \<lparr>committed = \<lparr>students = [ada_row], projects = [ants_row],
              grades = [\<lparr>student_github = ''ada'', project_title = ''Ants'', grade = ''95''\<rparr>]\<rparr>,
            pending = []\<rparr> =
           Inr ([py_print ''Grades is 95 for Ants''],
                \<lparr>committed = \<lparr>students = [ada_row], projects = [ants_row],
                   grades = [\<lparr>student_github = ''ada'', project_title = ''Ants'', grade = ''95''\<rparr>]\<rparr>,
                 pending = []\<rparr>)"
proof -
  have fs: "fetch_student fo [ada_row] = Some ada_row"
    and fp: "fetch_project fo [ants_row] = Some ants_row"
    and fg: "fetch_grade fo [''95''] = Some ''95''"
    using fetch_order_okD [OF assms] by (simp_all add: fetch_ok_all_same)
  show "handle_command sch fo ''new_student'' [''Ada'', ''Lovelace'', ''ada''] (open_session empty_tables) =
      Inr ([py_print ''Data has been inserted succesfully!''],
           \<lparr>committed = \<lparr>students = [ada_row], projects = [], grades = []\<rparr>, pending = []\<rparr>)"
    by (simp add: handle_command_def py_simps make_new_student_eq insert_student_def open_session_def
        empty_tables_def committed_after_def ada_row_def)
  show "handle_command sch fo ''student'' [''ada'']
      \<lparr>committed = \<lparr>students = [ada_row], projects = ps, grades = gs\<rparr>, pending = []\<rparr> =
      Inr ([py_print (''Student: Ada Lovelace'' @ nl @ ''GitHub account: ada'')],
           \<lparr>committed = \<lparr>students = [ada_row], projects = ps, grades = gs\<rparr>, pending = []\<rparr>)"
    using fs by (simp add: handle_command_def py_simps get_student_by_github_def select_student_def
        ada_row_def)
  show "handle_command sch fo ''new_project''
      [''Ants'', CHR 0x22 # ''kill'', ''all'', ''the'', ''ants'' @ [CHR 0x22], ''100'']
      \<lparr>committed = \<lparr>students = [ada_row], projects = [], grades = []\<rparr>, pending = []\<rparr> =
      Inr ([py_print project_ok_msg],
           \<lparr>committed = \<lparr>students = [ada_row], projects = [ants_row], grades = []\<rparr>, pending = []\<rparr>)"
    using fp by (simp add: handle_command_def py_simps add_project_eq insert_project_def committed_after_def
        get_project_by_title_def select_project_def ants_row_def)
  show "handle_command sch fo ''give_grade'' [''ada'', ''Ants'', ''95'']
      \<lparr>committed = \<lparr>students = [ada_row], projects = [ants_row], grades = []\<rparr>, pending = []\<rparr> =
      Inr ([py_print (assign_grade_msg ''ada'' ''Ants'' ''95'')],
           \<lparr>committed = \<lparr>students = [ada_row], projects = [ants_row],
              grades = [\<lparr>student_github = ''ada'', project_title = ''Ants'', grade = ''95''\<rparr>]\<rparr>,
            pending = []\<rparr>)"
    by (simp add: handle_command_def py_simps assign_grade_eq insert_grade_def committed_after_def
        ada_row_def ants_row_def)
  show "handle_command sch fo ''grade'' [''ada'', ''Ants'']
      \<lparr>committed = \<lparr>students = [ada_row], projects = [ants_row],
         grades = [\<lparr>student_github = ''ada'', project_title = ''Ants'', grade = ''95''\<rparr>]\<rparr>,
       pending = []\<rparr> =
      Inr ([py_print ''Grades is 95 for Ants''],
           \<lparr>committed = \<lparr>students = [ada_row], projects = [ants_row],
              grades = [\<lparr>student_github = ''ada'', project_title = ''Ants'', grade = ''95''\<rparr>]\<rparr>,
            pending = []\<rparr>)"
    using fg by (simp add: handle_command_def py_simps get_grade_by_github_title_def select_grade_def)
qed

text \<open>C19. The spec's first scenario: \<^verbatim>\<open>new_student Ada Lovelace ada\<close>, then
  \<^verbatim>\<open>student ada\<close>, then \<^verbatim>\<open>quit\<close>, on an empty database prints the
  confirmation and the lines \<^verbatim>\<open>Student: Ada Lovelace\<close> and
  \<^verbatim>\<open>GitHub account: ada\<close>, and leaves that one student in the database, for every
  schema and every lawful row order.\<close>

theorem spec_scenario_student:
  assumes "fetch_order_ok fo"
  shows "main sch fo empty_tables [''new_student Ada Lovelace ada'', ''student ada'', ''quit''] =
           (Quit, [prompt, py_print ''Data has been inserted succesfully!'',
                   prompt, py_print (''Student: Ada Lovelace'' @ nl @ ''GitHub account: ada''),
                   prompt],
            \<lparr>students = [ada_row], projects = [], grades = []\<rparr>)"
  using scenario_steps [OF assms]
  by (simp add: main_def handle_input_line py_simps scenario_tokens handle_command_quit db_close_def)

theorem spec_scenario_student_witness:
  "main demo_schema heap_order empty_tables [''new_student Ada Lovelace ada'', ''student ada'', ''quit''] =
     (Quit, [prompt, py_print ''Data has been inserted succesfully!'',
             prompt, py_print (''Student: Ada Lovelace'' @ nl @ ''GitHub account: ada''),
             prompt],
      \<lparr>students = [ada_row], projects = [], grades = []\<rparr>)"
  by (rule spec_scenario_student [OF fetch_order_ok_heap])

text \<open>C20. The spec's second scenario, after creating the student:
  \<^verbatim>\<open>new_project Ants "kill all the ants" 100\<close> (\<open>ants_line\<close>), \<^verbatim>\<open>give_grade ada Ants 95\<close>,
  \<^verbatim>\<open>grade ada Ants\<close> prints \<^verbatim>\<open>Grades is 95 for Ants\<close>, for every schema and
  every lawful row order. The stored description keeps the double quotes: the
  tokenizer does not treat quotes specially.\<close>

theorem spec_scenario_grade:
  assumes "fetch_order_ok fo"
  shows "main sch fo empty_tables
           [''new_student Ada Lovelace ada'',
            ants_line,
            ''give_grade ada Ants 95'', ''grade ada Ants'', ''quit''] =
           (Quit, [prompt, py_print ''Data has been inserted succesfully!'',
                   prompt, py_print project_ok_msg,
                   prompt, py_print (assign_grade_msg ''ada'' ''Ants'' ''95''),
                   prompt, py_print ''Grades is 95 for Ants'',
                   prompt],
            \<lparr>students = [ada_row], projects = [ants_row],
             grades = [\<lparr>student_github = ''ada'', project_title = ''Ants'', grade = ''95''\<rparr>]\<rparr>)"
  using scenario_steps [OF assms]
  by (simp add: main_def handle_input_line py_simps scenario_tokens handle_command_quit db_close_def)

theorem spec_scenario_grade_witness:
  "main demo_schema heap_order empty_tables
     [''new_student Ada Lovelace ada'',
      ants_line,
      ''give_grade ada Ants 95'', ''grade ada Ants'', ''quit''] =
     (Quit, [prompt, py_print ''Data has been inserted succesfully!'',
             prompt, py_print project_ok_msg,
             prompt, py_print (assign_grade_msg ''ada'' ''Ants'' ''95''),
             prompt, py_print ''Grades is 95 for Ants'',
             prompt],
      \<lparr>students = [ada_row], projects = [ants_row],
       grades = [\<lparr>student_github = ''ada'', project_title = ''Ants'', grade = ''95''\<rparr>]\<rparr>)"
  by (rule spec_scenario_grade [OF fetch_order_ok_heap])

end
